(* ===== verification/Prelude.thy ===== *)
theory Prelude
  imports Main
begin

text \<open>
  Shared vocabulary of the development. The benchmark driver
  \<^verbatim>\<open>src/bin/server_bench.py\<close> is a Python 2 script; every statement of it
  either returns normally, raises an exception, or ends the process. This
  theory fixes how those outcomes are written:
  \<^item> \<open>exn\<close> lists the exceptions the script raises or lets escape, with
    \<open>is_Exception\<close> separating the subclasses of \<^verbatim>\<open>Exception\<close> (caught by the
    script's \<^verbatim>\<open>except Exception\<close> clauses) from \<^verbatim>\<open>SystemExit\<close> and
    \<^verbatim>\<open>KeyboardInterrupt\<close>, which derive from \<^verbatim>\<open>BaseException\<close> only;
  \<^item> \<open>('s, 'a) py\<close> is a computation on a state \<open>'s\<close> that returns \<open>Inr\<close> of a
    value or \<open>Inl\<close> of the exception it raised, together with the state reached
    (effects done before a raise are kept, as in Python);
  \<^item> \<open>py_bind\<close>, \<open>py_seq\<close>, \<open>py_catch\<close> are sequencing and \<^verbatim>\<open>try/except\<close>.
  The named collection \<open>py_simps\<close> gathers the rules that evaluate these
  combinators; component proofs use \<open>simp add: py_simps\<close>.
\<close>

named_theorems py_simps "evaluation rules of the Python outcome combinators"

section \<open>Exceptions\<close>

text \<open>
  \<open>ProcessKilled sig\<close> is not a Python exception: it records that the process
  was ended by signal \<open>sig\<close> with its default action (as for SIGTERM), so that no
  \<^verbatim>\<open>except\<close> clause and no \<^verbatim>\<open>atexit\<close> handler sees it.
\<close>

datatype exn =
    SystemExit int
  | KeyboardInterrupt
  | ProcessKilled nat
  | NameError string
  | AssertionError
  | IOError string
  | OSError string
  | ValueError string
  | SocketError string

fun is_Exception :: "exn \<Rightarrow> bool" where
  "is_Exception (SystemExit _) = False"
| "is_Exception KeyboardInterrupt = False"
| "is_Exception (ProcessKilled _) = False"
| "is_Exception _ = True"

text \<open>A bare \<^verbatim>\<open>except:\<close> catches every Python exception, but not a signal death.\<close>

fun is_BaseException :: "exn \<Rightarrow> bool" where
  "is_BaseException (ProcessKilled _) = False"
| "is_BaseException _ = True"

text \<open>\<^verbatim>\<open>str(e)\<close> for the exceptions the driver prints.\<close>

fun exn_str :: "exn \<Rightarrow> string" where
  "exn_str (NameError n) = ''global name '' @ n @ '' is not defined''"
| "exn_str (IOError m) = m"
| "exn_str (OSError m) = m"
| "exn_str (ValueError m) = m"
| "exn_str (SocketError m) = m"
| "exn_str _ = []"

section \<open>Outcomes and their combinators\<close>

type_synonym ('s, 'a) py = "'s \<Rightarrow> (exn + 'a) \<times> 's"

definition py_return :: "'a \<Rightarrow> ('s, 'a) py" where
  "py_return x = (\<lambda>s. (Inr x, s))"

definition py_raise :: "exn \<Rightarrow> ('s, 'a) py" where
  "py_raise e = (\<lambda>s. (Inl e, s))"

definition py_bind :: "('s, 'a) py \<Rightarrow> ('a \<Rightarrow> ('s, 'b) py) \<Rightarrow> ('s, 'b) py" where
  "py_bind m f = (\<lambda>s. case m s of (Inl e, s') \<Rightarrow> (Inl e, s') | (Inr x, s') \<Rightarrow> f x s')"

definition py_seq :: "('s, unit) py \<Rightarrow> ('s, 'b) py \<Rightarrow> ('s, 'b) py" where
  "py_seq m n = py_bind m (\<lambda>_. n)"

text \<open>\<^verbatim>\<open>try: m except <p>: h\<close>: the handler runs on the state the raise left.\<close>

definition py_catch :: "('s, 'a) py \<Rightarrow> (exn \<Rightarrow> bool) \<Rightarrow> (exn \<Rightarrow> ('s, 'a) py) \<Rightarrow> ('s, 'a) py" where
  "py_catch m p h = (\<lambda>s. case m s of
      (Inl e, s') \<Rightarrow> (if p e then h e s' else (Inl e, s'))
    | (Inr x, s') \<Rightarrow> (Inr x, s'))"

definition py_when :: "bool \<Rightarrow> ('s, unit) py \<Rightarrow> ('s, unit) py" where
  "py_when b m = (if b then m else py_return ())"

text \<open>
  A property \<open>P\<close> of states that each step keeps is kept by a sequence of steps,
  whatever the outcome: the frame rule the component proofs share.
\<close>

definition py_keeps :: "('s \<Rightarrow> 's \<Rightarrow> bool) \<Rightarrow> ('s, 'a) py \<Rightarrow> bool" where
  "py_keeps R m \<longleftrightarrow> (\<forall>s. R s (snd (m s)))"

text \<open>\<open>py_keeps_raising R m\<close>: the relation holds between the start and the
  end state whenever \<open>m\<close> ends with an exception, the frame rule for the
  exceptional path of a step that may undo things on its normal path.\<close>

definition py_keeps_raising :: "('s \<Rightarrow> 's \<Rightarrow> bool) \<Rightarrow> ('s, 'a) py \<Rightarrow> bool" where
  "py_keeps_raising R m \<longleftrightarrow> (\<forall>s. isl (fst (m s)) \<longrightarrow> R s (snd (m s)))"

section \<open>Dictionaries\<close>

text \<open>
  \<^verbatim>\<open>dict(pairs)\<close>: the pairs are stored left to right, so a later pair for the
  same key overwrites an earlier one.
\<close>

definition dict_of :: "('k \<times> 'v) list \<Rightarrow> 'k \<rightharpoonup> 'v" where
  "dict_of kvs = fold (\<lambda>(k, v) m. m(k \<mapsto> v)) kvs Map.empty"

lemma py_return_apply [py_simps]: "py_return x s = (Inr x, s)"
  by (simp add: py_return_def)

lemma py_raise_apply [py_simps]: "py_raise e s = (Inl e, s)"
  by (simp add: py_raise_def)

lemma py_bind_apply [py_simps]:
  "py_bind m f s = (case m s of (Inl e, s') \<Rightarrow> (Inl e, s') | (Inr x, s') \<Rightarrow> f x s')"
  by (simp add: py_bind_def)

lemma py_seq_apply [py_simps]:
  "py_seq m n s = (case m s of (Inl e, s') \<Rightarrow> (Inl e, s') | (Inr x, s') \<Rightarrow> n s')"
  by (simp add: py_seq_def py_bind_def)

lemma py_catch_apply [py_simps]:
  "py_catch m p h s = (case m s of
      (Inl e, s') \<Rightarrow> (if p e then h e s' else (Inl e, s'))
    | (Inr x, s') \<Rightarrow> (Inr x, s'))"
  by (simp add: py_catch_def)

lemma py_when_apply [py_simps]: "py_when b m s = (if b then m s else (Inr (), s))"
  by (simp add: py_when_def py_return_def)

lemma py_bind_Inr [py_simps]: "m s = (Inr x, s') \<Longrightarrow> py_bind m f s = f x s'"
  by (simp add: py_bind_def)

lemma py_bind_Inl [py_simps]: "m s = (Inl e, s') \<Longrightarrow> py_bind m f s = (Inl e, s')"
  by (simp add: py_bind_def)

lemma py_seq_Inr [py_simps]: "m s = (Inr x, s') \<Longrightarrow> py_seq m n s = n s'"
  by (simp add: py_seq_def py_bind_def)

lemma py_seq_Inl [py_simps]: "m s = (Inl e, s') \<Longrightarrow> py_seq m n s = (Inl e, s')"
  by (simp add: py_seq_def py_bind_def)

section \<open>Generic laws\<close>

lemma py_bind_return_left: "py_bind (py_return x) f = f x"
  by (simp add: py_bind_def py_return_def)

lemma py_bind_raise_left: "py_bind (py_raise e) f = py_raise e"
  by (simp add: py_bind_def py_raise_def)

lemma py_bind_assoc: "py_bind (py_bind m f) g = py_bind m (\<lambda>x. py_bind (f x) g)"
  by (rule ext) (simp add: py_bind_def split: prod.splits sum.splits)

lemma py_keeps_return: "reflp R \<Longrightarrow> py_keeps R (py_return x)"
  by (simp add: py_keeps_def py_return_def reflp_def)

lemma py_keeps_raise: "reflp R \<Longrightarrow> py_keeps R (py_raise e)"
  by (simp add: py_keeps_def py_raise_def reflp_def)

lemma py_keeps_bind:
  assumes "transp R" "reflp R" "py_keeps R m" "\<And>x. py_keeps R (f x)"
  shows "py_keeps R (py_bind m f)"
  unfolding py_keeps_def
proof
  fix s
  obtain r s' where ms: "m s = (r, s')" by (cases "m s")
  from assms(3) ms have "R s s'" by (metis py_keeps_def snd_conv)
  show "R s (snd (py_bind m f s))"
  proof (cases r)
    case (Inl e)
    with ms \<open>R s s'\<close> show ?thesis by (simp add: py_bind_def)
  next
    case (Inr x)
    with assms(4) have "R s' (snd (f x s'))" by (simp add: py_keeps_def)
    with ms Inr \<open>R s s'\<close> assms(1) show ?thesis
      by (simp add: py_bind_def) (metis transpD)
  qed
qed

lemma py_keeps_seq:
  "transp R \<Longrightarrow> reflp R \<Longrightarrow> py_keeps R m \<Longrightarrow> py_keeps R n \<Longrightarrow> py_keeps R (py_seq m n)"
  unfolding py_seq_def by (rule py_keeps_bind) auto

lemma py_keeps_catch:
  assumes "transp R" "py_keeps R m" "\<And>e. py_keeps R (h e)"
  shows "py_keeps R (py_catch m p h)"
  unfolding py_keeps_def
proof
  fix s
  obtain r s' where ms: "m s = (r, s')" by (cases "m s")
  from assms(2) ms have "R s s'" by (metis py_keeps_def snd_conv)
  moreover have "R s' (snd (h e s'))" for e using assms(3) by (simp add: py_keeps_def)
  ultimately show "R s (snd (py_catch m p h s))"
    using ms assms(1) by (cases r) (auto simp: py_catch_def dest: transpD)
qed

lemma py_keeps_when: "reflp R \<Longrightarrow> py_keeps R m \<Longrightarrow> py_keeps R (py_when b m)"
  by (simp add: py_when_def py_keeps_return)

lemma py_keeps_if: "py_keeps R m \<Longrightarrow> py_keeps R n \<Longrightarrow> py_keeps R (if b then m else n)"
  by simp

lemma py_keeps_raisingI: "py_keeps R m \<Longrightarrow> py_keeps_raising R m"
  by (simp add: py_keeps_def py_keeps_raising_def)

lemma py_keeps_raising_unchanged:
  "reflp R \<Longrightarrow> (\<And>s e s'. m s = (Inl e, s') \<Longrightarrow> s' = s) \<Longrightarrow> py_keeps_raising R m"
  unfolding py_keeps_raising_def by (metis isl_def prod.collapse reflpD)

lemma py_keeps_raising_bind:
  assumes "transp R" "py_keeps R m" "\<And>x. py_keeps_raising R (f x)"
  shows "py_keeps_raising R (py_bind m f)"
  unfolding py_keeps_raising_def
proof (intro allI impI)
  fix s
  obtain r s' where ms: "m s = (r, s')" by (cases "m s")
  from assms(2) ms have R1: "R s s'" by (metis py_keeps_def snd_conv)
  assume raised: "isl (fst (py_bind m f s))"
  show "R s (snd (py_bind m f s))"
  proof (cases r)
    case (Inl e)
    with ms R1 show ?thesis by (simp add: py_bind_def)
  next
    case (Inr x)
    with ms raised have "isl (fst (f x s'))" by (simp add: py_bind_def)
    with assms(3) have "R s' (snd (f x s'))" by (simp add: py_keeps_raising_def)
    with ms Inr R1 assms(1) show ?thesis by (simp add: py_bind_def) (metis transpD)
  qed
qed

lemma py_keeps_raising_seq:
  "transp R \<Longrightarrow> py_keeps R m \<Longrightarrow> py_keeps_raising R n \<Longrightarrow> py_keeps_raising R (py_seq m n)"
  unfolding py_seq_def by (rule py_keeps_raising_bind) auto

section \<open>Dictionary lemmas\<close>

lemma fold_upd_map_of: "fold (\<lambda>(k, v) m. m(k \<mapsto> v)) kvs m = m ++ map_of (rev kvs)"
  by (induction kvs arbitrary: m) (auto simp: map_add_def map_of_append split: option.splits)

lemma dict_of_map_of: "dict_of kvs = map_of (rev kvs)"
  by (simp add: dict_of_def fold_upd_map_of)

lemma dict_of_distinct: "distinct (map fst kvs) \<Longrightarrow> dict_of kvs = map_of kvs"
  by (simp add: dict_of_map_of map_of_inject_set rev_map [symmetric] distinct_rev)

lemma dom_dict_of [simp]: "dom (dict_of kvs) = fst ` set kvs"
  by (simp add: dict_of_map_of dom_map_of_conv_image_fst)

section \<open>Inversion of successful sequences\<close>

lemma py_seq_InrE:
  assumes "py_seq m n s = (Inr x, s'')"
  obtains s' where "m s = (Inr (), s')" and "n s' = (Inr x, s'')"
  using assms by (cases "m s") (auto simp: py_seq_def py_bind_def split: sum.splits)

lemma py_bind_InrE:
  assumes "py_bind m f s = (Inr x, s'')"
  obtains y s' where "m s = (Inr y, s')" and "f y s' = (Inr x, s'')"
  using assms by (cases "m s") (auto simp: py_bind_def split: sum.splits)

end
