(* ===== verification/Py_Strings.thy ===== *)
theory Py_Strings
  imports Prelude
begin

text \<open>
  The string operations of Python 2 that the driver applies to its own data:
  \<^verbatim>\<open>str.split(",")\<close> (the \<^verbatim>\<open>-t\<close> option), \<^verbatim>\<open>" ".join\<close> (the verbose
  command echo), \<^verbatim>\<open>str.endswith\<close> and slicing (the URL normalisation loop),
  the substring test \<^verbatim>\<open>a in b\<close> (the same-host guard) and \<^verbatim>\<open>str(n)\<close> /
  \<^verbatim>\<open>%d\<close> of a non-negative integer (ports, connection counts, file names).
  Python 2 \<^verbatim>\<open>str\<close> is a byte string, so \<open>string\<close> (a list of 8-bit \<open>char\<close>s)
  counts what Python counts. Each operation has its round trip or its
  characterisation here.
\<close>

section \<open>split and join\<close>

fun split_acc :: "char \<Rightarrow> string \<Rightarrow> string \<Rightarrow> string list" where
  "split_acc c cur [] = [rev cur]"
| "split_acc c cur (x # xs) =
     (if x = c then rev cur # split_acc c [] xs else split_acc c (x # cur) xs)"

text \<open>\<^verbatim>\<open>s.split(c)\<close> for a one-character separator: never empty, keeps empty fields.\<close>

definition py_split :: "char \<Rightarrow> string \<Rightarrow> string list" where
  "py_split c s = split_acc c [] s"

fun py_join :: "string \<Rightarrow> string list \<Rightarrow> string" where
  "py_join sep [] = []"
| "py_join sep [w] = w"
| "py_join sep (w # ws) = w @ sep @ py_join sep ws"

text \<open>A triple-quoted literal of the source, line by line.\<close>

definition text_lines :: "string list \<Rightarrow> string" where
  "text_lines ls = py_join ''\<newline>'' ls"

section \<open>Suffix test\<close>

definition py_endswith :: "string \<Rightarrow> string \<Rightarrow> bool" where
  "py_endswith s suf \<longleftrightarrow> length suf \<le> length s \<and> drop (length s - length suf) s = suf"

section \<open>Substring test\<close>

definition py_startswith :: "string \<Rightarrow> string \<Rightarrow> bool" where
  "py_startswith s pre \<longleftrightarrow> take (length pre) s = pre"

text \<open>\<^verbatim>\<open>needle in hay\<close> for strings: some position of \<open>hay\<close> starts with \<open>needle\<close>.\<close>

fun py_in :: "string \<Rightarrow> string \<Rightarrow> bool" where
  "py_in n [] \<longleftrightarrow> n = []"
| "py_in n (x # xs) \<longleftrightarrow> py_startswith (x # xs) n \<or> py_in n xs"

section \<open>Decimal rendering of naturals\<close>

definition digit_char :: "nat \<Rightarrow> char" where
  "digit_char d = char_of (48 + d)"

fun str_nat :: "nat \<Rightarrow> string" where
  "str_nat n = (if n < 10 then [digit_char n] else str_nat (n div 10) @ [digit_char (n mod 10)])"

definition digit_val :: "char \<Rightarrow> nat" where
  "digit_val c = of_char c - 48"

definition nat_of_str :: "string \<Rightarrow> nat" where
  "nat_of_str s = foldl (\<lambda>acc c. 10 * acc + digit_val c) 0 s"

section \<open>Properties of the string operations\<close>

lemma split_acc_nonempty: "split_acc c cur s \<noteq> []"
  by (induction c cur s rule: split_acc.induct) auto

lemma py_join_Cons: "ws \<noteq> [] \<Longrightarrow> py_join sep (w # ws) = w @ sep @ py_join sep ws"
  by (cases ws) auto

lemma join_split_acc: "py_join [c] (split_acc c cur s) = rev cur @ s"
proof (induction c cur s rule: split_acc.induct)
  case (1 c cur)
  then show ?case by simp
next
  case (2 c cur x xs)
  then show ?case by (auto simp: py_join_Cons split_acc_nonempty)
qed

lemma split_acc_no_sep: "c \<notin> set cur \<Longrightarrow> w \<in> set (split_acc c cur s) \<Longrightarrow> c \<notin> set w"
  by (induction c cur s rule: split_acc.induct) (auto split: if_splits)

lemma split_acc_append:
  "c \<notin> set w \<Longrightarrow> split_acc c cur (w @ rest) = split_acc c (rev w @ cur) rest"
  by (induction w arbitrary: cur) auto

lemma split_join:
  "ws \<noteq> [] \<Longrightarrow> \<forall>w \<in> set ws. c \<notin> set w \<Longrightarrow> py_split c (py_join [c] ws) = ws"
proof (induction ws)
  case (Cons w ws)
  show ?case
  proof (cases ws)
    case Nil
    have "split_acc c [] w = split_acc c (rev w) []"
      using split_acc_append [of c w "[]" "[]"] Cons.prems by simp
    with Nil show ?thesis by (simp add: py_split_def)
  next
    case (Cons v vs)
    have "split_acc c [] (w @ c # py_join [c] ws) = split_acc c (rev w) (c # py_join [c] ws)"
      using split_acc_append [of c w "[]"] Cons.prems by simp
    with Cons.IH Cons.prems \<open>ws = v # vs\<close> show ?thesis
      by (simp add: py_split_def py_join_Cons)
  qed
qed simp

lemma py_endswith_slash: "py_endswith s ''/'' \<longleftrightarrow> s \<noteq> [] \<and> last s = CHR ''/''"
proof (cases s rule: rev_cases)
  case Nil
  then show ?thesis by (simp add: py_endswith_def)
next
  case (snoc ys y)
  then show ?thesis by (auto simp: py_endswith_def)
qed

lemma py_startswith_iff: "py_startswith s pre \<longleftrightarrow> (\<exists>q. s = pre @ q)"
  unfolding py_startswith_def by (metis append_eq_conv_conj)

lemma py_in_iff: "py_in n h \<longleftrightarrow> (\<exists>p q. h = p @ n @ q)"
proof (induction h)
  case Nil
  then show ?case by simp
next
  case (Cons x xs)
  have "(\<exists>p q. x # xs = p @ n @ q) \<longleftrightarrow> (\<exists>q. x # xs = n @ q) \<or> (\<exists>p q. xs = p @ n @ q)"
    by (auto simp: Cons_eq_append_conv)
  with Cons show ?case by (simp add: py_startswith_iff)
qed

lemma py_in_append: "py_in n (p @ n @ q)"
  by (auto simp: py_in_iff)

declare str_nat.simps [simp del]

text \<open>Evaluation of \<open>str_nat\<close> on a numeral, for concrete runs.\<close>

lemmas str_nat_eval = str_nat.simps digit_char_def char_of_def bit_0

lemma digit_val_char [simp]: "d < 10 \<Longrightarrow> digit_val (digit_char d) = d"
  by (simp add: digit_val_def digit_char_def)

lemma of_char_digit: "d < 10 \<Longrightarrow> (of_char (digit_char d) :: nat) = 48 + d"
  by (simp add: digit_char_def)

lemma str_nat_roundtrip: "nat_of_str (str_nat n) = n"
proof (induction n rule: str_nat.induct)
  case (1 n)
  show ?case
  proof (cases "n < 10")
    case True
    then show ?thesis by (simp add: str_nat.simps [of n] nat_of_str_def)
  next
    case False
    with "1.IH" have "nat_of_str (str_nat (n div 10)) = n div 10" by simp
    with False show ?thesis
      by (simp add: str_nat.simps [of n] nat_of_str_def)
  qed
qed

text \<open>Every character of \<open>str_nat n\<close> is an ASCII digit, \<^verbatim>\<open>'0'\<close> to \<^verbatim>\<open>'9'\<close>.\<close>

lemma str_nat_digits: "c \<in> set (str_nat n) \<Longrightarrow> (48::nat) \<le> of_char c \<and> of_char c \<le> (57::nat)"
proof (induction n rule: str_nat.induct)
  case (1 n)
  then show ?case
    using of_char_digit [of n] of_char_digit [of "n mod 10"]
    by (cases "n < 10") (auto simp: str_nat.simps [of n])
qed

lemma str_nat_no_sep: "c \<in> set (str_nat n) \<Longrightarrow> c \<noteq> CHR '':'' \<and> c \<noteq> CHR ''/''"
  using str_nat_digits [of c n] by auto

lemma str_nat_nonempty: "str_nat n \<noteq> []"
  by (simp add: str_nat.simps [of n])

lemma str_nat_inj: "str_nat m = str_nat n \<Longrightarrow> m = n"
  by (metis str_nat_roundtrip)

end
