(* ===== verification/Harness_State.thy ===== *)
theory Harness_State
  imports Py_Strings
begin

text \<open>
  The state the driver acts on and the library calls it makes. None of this is
  code of the repository: it is the interface of the Python standard library
  and of the operating system (\<^verbatim>\<open>os\<close>, \<^verbatim>\<open>resource\<close>, \<^verbatim>\<open>subprocess\<close>,
  \<^verbatim>\<open>httplib\<close>, \<^verbatim>\<open>time\<close>, \<^verbatim>\<open>json\<close>, \<^verbatim>\<open>atexit\<close>) as the script uses it.
  \<^item> \<open>world\<close> is what the driver changes: files and directories, live child
    processes, the registered \<^verbatim>\<open>atexit\<close> callbacks, the descriptor limits, and
    \<open>trace\<close>, the ordered list of observable actions (output lines, file writes,
    process spawns and kills, sleeps, HTTP requests).
  \<^item> \<open>'j env\<close> is what the driver only reads: its process id and host name, the
    script directory, which paths are executable, how the server under test
    answers the health-check attempt \<open>t\<close>, what the load generator writes for a
    given child and command line, and the JSON library (\<open>'j\<close> is the type of
    parsed JSON values, opaque to the driver).
  \<^item> The file system: \<open>fs\<close> maps file paths to contents and \<open>dirs\<close> maps
    directory paths to whether they are writable. Files carry no permission
    bits (every file may be read and overwritten); paths are compared as
    strings, not normalised. \<^verbatim>\<open>os.mkdir\<close> and \<^verbatim>\<open>open(p, "w")\<close> check
    the parent directory with the kernel's error numbers; writing to a path
    that is itself a directory is not modelled.
\<close>

section \<open>Observable actions, world and environment\<close>

datatype event =
    Print string
  | Mkdir string
  | WriteFile string
  | Unlink string
  | SetRlimit nat nat
  | Spawn nat "string list"
  | Kill nat
  | Reaped nat
  | Sleep nat
  | Connect string nat
  | HttpGet string

text \<open>Values of the results dictionary: the version string, or a parsed JSON value.\<close>

datatype 'j rval = RStr string | RJson 'j

text \<open>How the blocking \<^verbatim>\<open>server.wait()\<close> ends: the child exits, the user hits
  \<^verbatim>\<open>^C\<close> (SIGINT, raised as \<^verbatim>\<open>KeyboardInterrupt\<close>), or the driver receives SIGTERM.\<close>

datatype wait_outcome = ChildExits | SigInt | SigTerm

record world =
  fs :: "string \<rightharpoonup> string"
  dirs :: "string \<rightharpoonup> bool"
  live :: "nat list"
  next_pid :: nat
  atexit_pids :: "nat list"
  rlim_soft :: nat
  rlim_hard :: nat
  trace :: "event list"

record 'j env =
  env_pid :: nat
  env_hostname :: string
  env_script_dir :: string
  env_script_path :: string
  env_executable :: "string \<Rightarrow> bool"
  env_rlimit_ok :: bool
  env_connect :: "nat \<Rightarrow> exn option"
  env_reply :: "nat \<Rightarrow> string \<Rightarrow> exn + nat \<times> string"
  env_tool_output :: "nat \<Rightarrow> string list \<Rightarrow> string option"
  env_json_load :: "string \<Rightarrow> 'j option"
  env_json_dump :: "(string \<rightharpoonup> 'j rval) \<Rightarrow> string"
  env_wait :: wait_outcome

type_synonym 'a act = "(world, 'a) py"

definition emit :: "event \<Rightarrow> world \<Rightarrow> world" where
  "emit e s = s\<lparr>trace := trace s @ [e]\<rparr>"

definition printed :: "world \<Rightarrow> string list" where
  "printed s = [m. Print m \<leftarrow> trace s]"

text \<open>A concrete starting state for the witnesses: an empty working directory,
  no children, soft limit 1024 under a hard limit of 4096.\<close>

definition world0 :: world where
  "world0 = \<lparr>fs = Map.empty, dirs = [''.'' \<mapsto> True], live = [], next_pid = 1000,
     atexit_pids = [], rlim_soft = 1024, rlim_hard = 4096, trace = []\<rparr>"

text \<open>A concrete environment for the witnesses: process 4242 on \<^verbatim>\<open>hickory.rlogin\<close>,
  the script in \<^verbatim>\<open>/bench\<close>, only \<^verbatim>\<open>./sysstatd\<close> executable, a server that
  accepts every connection and answers 404, no load generator output.\<close>

definition env0 :: "unit env" where
  "env0 = \<lparr>env_pid = 4242, env_hostname = ''hickory.rlogin'', env_script_dir = ''/bench'',
     env_script_path = ''/bench/server_bench.py'',
     env_executable = (\<lambda>p. p = ''./sysstatd''), env_rlimit_ok = True,
     env_connect = (\<lambda>_. None), env_reply = (\<lambda>_ _. Inr (404, [])),
     env_tool_output = (\<lambda>_ _. None), env_json_load = (\<lambda>_. None),
     env_json_dump = (\<lambda>_. []), env_wait = ChildExits\<rparr>"

section \<open>Library calls\<close>

definition py_get :: "(world \<Rightarrow> 'a) \<Rightarrow> 'a act" where
  "py_get f = (\<lambda>s. (Inr (f s), s))"

definition py_print :: "string \<Rightarrow> unit act" where
  "py_print m = (\<lambda>s. (Inr (), emit (Print m) s))"

fun print_all :: "string list \<Rightarrow> unit act" where
  "print_all [] = py_return ()"
| "print_all (m # ms) = py_seq (py_print m) (print_all ms)"

definition sys_exit :: "int \<Rightarrow> 'a act" where
  "sys_exit n = py_raise (SystemExit n)"

definition os_access_x :: "'j env \<Rightarrow> string \<Rightarrow> bool" where
  "os_access_x E p = env_executable E p"

text \<open>\<^verbatim>\<open>os.access(p, os.W_OK)\<close>: a writable directory, or an existing file
  (files carry no permission bits in the model); the empty path does not exist.\<close>

definition os_access_w :: "string \<Rightarrow> bool act" where
  "os_access_w p = py_get (\<lambda>s. p \<noteq> [] \<and> (dirs s p = Some True \<or> fs s p \<noteq> None))"

definition os_access_r :: "string \<Rightarrow> bool act" where
  "os_access_r p = py_get (\<lambda>s. fs s p \<noteq> None)"

text \<open>The directory part of a path, as \<^verbatim>\<open>os.path.dirname\<close> (with \<^verbatim>\<open>.\<close>
  for a path without a slash, which names a file of the working directory).\<close>

definition dirname :: "string \<Rightarrow> string" where
  "dirname p = (let r = dropWhile (\<lambda>c. c \<noteq> CHR ''/'') (rev p)
                in if r = [] then ''.'' else if tl r = [] then ''/'' else rev (tl r))"

text \<open>\<^verbatim>\<open>os.mkdir(p)\<close>, with the checks of \<^verbatim>\<open>mkdir(2)\<close> in the kernel's
  order: the parent must exist (\<^verbatim>\<open>ENOENT\<close>) and be a directory
  (\<^verbatim>\<open>ENOTDIR\<close>), the name must be free (\<^verbatim>\<open>EEXIST\<close>), and the parent
  must be writable (\<^verbatim>\<open>EACCES\<close>).\<close>

definition os_mkdir :: "string \<Rightarrow> unit act" where
  "os_mkdir p = (\<lambda>s.
     if p = [] \<or> (dirs s (dirname p) = None \<and> fs s (dirname p) = None)
       then (Inl (OSError ''[Errno 2] No such file or directory''), s)
     else if dirs s (dirname p) = None then (Inl (OSError ''[Errno 20] Not a directory''), s)
     else if dirs s p \<noteq> None \<or> fs s p \<noteq> None then (Inl (OSError ''[Errno 17] File exists''), s)
     else if dirs s (dirname p) = Some False then (Inl (OSError ''[Errno 13] Permission denied''), s)
     else (Inr (), emit (Mkdir p) (s\<lparr>dirs := (dirs s)(p \<mapsto> True)\<rparr>)))"

text \<open>\<^verbatim>\<open>open(p, "w").write(c)\<close>: the file's directory must exist, be a
  directory and be writable; otherwise \<^verbatim>\<open>open\<close> raises \<^verbatim>\<open>IOError\<close>
  with the kernel's reason.\<close>

definition write_path :: "string \<Rightarrow> string \<Rightarrow> unit act" where
  "write_path p c = (\<lambda>s.
     if dirs s (dirname p) = Some True
     then (Inr (), emit (WriteFile p) (s\<lparr>fs := (fs s)(p \<mapsto> c)\<rparr>))
     else if dirs s (dirname p) = Some False then (Inl (IOError ''[Errno 13] Permission denied''), s)
     else if fs s (dirname p) \<noteq> None then (Inl (IOError ''[Errno 20] Not a directory''), s)
     else (Inl (IOError ''[Errno 2] No such file or directory''), s))"

definition read_path :: "string \<Rightarrow> string act" where
  "read_path p = (\<lambda>s. case fs s p of
       None \<Rightarrow> (Inl (IOError ''[Errno 2] No such file or directory''), s)
     | Some c \<Rightarrow> (Inr c, s))"

definition os_unlink :: "string \<Rightarrow> unit act" where
  "os_unlink p = (\<lambda>s. case fs s p of
       None \<Rightarrow> (Inl (OSError ''[Errno 2] No such file or directory''), s)
     | Some _ \<Rightarrow> (Inr (), emit (Unlink p) (s\<lparr>fs := (fs s)(p := None)\<rparr>)))"

definition time_sleep :: "nat \<Rightarrow> unit act" where
  "time_sleep n = (\<lambda>s. (Inr (), emit (Sleep n) s))"

definition getrlimit :: "(nat \<times> nat) act" where
  "getrlimit = py_get (\<lambda>s. (rlim_soft s, rlim_hard s))"

text \<open>
  \<^verbatim>\<open>resource.setrlimit\<close> raises \<^verbatim>\<open>ValueError\<close> for a soft limit above the hard
  one, for a hard limit above the current one (no privilege), and where the
  platform refuses the value (\<open>env_rlimit_ok\<close> false, e.g. an unlimited hard limit).
\<close>

definition setrlimit :: "'j env \<Rightarrow> nat \<Rightarrow> nat \<Rightarrow> unit act" where
  "setrlimit E soft hard = (\<lambda>s.
     if \<not> env_rlimit_ok E \<or> hard < soft \<or> rlim_hard s < hard
     then (Inl (ValueError ''not allowed to raise maximum limit''), s)
     else (Inr (), emit (SetRlimit soft hard) (s\<lparr>rlim_soft := soft, rlim_hard := hard\<rparr>)))"

text \<open>\<^verbatim>\<open>subprocess.Popen(argv)\<close>: \<^verbatim>\<open>OSError\<close> when the program is missing.\<close>

definition popen :: "'j env \<Rightarrow> string list \<Rightarrow> nat act" where
  "popen E argv = (\<lambda>s.
     if argv \<noteq> [] \<and> env_executable E (hd argv)
     then (Inr (next_pid s),
           emit (Spawn (next_pid s) argv)
             (s\<lparr>live := live s @ [next_pid s], next_pid := Suc (next_pid s)\<rparr>))
     else (Inl (OSError ''[Errno 2] No such file or directory''), s))"

text \<open>\<^verbatim>\<open>os.kill(pid, signal.SIGKILL)\<close>: \<^verbatim>\<open>OSError\<close> when no such child is alive.\<close>

definition os_kill :: "nat \<Rightarrow> unit act" where
  "os_kill p = (\<lambda>s.
     if p \<in> set (live s)
     then (Inr (), emit (Kill p) (s\<lparr>live := removeAll p (live s)\<rparr>))
     else (Inl (OSError ''[Errno 3] No such process''), s))"

text \<open>
  \<^verbatim>\<open>child.wait()\<close> on the load generator: it runs to completion and, if it
  writes one, leaves its JSON result in the file its environment names.
\<close>

definition wait_tool :: "'j env \<Rightarrow> nat \<Rightarrow> string list \<Rightarrow> string \<Rightarrow> unit act" where
  "wait_tool E p argv resfile = (\<lambda>s.
     (Inr (), emit (Reaped p)
        (s\<lparr>fs := (case env_tool_output E p argv of None \<Rightarrow> fs s | Some out \<Rightarrow> (fs s)(resfile \<mapsto> out)),
            live := removeAll p (live s)\<rparr>)))"

text \<open>\<^verbatim>\<open>server.wait()\<close> on the server under test, ended as \<open>env_wait\<close> says.\<close>

definition wait_server :: "'j env \<Rightarrow> nat \<Rightarrow> unit act" where
  "wait_server E p = (\<lambda>s. case env_wait E of
       ChildExits \<Rightarrow> (Inr (), emit (Reaped p) (s\<lparr>live := removeAll p (live s)\<rparr>))
     | SigInt \<Rightarrow> (Inl KeyboardInterrupt, s)
     | SigTerm \<Rightarrow> (Inl (ProcessKilled 15), s))"

definition atexit_register :: "nat \<Rightarrow> unit act" where
  "atexit_register p = (\<lambda>s. (Inr (), s\<lparr>atexit_pids := atexit_pids s @ [p]\<rparr>))"

text \<open>\<^verbatim>\<open>HTTPConnection(host, port).connect()\<close> at health-check attempt \<open>t\<close>.\<close>

definition http_connect :: "'j env \<Rightarrow> nat \<Rightarrow> string \<Rightarrow> nat \<Rightarrow> unit act" where
  "http_connect E t host port = (\<lambda>s.
     case env_connect E t of
       None \<Rightarrow> (Inr (), emit (Connect host port) s)
     | Some e \<Rightarrow> (Inl e, emit (Connect host port) s))"

text \<open>\<^verbatim>\<open>request("GET", url)\<close>, \<^verbatim>\<open>getresponse()\<close> and \<^verbatim>\<open>read()\<close>: status and body.\<close>

definition http_get :: "'j env \<Rightarrow> nat \<Rightarrow> string \<Rightarrow> (nat \<times> string) act" where
  "http_get E t url = (\<lambda>s. (env_reply E t url, emit (HttpGet url) s))"

section \<open>Steps that only add to the trace\<close>

text \<open>
  \<open>only_traced s s'\<close>: \<open>s'\<close> is \<open>s\<close> with actions appended to its trace and
  nothing else changed (no file, directory, process, callback or limit).
\<close>

definition only_traced :: "world \<Rightarrow> world \<Rightarrow> bool" where
  "only_traced s s' \<longleftrightarrow> (\<exists>tr. s' = s\<lparr>trace := trace s @ tr\<rparr>)"

text \<open>\<open>extends s s'\<close>: the trace of \<open>s'\<close> continues the trace of \<open>s\<close>;
  \<open>added s s'\<close> is what was appended.\<close>

definition extends :: "world \<Rightarrow> world \<Rightarrow> bool" where
  "extends s s' \<longleftrightarrow> (\<exists>tr. trace s' = trace s @ tr)"

definition added :: "world \<Rightarrow> world \<Rightarrow> event list" where
  "added s s' = drop (length (trace s)) (trace s')"

text \<open>\<open>nospawn s s'\<close>: the trace grows, no process is spawned, no exit callback
  is registered and no process becomes alive on the way from \<open>s\<close> to \<open>s'\<close>.\<close>

definition nospawn :: "world \<Rightarrow> world \<Rightarrow> bool" where
  "nospawn s s' \<longleftrightarrow> extends s s' \<and> atexit_pids s' = atexit_pids s \<and>
     set (live s') \<subseteq> set (live s) \<and> (\<forall>p a. Spawn p a \<notin> set (added s s'))"

text \<open>A frame relation that every trace-only call of the health check keeps.\<close>

definition frame_ok :: "(world \<Rightarrow> world \<Rightarrow> bool) \<Rightarrow> 'j env \<Rightarrow> bool" where
  "frame_ok R E \<longleftrightarrow> reflp R \<and> transp R \<and> (\<forall>m. py_keeps R (py_print m)) \<and>
     (\<forall>n. py_keeps R (time_sleep n)) \<and> (\<forall>t h p. py_keeps R (http_connect E t h p)) \<and>
     (\<forall>t u. py_keeps R (http_get E t u))"

text \<open>\<open>avoids P s s'\<close>: the trace grows by events none of which satisfies \<open>P\<close>.\<close>

definition avoids :: "(event \<Rightarrow> bool) \<Rightarrow> world \<Rightarrow> world \<Rightarrow> bool" where
  "avoids P s s' \<longleftrightarrow> extends s s' \<and> (\<forall>e \<in> set (added s s'). \<not> P e)"

fun is_setrlimit :: "event \<Rightarrow> bool" where
  "is_setrlimit (SetRlimit _ _) = True"
| "is_setrlimit _ = False"

section \<open>Counting sleeps\<close>

fun is_sleep :: "event \<Rightarrow> bool" where
  "is_sleep (Sleep _) = True"
| "is_sleep _ = False"

definition n_sleeps :: "world \<Rightarrow> nat" where
  "n_sleeps s = length (filter is_sleep (trace s))"

section \<open>Evaluation rules and frame facts\<close>

lemmas act_defs [py_simps] = py_get_def py_print_def sys_exit_def os_access_w_def
  os_access_r_def os_mkdir_def write_path_def read_path_def os_unlink_def time_sleep_def
  getrlimit_def setrlimit_def popen_def os_kill_def wait_tool_def wait_server_def
  atexit_register_def http_connect_def http_get_def os_access_x_def

lemma emit_fields [simp]:
  "fs (emit e s) = fs s" "dirs (emit e s) = dirs s" "live (emit e s) = live s"
  "next_pid (emit e s) = next_pid s" "atexit_pids (emit e s) = atexit_pids s"
  "rlim_soft (emit e s) = rlim_soft s" "rlim_hard (emit e s) = rlim_hard s"
  "trace (emit e s) = trace s @ [e]"
  by (simp_all add: emit_def)

lemma emit_update [simp]:
  "emit e (s\<lparr>fs := f\<rparr>) = (emit e s)\<lparr>fs := f\<rparr>"
  "emit e (s\<lparr>dirs := d\<rparr>) = (emit e s)\<lparr>dirs := d\<rparr>"
  "emit e (s\<lparr>live := l\<rparr>) = (emit e s)\<lparr>live := l\<rparr>"
  by (simp_all add: emit_def)

lemma print_all_trace:
  "print_all ms s = (Inr (), s\<lparr>trace := trace s @ map Print ms\<rparr>)"
  by (induction ms arbitrary: s) (simp_all add: py_simps emit_def)

lemma printed_emit [simp]:
  "printed (emit (Print m) s) = printed s @ [m]"
  "\<And>e. (\<And>m. e \<noteq> Print m) \<Longrightarrow> printed (emit e s) = printed s"
  by (auto simp: printed_def emit_def split: event.split)

lemma printed_print_all [simp]: "printed (snd (print_all ms s)) = printed s @ ms"
proof -
  have "[m. Print m \<leftarrow> map Print ms] = ms" by (induction ms) simp_all
  then show ?thesis by (simp add: print_all_trace printed_def)
qed

lemma dirname_simple: "CHR ''/'' \<notin> set p \<Longrightarrow> dirname p = ''.''"
  by (auto simp: dirname_def Let_def dropWhile_eq_Nil_conv)

section \<open>Frame lemmas\<close>

lemma extends_refl: "reflp extends"
  by (rule reflpI) (auto simp: extends_def intro: exI [of _ "[]"])

lemma extends_trans: "transp extends"
  by (rule transpI) (auto simp: extends_def)

lemma keeps_ex_bind [intro]:
  "py_keeps extends m \<Longrightarrow> (\<And>x. py_keeps extends (f x)) \<Longrightarrow> py_keeps extends (py_bind m f)"
  by (rule py_keeps_bind [OF extends_trans extends_refl])

lemma keeps_ex_seq [intro]:
  "py_keeps extends m \<Longrightarrow> py_keeps extends n \<Longrightarrow> py_keeps extends (py_seq m n)"
  by (rule py_keeps_seq [OF extends_trans extends_refl])

lemma keeps_ex_return [intro]: "py_keeps extends (py_return x)"
  by (rule py_keeps_return [OF extends_refl])

lemma keeps_ex_raise [intro]: "py_keeps extends (py_raise e)"
  by (rule py_keeps_raise [OF extends_refl])

lemma keeps_ex_when [intro]: "py_keeps extends m \<Longrightarrow> py_keeps extends (py_when b m)"
  by (rule py_keeps_when [OF extends_refl])

lemma keeps_ex_catch [intro]:
  "py_keeps extends m \<Longrightarrow> (\<And>e. py_keeps extends (h e)) \<Longrightarrow> py_keeps extends (py_catch m p h)"
  by (rule py_keeps_catch [OF extends_trans])

lemma extends_emit [intro]: "extends s (emit e s)"
  by (simp add: extends_def)

lemma only_traced_extends: "only_traced s s' \<Longrightarrow> extends s s'"
  by (auto simp: only_traced_def extends_def)

lemma keeps_ot_ex: "py_keeps only_traced m \<Longrightarrow> py_keeps extends m"
  by (simp add: py_keeps_def only_traced_extends)

text \<open>Every library call only appends to the trace.\<close>

lemma keeps_ex_prims [intro]:
  "py_keeps extends (py_get f)" "py_keeps extends (py_print msg)" "py_keeps extends (os_mkdir p)"
  "py_keeps extends (write_path p c)" "py_keeps extends (read_path p)" "py_keeps extends (os_unlink p)"
  "py_keeps extends (time_sleep n)" "py_keeps extends (setrlimit E a b)" "py_keeps extends (popen E argv)"
  "py_keeps extends (os_kill q)" "py_keeps extends (wait_tool E q argv rf)" "py_keeps extends (wait_server E q)"
  "py_keeps extends (atexit_register q)" "py_keeps extends (http_connect E t h pt)"
  "py_keeps extends (http_get E t u)" "py_keeps extends (sys_exit k)" "py_keeps extends (print_all ms)"
  "py_keeps extends getrlimit" "py_keeps extends (os_access_w p)" "py_keeps extends (os_access_r p)"
  by (auto simp: py_keeps_def act_defs extends_def print_all_trace py_simps
           split: option.splits wait_outcome.splits)

lemma nospawn_refl: "reflp nospawn"
  by (rule reflpI) (simp add: nospawn_def extends_def added_def)

lemma nospawn_trans: "transp nospawn"
proof (rule transpI)
  fix x y z assume xy: "nospawn x y" and yz: "nospawn y z"
  then obtain t1 t2 where "trace y = trace x @ t1" "trace z = trace y @ t2"
    by (auto simp: nospawn_def extends_def)
  with xy yz show "nospawn x z"
    by (auto simp: nospawn_def extends_def added_def)
qed

lemma nospawn_emit: "(\<And>p a. e \<noteq> Spawn p a) \<Longrightarrow> nospawn s (emit e s)"
  by (auto simp: nospawn_def extends_def added_def emit_def)

lemma frame_okD:
  assumes "frame_ok R E"
  shows "reflp R" "transp R" "py_keeps R (py_print m)" "py_keeps R (time_sleep n)"
    "py_keeps R (http_connect E t h p)" "py_keeps R (http_get E t u)"
    "py_keeps R (sys_exit k)" "py_keeps R (py_raise e)" "py_keeps R (py_return x)"
  using assms by (auto simp: frame_ok_def sys_exit_def intro: py_keeps_raise py_keeps_return)

lemma added_emit_self: "extends s s' \<Longrightarrow> added s (emit e s') = added s s' @ [e]"
  by (auto simp: added_def extends_def)

lemma added_trans: "extends s s' \<Longrightarrow> extends s' s'' \<Longrightarrow> added s s'' = added s s' @ added s' s''"
  by (auto simp: added_def extends_def)

lemma added_refl [simp]: "added s s = []"
  by (simp add: added_def)

lemma only_traced_refl: "reflp only_traced"
  by (rule reflpI) (auto simp: only_traced_def intro: exI [of _ "[]"])

lemma only_traced_trans: "transp only_traced"
  by (rule transpI) (auto simp: only_traced_def)

lemmas only_traced_rules = only_traced_refl only_traced_trans

lemma keeps_ot_return [intro]: "py_keeps only_traced (py_return x)"
  by (rule py_keeps_return [OF only_traced_refl])

lemma keeps_ot_raise [intro]: "py_keeps only_traced (py_raise e)"
  by (rule py_keeps_raise [OF only_traced_refl])

lemma keeps_ot_bind [intro]:
  "py_keeps only_traced m \<Longrightarrow> (\<And>x. py_keeps only_traced (f x)) \<Longrightarrow> py_keeps only_traced (py_bind m f)"
  by (rule py_keeps_bind [OF only_traced_trans only_traced_refl])

lemma keeps_ot_seq [intro]:
  "py_keeps only_traced m \<Longrightarrow> py_keeps only_traced n \<Longrightarrow> py_keeps only_traced (py_seq m n)"
  by (rule py_keeps_seq [OF only_traced_trans only_traced_refl])

lemma keeps_ot_when [intro]: "py_keeps only_traced m \<Longrightarrow> py_keeps only_traced (py_when b m)"
  by (rule py_keeps_when [OF only_traced_refl])

lemma keeps_ot_if [intro]:
  "py_keeps only_traced m \<Longrightarrow> py_keeps only_traced n \<Longrightarrow> py_keeps only_traced (if b then m else n)"
  by simp

lemma only_traced_emit [intro]: "only_traced s (emit e s)"
  by (auto simp: only_traced_def emit_def)

lemma only_traced_fields:
  assumes "only_traced s s'"
  shows "fs s' = fs s" "dirs s' = dirs s" "live s' = live s" "next_pid s' = next_pid s"
    "atexit_pids s' = atexit_pids s" "rlim_soft s' = rlim_soft s" "rlim_hard s' = rlim_hard s"
  using assms by (auto simp: only_traced_def)

lemma keeps_print [intro]: "py_keeps only_traced (py_print m)"
  by (auto simp: py_keeps_def py_print_def)

lemma keeps_sleep [intro]: "py_keeps only_traced (time_sleep n)"
  by (auto simp: py_keeps_def time_sleep_def)

lemma keeps_connect [intro]: "py_keeps only_traced (http_connect E t h p)"
  by (auto simp: py_keeps_def http_connect_def split: option.splits)

lemma keeps_get [intro]: "py_keeps only_traced (http_get E t u)"
  by (auto simp: py_keeps_def http_get_def)

lemma keeps_exit [intro]: "py_keeps only_traced (sys_exit n)"
  by (simp add: sys_exit_def keeps_ot_raise)

lemma n_sleeps_emit [simp]: "n_sleeps (emit e s) = n_sleeps s + (if is_sleep e then 1 else 0)"
  by (simp add: n_sleeps_def)

section \<open>Frame relations of the health check\<close>

lemma frame_ok_only_traced: "frame_ok only_traced E"
  by (simp add: frame_ok_def only_traced_refl only_traced_trans keeps_print keeps_sleep keeps_connect keeps_get)

lemma frame_ok_nospawn: "frame_ok nospawn E"
  unfolding frame_ok_def py_keeps_def
  by (auto simp: nospawn_refl nospawn_trans py_print_def time_sleep_def http_connect_def http_get_def
           intro!: nospawn_emit split: option.splits)

lemma keeps_ns_prims:
  "py_keeps nospawn (py_get f)" "py_keeps nospawn (py_print msg)" "py_keeps nospawn (os_mkdir p)"
  "py_keeps nospawn (write_path p c)" "py_keeps nospawn (read_path p)" "py_keeps nospawn (os_unlink p)"
  "py_keeps nospawn (time_sleep n)" "py_keeps nospawn (setrlimit E a b)" "py_keeps nospawn (os_kill q)"
  "py_keeps nospawn (wait_tool E q argv rf)" "py_keeps nospawn (wait_server E q)"
  "py_keeps nospawn (sys_exit k)" "py_keeps nospawn getrlimit" "py_keeps nospawn (os_access_w p)"
  "py_keeps nospawn (os_access_r p)" "py_keeps nospawn (py_return x)" "py_keeps nospawn (py_raise e)"
  by (auto simp: py_keeps_def py_simps nospawn_def extends_def added_def emit_def
           split: option.splits wait_outcome.splits)

lemma keeps_ns_seq: "py_keeps nospawn m \<Longrightarrow> py_keeps nospawn n \<Longrightarrow> py_keeps nospawn (py_seq m n)"
  by (rule py_keeps_seq [OF nospawn_trans nospawn_refl])

lemma keeps_ns_bind:
  "py_keeps nospawn m \<Longrightarrow> (\<And>x. py_keeps nospawn (f x)) \<Longrightarrow> py_keeps nospawn (py_bind m f)"
  by (rule py_keeps_bind [OF nospawn_trans nospawn_refl])

lemma keeps_ns_when: "py_keeps nospawn m \<Longrightarrow> py_keeps nospawn (py_when b m)"
  by (rule py_keeps_when [OF nospawn_refl])

lemma avoids_refl: "reflp (avoids P)"
  by (rule reflpI) (simp add: avoids_def extends_def added_def)

lemma avoids_trans: "transp (avoids P)"
proof (rule transpI)
  fix x y z assume xy: "avoids P x y" and yz: "avoids P y z"
  then obtain t1 t2 where "trace y = trace x @ t1" "trace z = trace y @ t2"
    by (auto simp: avoids_def extends_def)
  with xy yz show "avoids P x z"
    by (auto simp: avoids_def extends_def added_def)
qed

lemma keeps_av_seq: "py_keeps (avoids P) m \<Longrightarrow> py_keeps (avoids P) n \<Longrightarrow> py_keeps (avoids P) (py_seq m n)"
  by (rule py_keeps_seq [OF avoids_trans avoids_refl])

lemma keeps_av_bind:
  "py_keeps (avoids P) m \<Longrightarrow> (\<And>x. py_keeps (avoids P) (f x)) \<Longrightarrow> py_keeps (avoids P) (py_bind m f)"
  by (rule py_keeps_bind [OF avoids_trans avoids_refl])

lemma keeps_av_when: "py_keeps (avoids P) m \<Longrightarrow> py_keeps (avoids P) (py_when b m)"
  by (rule py_keeps_when [OF avoids_refl])

lemma keeps_norlimit_prims:
  "py_keeps (avoids is_setrlimit) (py_get f)" "py_keeps (avoids is_setrlimit) (py_print msg)"
  "py_keeps (avoids is_setrlimit) (os_mkdir p)" "py_keeps (avoids is_setrlimit) (write_path p c)"
  "py_keeps (avoids is_setrlimit) (read_path p)" "py_keeps (avoids is_setrlimit) (os_access_w p)"
  "py_keeps (avoids is_setrlimit) (py_return x)" "py_keeps (avoids is_setrlimit) (py_raise e)"
  by (auto simp: py_keeps_def py_simps avoids_def extends_def added_def emit_def split: option.splits)

lemma avoids_added: "avoids P s s' \<Longrightarrow> e \<in> set (added s s') \<Longrightarrow> \<not> P e"
  by (simp add: avoids_def)

end
