(* ===== verification/Catalog.thy ===== *)
theory Catalog
  imports Harness_State
begin

text \<open>
  The test catalog, \<^verbatim>\<open>src/bin/server_bench.py\<close> lines 13--66: the
  \<^verbatim>\<open>runconfig\<close> named tuple, the constants of the script, the ordered list
  \<^verbatim>\<open>tests\<close>, the dictionary \<^verbatim>\<open>testsbyname\<close>, the default run selection
  \<^verbatim>\<open>teststorun\<close> and \<^verbatim>\<open>listtests()\<close>. Its lemmas: the names are distinct,
  the dictionary finds exactly the catalog's entries, each by its own name, and
  the default selection is the catalog in declaration order.
\<close>

section \<open>Scenarios\<close>

record runconfig =
  name :: string
  nthreads :: nat
  nconnections :: nat
  description :: string
  path :: string
  duration :: string

definition VERSION :: string where
  "VERSION = ''1.0''"

definition default_server_exe :: string where
  "default_server_exe = ''./sysstatd''"

definition default_server_root :: string where
  "default_server_root = ''_serverroot_''"

definition wrk_exe :: string where
  "wrk_exe = ''/home/courses/cs3214/bin/wrk''"

definition tests :: "runconfig list" where
  "tests = [
    \<lparr>name = ''loadavg40'', nthreads = 20, nconnections = 40,
     description = text_lines [[],
       ''    Can your server handle 40 parallel connections request /loadavg?'', ''    ''],
     path = ''/loadavg'', duration = ''10s''\<rparr>,
    \<lparr>name = ''loadavg500'', nthreads = 20, nconnections = 500,
     description = text_lines [[],
       ''    Using 500 connections, each of which is repeatedly requesting /loadavg (~80bytes in'',
       ''    HTTP body).  We believe this should be enough to make the server CPU bound.'', ''    ''],
     path = ''/loadavg'', duration = ''10s''\<rparr>,
    \<lparr>name = ''loadavg10k'', nthreads = 20, nconnections = 10000,
     description = text_lines [[],
       ''    Handling 10k simultaneous connections has been a target of scalability since 1999:'',
       ''    http://www.kegel.com/c10k.html'', ''    Can your server handle it?'', ''    ''],
     path = ''/loadavg'', duration = ''10s''\<rparr>,
    \<lparr>name = ''wwwcsvt100'', nthreads = 20, nconnections = 100,
     description = text_lines [[],
       ''    The home page of the CS Department, as of 4/22/2016, is about 23KB large (not counting embedded objects).'',
       ''    If 100 clients accessed it simultaneously, how much throughput could they expect?'', ''    ''],
     path = ''/files/www.cs.vt.edu-20160222.html'', duration = ''10s''\<rparr>,
    \<lparr>name = ''doom100'', nthreads = 20, nconnections = 40,
     description = text_lines [[],
       ''    According to https://mobiforge.com/research-analysis/the-web-is-doom the combined size of all'',
       ''    objects that make an average web page is 2,250kBytes as of April 2016. If these were transferred'',
       ''    all in a single objects, how much throughput would you get?'',
       ''    This should max out the 10Gbps Ethernet links, even with only 40 connections.'', ''    ''],
     path = ''/files/large'', duration = ''10s''\<rparr>]"

definition testsbyname :: "string \<rightharpoonup> runconfig" where
  "testsbyname = dict_of (map (\<lambda>c. (name c, c)) tests)"

definition default_teststorun :: "string list" where
  "default_teststorun = map name tests"

section \<open>Listing\<close>

definition test_listing :: "runconfig \<Rightarrow> string" where
  "test_listing t = text_lines [[],
     ''Test:           '' @ name t,
     ''Connections:    '' @ str_nat (nconnections t),
     ''Duration:       '' @ duration t,
     ''Path:           '' @ path t,
     ''Description:    '' @ description t, []]"

definition listtests :: "unit act" where
  "listtests = print_all (map test_listing tests)"

section \<open>Properties of the catalog\<close>

lemma tests_names: "map name tests = [''loadavg40'', ''loadavg500'', ''loadavg10k'', ''wwwcsvt100'', ''doom100'']"
  by (simp add: tests_def)

lemma distinct_test_names: "distinct (map name tests)"
  by (simp add: tests_names)

lemma testsbyname_map_of: "testsbyname = map_of (map (\<lambda>c. (name c, c)) tests)"
proof -
  have "distinct (map fst (map (\<lambda>c. (name c, c)) tests))"
    using distinct_test_names by (simp add: comp_def)
  then show ?thesis by (simp add: testsbyname_def dict_of_distinct)
qed

text \<open>\<^verbatim>\<open>testsbyname[n]\<close> is the unique catalog entry named \<open>n\<close>; \<^verbatim>\<open>n in testsbyname\<close> fails for any other string.\<close>

theorem testsbyname_lookup:
  "testsbyname n = Some c \<longleftrightarrow> c \<in> set tests \<and> name c = n"
proof -
  have "map_of (map (\<lambda>c. (name c, c)) tests) n = Some c \<longleftrightarrow> (n, c) \<in> set (map (\<lambda>c. (name c, c)) tests)"
    using distinct_test_names by (intro map_of_is_SomeI iffI) (simp_all add: comp_def)
  then show ?thesis by (auto simp: testsbyname_map_of)
qed

lemma dom_testsbyname: "dom testsbyname = set default_teststorun"
  by (simp add: testsbyname_def default_teststorun_def image_image)

lemma testsbyname_None: "testsbyname n = None \<longleftrightarrow> n \<notin> set (map name tests)"
  using dom_testsbyname by (auto simp: default_teststorun_def)

lemma testsbyname_name: "c \<in> set tests \<Longrightarrow> testsbyname (name c) = Some c"
  by (simp add: testsbyname_lookup)

lemma listtests_output: "printed (snd (listtests s)) = printed s @ map test_listing tests"
  by (simp add: listtests_def)

lemma listtests_returns: "fst (listtests s) = Inr ()"
  by (simp add: listtests_def print_all_trace)

lemma map_of_names_find: "map_of (map (\<lambda>c. (name c, c)) xs) n = find (\<lambda>c. name c = n) xs"
  by (induction xs) auto

text \<open>
  C35. The dictionary built by \<^verbatim>\<open>dict((c.name, c) for c in tests)\<close> answers
  every lookup as a linear search of the list for the first scenario with
  that name does.
\<close>

theorem testsbyname_find: "testsbyname n = find (\<lambda>c. name c = n) tests"
  by (simp add: testsbyname_map_of map_of_names_find)

end
