(* ===== verification/Options.thy ===== *)
theory Options
  imports Catalog
begin

text \<open>
  The command line, \<^verbatim>\<open>src/bin/server_bench.py\<close> lines 69--122: the script
  directory, \<^verbatim>\<open>usage()\<close>, the call of \<^verbatim>\<open>getopt.getopt\<close> with its error path,
  and the loop over the parsed options that sets the module globals
  \<^verbatim>\<open>verbose\<close>, \<^verbatim>\<open>server_exe\<close>, \<^verbatim>\<open>server_root\<close> and \<^verbatim>\<open>teststorun\<close> (the
  record \<open>config\<close>). \<^verbatim>\<open>getopt\<close> is the Python 2 library function (no GNU
  permutation: parsing stops at the first non-option); it is modelled here
  from its library source so that the option loop can be run on an argument
  vector. The lemmas show what each option does, that \<^verbatim>\<open>usage()\<close> cannot
  print (its format tuple names the undefined global \<^verbatim>\<open>config\<close>), and that the
  long options the parser accepts reach \<^verbatim>\<open>assert False\<close>.
\<close>

section \<open>The library function getopt\<close>

definition short_opts :: string where
  "short_opts = ''hvs:R:t:l''"

definition long_opts :: "string list" where
  "long_opts = [''help'', ''verbose'']"

text \<open>\<^verbatim>\<open>short_has_arg\<close>: \<open>None\<close> is the \<^verbatim>\<open>GetoptError\<close> for an unknown letter.\<close>

fun short_has_arg :: "char \<Rightarrow> string \<Rightarrow> bool option" where
  "short_has_arg c [] = None"
| "short_has_arg c (x # xs) =
     (if c = x \<and> x \<noteq> CHR '':'' then Some (xs \<noteq> [] \<and> hd xs = CHR '':'') else short_has_arg c xs)"

type_synonym opts = "(string \<times> string) list"

text \<open>\<^verbatim>\<open>do_shorts\<close>: the letters of one argument; an option with a value takes
  the rest of the argument, or the next argument when the rest is empty.\<close>

fun do_shorts :: "string \<Rightarrow> string list \<Rightarrow> string + opts \<times> string list" where
  "do_shorts [] args = Inr ([], args)"
| "do_shorts (c # rest) args =
     (case short_has_arg c short_opts of
        None \<Rightarrow> Inl (''option -'' @ [c] @ '' not recognized'')
      | Some True \<Rightarrow>
          (if rest = [] then
             (case args of
                [] \<Rightarrow> Inl (''option -'' @ [c] @ '' requires argument'')
              | a # args' \<Rightarrow> Inr ([(''-'' @ [c], a)], args'))
           else Inr ([(''-'' @ [c], rest)], args))
      | Some False \<Rightarrow>
          (case do_shorts rest args of
             Inl e \<Rightarrow> Inl e
           | Inr (os, args') \<Rightarrow> Inr ((''-'' @ [c], []) # os, args')))"

text \<open>\<^verbatim>\<open>long_has_args\<close>: an unambiguous prefix of a long option names it.
  None of this script's long options takes a value.\<close>

definition long_has_args :: "string \<Rightarrow> string + bool \<times> string" where
  "long_has_args opt =
     (let poss = filter (\<lambda>lo. py_startswith lo opt) long_opts in
      if poss = [] then Inl (''option --'' @ opt @ '' not recognized'')
      else if opt \<in> set poss then Inr (False, opt)
      else if opt @ ''='' \<in> set poss then Inr (True, opt)
      else if 1 < length poss then Inl (''option --'' @ opt @ '' not a unique prefix'')
      else if py_endswith (hd poss) ''='' then Inr (True, butlast (hd poss))
      else Inr (False, hd poss))"

definition do_longs :: "string \<Rightarrow> string list \<Rightarrow> string + opts \<times> string list" where
  "do_longs opt args =
     (let (on, optarg) = (if CHR ''='' \<in> set opt
                         then (takeWhile (\<lambda>c. c \<noteq> CHR ''='') opt,
                               Some (tl (dropWhile (\<lambda>c. c \<noteq> CHR ''='') opt)))
                         else (opt, None)) in
      case long_has_args on of
        Inl e \<Rightarrow> Inl e
      | Inr (True, on') \<Rightarrow>
          (case optarg of
             Some a \<Rightarrow> Inr ([(''--'' @ on', a)], args)
           | None \<Rightarrow> (case args of
                        [] \<Rightarrow> Inl (''option --'' @ on' @ '' requires argument'')
                      | a # args' \<Rightarrow> Inr ([(''--'' @ on', a)], args')))
      | Inr (False, on') \<Rightarrow>
          (case optarg of
             Some _ \<Rightarrow> Inl (''option --'' @ on' @ '' must not have an argument'')
           | None \<Rightarrow> Inr ([(''--'' @ on', [])], args)))"

text \<open>\<^verbatim>\<open>getopt.getopt(args, "hvs:R:t:l", ["help", "verbose"])\<close>: the
  \<open>Inl\<close> case is the message of the \<^verbatim>\<open>GetoptError\<close>.\<close>

function getopt :: "string list \<Rightarrow> string + opts \<times> string list" where
  "getopt [] = Inr ([], [])"
| "getopt (a # args) =
     (if \<not> py_startswith a ''-'' \<or> a = ''-'' then Inr ([], a # args)
      else if a = ''--'' then Inr ([], args)
      else
        (case (if py_startswith a ''--'' then do_longs (drop 2 a) args else do_shorts (tl a) args) of
           Inl e \<Rightarrow> Inl e
         | Inr (os, args') \<Rightarrow>
             (case getopt args' of
                Inl e \<Rightarrow> Inl e
              | Inr (os', rest) \<Rightarrow> Inr (os @ os', rest))))"
  by pat_completeness auto
termination
proof (relation "measure length", goal_cases)
  case 1
  show ?case by simp
next
  case (2 a args b x y)
  have sh: "do_shorts s xs = Inr (os, ys) \<Longrightarrow> length ys \<le> length xs" for s xs os ys
    by (induction s arbitrary: os ys) (auto split: option.splits bool.splits if_splits list.splits sum.splits)
  have lg: "do_longs s xs = Inr (os, ys) \<Longrightarrow> length ys \<le> length xs" for s xs os ys
    by (auto simp: do_longs_def Let_def split: prod.splits sum.splits bool.splits option.splits list.splits)
  from 2 show ?case using sh lg by (fastforce split: if_splits)
qed

section \<open>Configuration and the option loop\<close>

text \<open>The module globals the options set (lines 20--23, 56 and 103).\<close>

record config =
  cfg_verbose :: bool
  cfg_server_exe :: string
  cfg_server_root :: string
  cfg_teststorun :: "string list"

definition config0 :: config where
  "config0 = \<lparr>cfg_verbose = False, cfg_server_exe = default_server_exe,
              cfg_server_root = default_server_root, cfg_teststorun = default_teststorun\<rparr>"

text \<open>Lines 69--73: the directory part of the script's real path, \<^verbatim>\<open>.\<close> when
  that is empty (the final \<^verbatim>\<open>os.path.realpath\<close> is the identity on a real path).\<close>

definition script_dir_of :: "string \<Rightarrow> string" where
  "script_dir_of p = (let d = py_join ''/'' (butlast (py_split CHR ''/'' p)) in if d = [] then ''.'' else d)"

text \<open>Lines 75--94: the format tuple \<^verbatim>\<open>(sys.argv[0], server_exe, server_root, config)\<close>
  is evaluated before anything is printed, and \<^verbatim>\<open>config\<close> is no global of
  the script.\<close>

definition usage :: "'a act" where
  "usage = py_raise (NameError ''config'')"

text \<open>Lines 106--122, one option at a time.\<close>

fun apply_opts :: "opts \<Rightarrow> config \<Rightarrow> config act" where
  "apply_opts [] c = py_return c"
| "apply_opts ((opt, arg) # rest) c =
     py_seq (py_when (opt = ''-h'') (py_seq usage (sys_exit 0)))
       (if opt = ''-v'' then apply_opts rest (c\<lparr>cfg_verbose := True\<rparr>)
        else if opt = ''-s'' then apply_opts rest (c\<lparr>cfg_server_exe := arg\<rparr>)
        else if opt = ''-R'' then apply_opts rest (c\<lparr>cfg_server_root := arg\<rparr>)
        else if opt = ''-l'' then py_seq listtests (sys_exit 0)
        else if opt = ''-t'' then apply_opts rest (c\<lparr>cfg_teststorun := py_split CHR '','' arg\<rparr>)
        else py_raise AssertionError)"

text \<open>Lines 96--122: parse \<^verbatim>\<open>sys.argv[1:]\<close>; on a \<^verbatim>\<open>GetoptError\<close> print it,
  call \<^verbatim>\<open>usage()\<close> and exit 2. Returns the configuration and the positional
  arguments.\<close>

definition parse_command_line :: "string list \<Rightarrow> (config \<times> string list) act" where
  "parse_command_line argv =
     (case getopt argv of
        Inl err \<Rightarrow> py_seq (py_print err) (py_seq usage (sys_exit 2))
      | Inr (opts, args) \<Rightarrow> py_bind (apply_opts opts config0) (\<lambda>c. py_return (c, args)))"

text \<open>What one option of \<^verbatim>\<open>-v\<close>, \<^verbatim>\<open>-s\<close>, \<^verbatim>\<open>-R\<close>, \<^verbatim>\<open>-t\<close> does to the configuration,
  as the usage text describes it; the last occurrence of an option wins.\<close>

definition setting_opt :: "string \<Rightarrow> bool" where
  "setting_opt opt \<longleftrightarrow> opt \<in> set [''-v'', ''-s'', ''-R'', ''-t'']"

definition opt_update :: "config \<Rightarrow> string \<times> string \<Rightarrow> config" where
  "opt_update c oa =
     (case oa of (opt, arg) \<Rightarrow>
        if opt = ''-v'' then c\<lparr>cfg_verbose := True\<rparr>
        else if opt = ''-s'' then c\<lparr>cfg_server_exe := arg\<rparr>
        else if opt = ''-R'' then c\<lparr>cfg_server_root := arg\<rparr>
        else c\<lparr>cfg_teststorun := py_split CHR '','' arg\<rparr>)"

section \<open>The parser\<close>

lemma getopt_positional [simp]:
  "\<not> py_startswith a ''-'' \<Longrightarrow> getopt (a # rest) = Inr ([], a # rest)"
  by simp

lemma getopt_short_flag:
  assumes "short_has_arg c short_opts = Some False"
  shows "getopt ((CHR ''-'' # [c]) # xs) =
           (case getopt xs of Inl e \<Rightarrow> Inl e | Inr (os, rest) \<Rightarrow> Inr (([CHR ''-'', c], []) # os, rest))"
proof -
  have "c \<noteq> CHR ''-''" using assms by (auto simp: short_opts_def)
  then show ?thesis using assms by (simp add: py_startswith_def split: sum.splits)
qed

lemma getopt_long:
  assumes "long_has_args p = Inr (False, lo)" and "CHR ''='' \<notin> set p" and "p \<noteq> []"
  shows "getopt ((''--'' @ p) # xs) =
           (case getopt xs of Inl e \<Rightarrow> Inl e | Inr (os, rest) \<Rightarrow> Inr ((''--'' @ lo, []) # os, rest))"
  using assms by (simp add: py_startswith_def do_longs_def split: sum.splits)

lemma long_has_args_prefix:
  assumes "lo \<in> set long_opts" and "0 < k" and "k \<le> length lo"
  shows "long_has_args (take k lo) = Inr (False, lo) \<and> CHR ''='' \<notin> set (take k lo) \<and> take k lo \<noteq> []"
proof -
  from assms(1) consider "lo = ''help''" | "lo = ''verbose''" by (auto simp: long_opts_def)
  then show ?thesis
  proof cases
    case 1
    with assms(2,3) have "k = 1 \<or> k = 2 \<or> k = 3 \<or> k = 4" by auto
    then show ?thesis
      using 1 by (elim disjE) (simp_all add: long_has_args_def long_opts_def py_startswith_def py_endswith_def Let_def)
  next
    case 2
    with assms(2,3) have "k = 1 \<or> k = 2 \<or> k = 3 \<or> k = 4 \<or> k = 5 \<or> k = 6 \<or> k = 7" by auto
    then show ?thesis
      using 2 by (elim disjE) (simp_all add: long_has_args_def long_opts_def py_startswith_def py_endswith_def Let_def)
  qed
qed

section \<open>The option loop\<close>

lemma apply_opts_setting:
  "list_all (setting_opt \<circ> fst) os \<Longrightarrow> apply_opts os c s = (Inr (fold (\<lambda>oa c. opt_update c oa) os c), s)"
proof (induction os arbitrary: c)
  case Nil
  then show ?case by (simp add: py_simps)
next
  case (Cons oa os)
  then show ?case
    by (cases oa) (auto simp: setting_opt_def opt_update_def py_simps)
qed

lemma keeps_ns_print_all: "py_keeps nospawn (print_all ms)"
  by (auto simp: py_keeps_def print_all_trace nospawn_def extends_def added_def)

lemma keeps_ns_apply_opts: "py_keeps nospawn (apply_opts os c)"
proof (induction os arbitrary: c)
  case Nil
  then show ?case by (simp add: keeps_ns_prims)
next
  case (Cons oa os)
  have u: "py_keeps nospawn (py_seq usage (sys_exit 0))"
    by (simp add: usage_def keeps_ns_seq keeps_ns_prims)
  have l: "py_keeps nospawn (py_seq listtests (sys_exit 0))"
    by (simp add: listtests_def keeps_ns_seq keeps_ns_print_all keeps_ns_prims)
  show ?case
    by (cases oa) (simp add: Cons.IH keeps_ns_seq keeps_ns_when u l keeps_ns_prims)
qed

lemma keeps_ns_parse: "py_keeps nospawn (parse_command_line argv)"
  by (auto simp: parse_command_line_def usage_def split: sum.splits
           intro!: keeps_ns_seq keeps_ns_bind keeps_ns_apply_opts keeps_ns_prims)

text \<open>\<^verbatim>\<open>-h\<close>, whatever follows it, ends in the \<^verbatim>\<open>NameError\<close> of \<^verbatim>\<open>usage()\<close>.\<close>

lemma parse_help_raises:
  "fst (parse_command_line (''-h'' # xs) s) = Inl (NameError ''config'')"
proof -
  have "short_has_arg CHR ''h'' short_opts = Some False" by (simp add: short_opts_def)
  from getopt_short_flag [OF this, of xs] show ?thesis
    by (simp add: parse_command_line_def usage_def py_simps split: sum.splits)
qed

text \<open>
  C17. A malformed command line does not exit with status 2 after the help: the
  driver prints the \<^verbatim>\<open>GetoptError\<close> message, then \<^verbatim>\<open>usage()\<close> raises
  \<^verbatim>\<open>NameError\<close> and nothing else happens.
\<close>

theorem parse_error_crashes:
  assumes "getopt argv = Inl err"
  shows "parse_command_line argv s = (Inl (NameError ''config''), emit (Print err) s)"
  using assms by (simp add: parse_command_line_def usage_def py_simps)

text \<open>
  C18. The long options the parser is told to accept, \<^verbatim>\<open>--help\<close> and
  \<^verbatim>\<open>--verbose\<close>, and every abbreviation of them, fall through the option loop to
  \<^verbatim>\<open>assert False, "unhandled option"\<close>.
\<close>

theorem parse_long_option_asserts:
  assumes "lo \<in> set long_opts" and "0 < k" and "k \<le> length lo"
    and "getopt xs = Inr (os, args)"
  shows "fst (parse_command_line ((''--'' @ take k lo) # xs) s) = Inl AssertionError"
proof -
  from long_has_args_prefix [OF assms(1-3)]
  have "getopt ((''--'' @ take k lo) # xs) = Inr ((''--'' @ lo, []) # os, args)"
    using getopt_long assms(4) by simp
  moreover have "lo \<noteq> ''-h''" "lo \<noteq> ''-v''" "''--'' @ lo \<notin> set [''-h'', ''-v'', ''-s'', ''-R'', ''-l'', ''-t'']"
    using assms(1) by (auto simp: long_opts_def)
  ultimately show ?thesis
    by (simp add: parse_command_line_def py_simps)
qed

text \<open>
  C19. Refinement of the option loop: on a command line whose options are only
  \<^verbatim>\<open>-v\<close>, \<^verbatim>\<open>-s\<close>, \<^verbatim>\<open>-R\<close> and \<^verbatim>\<open>-t\<close>, parsing has no effect and yields the
  defaults updated by each option in turn (the last one wins, \<^verbatim>\<open>-t\<close> splits its
  value at commas) and the positional arguments after the options.
\<close>

theorem parse_command_line_refines:
  assumes "getopt argv = Inr (os, args)" and "list_all (setting_opt \<circ> fst) os"
  shows "parse_command_line argv s = (Inr (fold (\<lambda>oa c. opt_update c oa) os config0, args), s)"
  using assms by (simp add: parse_command_line_def apply_opts_setting py_simps)

theorem parse_error_crashes_witness:
  "getopt [''-x''] = Inl ''option -x not recognized'' \<and>
   parse_command_line [''-x''] world0 = (Inl (NameError ''config''), emit (Print ''option -x not recognized'') world0)"
proof -
  have h: "getopt [''-x''] = Inl ''option -x not recognized''"
    by (simp add: py_startswith_def short_opts_def)
  show ?thesis using h parse_error_crashes [OF h, of world0] by blast
qed

theorem parse_long_option_asserts_witness:
  "''verbose'' \<in> set long_opts \<and> 0 < (4::nat) \<and> 4 \<le> length ''verbose'' \<and> getopt [] = Inr ([], []) \<and>
   fst (parse_command_line [''--verb''] world0) = Inl AssertionError"
proof -
  have h1: "''verbose'' \<in> set long_opts" by (simp add: long_opts_def)
  have h2: "getopt [] = Inr ([], [])" by simp
  have "fst (parse_command_line ((''--'' @ take 4 ''verbose'') # []) world0) = Inl AssertionError"
    by (rule parse_long_option_asserts [OF h1 _ _ h2]) simp_all
  then show ?thesis using h1 h2 by simp
qed

theorem parse_command_line_refines_witness:
  "getopt [''-t'', ''loadavg40,doom100'', ''-v'', ''http://node2:20123/''] =
     Inr ([(''-t'', ''loadavg40,doom100''), (''-v'', [])], [''http://node2:20123/'']) \<and>
   list_all (setting_opt \<circ> fst) [(''-t'', ''loadavg40,doom100''), (''-v'', [])] \<and>
   parse_command_line [''-t'', ''loadavg40,doom100'', ''-v'', ''http://node2:20123/''] world0 =
     (Inr (config0\<lparr>cfg_verbose := True, cfg_teststorun := [''loadavg40'', ''doom100'']\<rparr>,
           [''http://node2:20123/'']), world0)"
proof -
  have h1: "getopt [''-t'', ''loadavg40,doom100'', ''-v'', ''http://node2:20123/''] =
     Inr ([(''-t'', ''loadavg40,doom100''), (''-v'', [])], [''http://node2:20123/''])"
    by (simp add: py_startswith_def short_opts_def)
  have h2: "list_all (setting_opt \<circ> fst) [(''-t'', ''loadavg40,doom100''), (''-v'', [])]"
    by (simp add: setting_opt_def)
  have "fold (\<lambda>oa c. opt_update c oa) [(''-t'', ''loadavg40,doom100''), (''-v'', [])] config0 =
        config0\<lparr>cfg_verbose := True, cfg_teststorun := [''loadavg40'', ''doom100'']\<rparr>"
    by (simp add: opt_update_def py_split_def)
  then show ?thesis using h1 h2 parse_command_line_refines [OF h1 h2, of world0] by simp
qed

end
