(* ===== verification/Load_Driver.thy ===== *)
theory Load_Driver
  imports Catalog
begin

text \<open>
  The load driver, \<^verbatim>\<open>start_wrk(url, test)\<close> of \<^verbatim>\<open>src/bin/server_bench.py\<close>
  lines 225--243: build the \<^verbatim>\<open>wrk\<close> command line for one scenario, check that
  the helper \<^verbatim>\<open>JSON.lua\<close> is readable (an \<^verbatim>\<open>assert\<close>), spawn \<^verbatim>\<open>wrk\<close> with
  the result file named in its environment, wait for it, read and parse the
  file, delete it and return the parsed value. The result file has the fixed
  name \<^verbatim>\<open>ssresults.json\<close> in the working directory.

  Lemmas: the spawned \<^verbatim>\<open>wrk\<close> is always reaped before \<^verbatim>\<open>start_wrk\<close> returns or
  raises; on a fresh, parseable result the value is returned and the file is
  gone; a result that does not parse leaves the file behind; and a result file
  left over from earlier is taken as the output of a \<^verbatim>\<open>wrk\<close> run that wrote
  nothing; and the command line, read back flag by flag the way \<^verbatim>\<open>wrk\<close>
  reads it (\<open>wrk_opts\<close>, a model of the external program's argument
  parsing, not code of the repository), gives back the scenario.
\<close>

section \<open>Definitions\<close>

text \<open>\<^verbatim>\<open>json.load\<close>: Python 2 raises \<^verbatim>\<open>ValueError\<close> on text that does not parse.\<close>

definition json_load :: "'j env \<Rightarrow> string \<Rightarrow> 'j act" where
  "json_load E txt =
     (case env_json_load E txt of
        None \<Rightarrow> py_raise (ValueError ''No JSON object could be decoded'')
      | Some r \<Rightarrow> py_return r)"

definition wrk_cmd :: "'j env \<Rightarrow> string \<Rightarrow> runconfig \<Rightarrow> string list" where
  "wrk_cmd E url test =
     [wrk_exe, ''-c'', str_nat (nconnections test), ''-t'', str_nat (nthreads test),
      ''-d'', duration test, ''-s'', env_script_dir E @ ''/cs3214bench.lua'', url @ path test]"

text \<open>
  How \<^verbatim>\<open>wrk\<close> reads the arguments after its name: each flag takes the
  next argument as its value, and the last argument is the target URL. The
  result maps each flag to its value (a later flag overrides an earlier one).
\<close>

fun wrk_opts :: "string list \<Rightarrow> (string \<rightharpoonup> string) \<Rightarrow> ((string \<rightharpoonup> string) \<times> string) option" where
  "wrk_opts [] m = None"
| "wrk_opts [u] m = Some (m, u)"
| "wrk_opts (f # v # r) m = (if py_startswith f ''-'' then wrk_opts r (m(f \<mapsto> v)) else None)"

definition resfile :: string where
  "resfile = ''ssresults.json''"

definition luajson :: "'j env \<Rightarrow> string" where
  "luajson E = env_script_dir E @ ''/JSON.lua''"

definition start_wrk :: "'j env \<Rightarrow> bool \<Rightarrow> string \<Rightarrow> runconfig \<Rightarrow> 'j act" where
  "start_wrk E verbose url test =
     (let cmd = wrk_cmd E url test in
      py_seq (py_when verbose (py_print (''I will now run '' @ py_join '' '' cmd)))
        (py_bind (os_access_r (luajson E)) (\<lambda>ok.
           py_seq (py_when (\<not> ok) (py_raise AssertionError))
             (py_bind (popen E cmd) (\<lambda>server.
                py_seq (wait_tool E server cmd resfile)
                  (py_bind (read_path resfile) (\<lambda>txt.
                     py_bind (json_load E txt) (\<lambda>r.
                       py_seq (os_unlink resfile) (py_return r)))))))))"

text \<open>The state once \<^verbatim>\<open>Popen(cmd)\<close> has spawned the next child and \<^verbatim>\<open>wait()\<close> has reaped it.\<close>

definition wrk_done :: "'j env \<Rightarrow> string list \<Rightarrow> world \<Rightarrow> world" where
  "wrk_done E cmd s = snd (wait_tool E (next_pid s) cmd resfile (snd (popen E cmd s)))"

text \<open>What \<^verbatim>\<open>start_wrk\<close> does after the wait: read, parse, delete, return.\<close>

definition ingest :: "'j env \<Rightarrow> 'j act" where
  "ingest E = py_bind (read_path resfile) (\<lambda>txt.
                py_bind (json_load E txt) (\<lambda>r. py_seq (os_unlink resfile) (py_return r)))"

text \<open>\<open>client_frame s s'\<close>: the trace grows by no file write, no exit callback
  is registered, the directories are unchanged and no process is alive in
  \<open>s'\<close> that was not alive in \<open>s\<close>. The client's per-scenario work keeps it.\<close>

fun is_file_write :: "event \<Rightarrow> bool" where
  "is_file_write (WriteFile _) = True"
| "is_file_write _ = False"

definition client_frame :: "world \<Rightarrow> world \<Rightarrow> bool" where
  "client_frame s s' \<longleftrightarrow> extends s s' \<and> atexit_pids s' = atexit_pids s \<and> dirs s' = dirs s \<and>
     set (live s') \<subseteq> set (live s) \<and> (\<forall>e \<in> set (added s s'). \<not> is_file_write e)"

text \<open>A concrete client for the witnesses: process 5151 on \<^verbatim>\<open>node2.rlogin\<close>,
  \<^verbatim>\<open>wrk\<close> installed, JSON values kept as their text, and text parses when it
  starts with a brace; \<open>out\<close> says what each \<^verbatim>\<open>wrk\<close> child writes.\<close>

definition wrk_env :: "(nat \<Rightarrow> string list \<Rightarrow> string option) \<Rightarrow> string env" where
  "wrk_env out = \<lparr>env_pid = 5151, env_hostname = ''node2.rlogin'', env_script_dir = ''/bench'',
     env_script_path = ''/bench/server_bench.py'',
     env_executable = (\<lambda>p. p = wrk_exe), env_rlimit_ok = True,
     env_connect = (\<lambda>_. None), env_reply = (\<lambda>_ _. Inr (200, [])),
     env_tool_output = out, env_json_load = (\<lambda>t. if take 1 t = ''{'' then Some t else None),
     env_json_dump = (\<lambda>_. ''{}''), env_wait = ChildExits\<rparr>"

definition client_world :: world where
  "client_world = world0\<lparr>fs := [''/bench/JSON.lua'' \<mapsto> ''return {}'']\<rparr>"

section \<open>Evaluation\<close>

lemma wrk_cmd_hd [simp]: "wrk_cmd E url test \<noteq> [] \<and> hd (wrk_cmd E url test) = wrk_exe"
  by (simp add: wrk_cmd_def)

lemma wrk_done_fields:
  assumes "cmd \<noteq> []" and "env_executable E (hd cmd)"
  shows "fs (wrk_done E cmd s) =
           (case env_tool_output E (next_pid s) cmd of None \<Rightarrow> fs s | Some out \<Rightarrow> (fs s)(resfile \<mapsto> out))"
    "set (live (wrk_done E cmd s)) = set (live s) - {next_pid s}"
    "atexit_pids (wrk_done E cmd s) = atexit_pids s"
    "added s (wrk_done E cmd s) = [Spawn (next_pid s) cmd, Reaped (next_pid s)]"
    "extends s (wrk_done E cmd s)"
  using assms by (auto simp: wrk_done_def py_simps emit_def added_def extends_def split: option.splits)

lemma start_wrk_unfold:
  "start_wrk E v url test =
     py_seq (py_when v (py_print (''I will now run '' @ py_join '' '' (wrk_cmd E url test))))
       (py_bind (os_access_r (luajson E)) (\<lambda>ok.
          py_seq (py_when (\<not> ok) (py_raise AssertionError))
            (py_bind (popen E (wrk_cmd E url test)) (\<lambda>server.
               py_seq (wait_tool E server (wrk_cmd E url test) resfile) (ingest E)))))"
  by (simp add: start_wrk_def ingest_def Let_def)

lemma popen_wait_done:
  assumes "cmd \<noteq> []" and "env_executable E (hd cmd)"
  shows "py_bind (popen E cmd) (\<lambda>server. py_seq (wait_tool E server cmd resfile) m) s = m (wrk_done E cmd s)"
proof -
  have p: "popen E cmd s = (Inr (next_pid s), snd (popen E cmd s))"
    using assms by (simp add: popen_def)
  have w: "wait_tool E (next_pid s) cmd resfile (snd (popen E cmd s)) = (Inr (), wrk_done E cmd s)"
    by (simp add: wrk_done_def wait_tool_def)
  show ?thesis
    by (simp add: py_bind_Inr [where m = "popen E cmd" and s = s, OF p]
                  py_seq_Inr [where m = "wait_tool E (next_pid s) cmd resfile", OF w])
qed

lemma start_wrk_spawned:
  assumes "fs s (luajson E) \<noteq> None" and "env_executable E wrk_exe"
  shows "start_wrk E v url test s =
           ingest E (wrk_done E (wrk_cmd E url test)
             (if v then emit (Print (''I will now run '' @ py_join '' '' (wrk_cmd E url test))) s else s))"
proof -
  let ?s0 = "if v then emit (Print (''I will now run '' @ py_join '' '' (wrk_cmd E url test))) s else s"
  have p0: "py_when v (py_print (''I will now run '' @ py_join '' '' (wrk_cmd E url test))) s = (Inr (), ?s0)"
    by (simp add: py_when_apply py_print_def)
  have a: "os_access_r (luajson E) ?s0 = (Inr True, ?s0)"
    using assms(1) by (simp add: os_access_r_def py_get_def)
  have c: "py_when (\<not> True) (py_raise AssertionError) ?s0 = (Inr (), ?s0)"
    by (simp add: py_when_apply)
  show ?thesis
    unfolding start_wrk_unfold
      py_seq_Inr [where m = "py_when v (py_print (''I will now run '' @ py_join '' '' (wrk_cmd E url test)))", OF p0]
      py_bind_Inr [where m = "os_access_r (luajson E)", OF a]
      py_seq_Inr [where m = "py_when (\<not> True) (py_raise AssertionError)", OF c]
    using assms(2) by (simp add: popen_wait_done)
qed

lemma ingest_parsed:
  "fs s resfile = Some txt \<Longrightarrow> env_json_load E txt = Some r \<Longrightarrow>
   ingest E s = (Inr r, emit (Unlink resfile) (s\<lparr>fs := (fs s)(resfile := None)\<rparr>))"
  by (simp add: ingest_def json_load_def py_simps)

lemma ingest_unparsed:
  "fs s resfile = Some txt \<Longrightarrow> env_json_load E txt = None \<Longrightarrow>
   ingest E s = (Inl (ValueError ''No JSON object could be decoded''), s)"
  by (simp add: ingest_def json_load_def py_simps)

lemma ingest_missing:
  "fs s resfile = None \<Longrightarrow> ingest E s = (Inl (IOError ''[Errno 2] No such file or directory''), s)"
  by (simp add: ingest_def py_simps)

lemma ingest_frame:
  "set (live (snd (ingest E s))) = set (live s) \<and> atexit_pids (snd (ingest E s)) = atexit_pids s \<and>
   extends s (snd (ingest E s)) \<and> next_pid (snd (ingest E s)) = next_pid s"
  by (auto simp: ingest_def json_load_def py_simps emit_def extends_def split: option.splits)

lemma client_frame_refl: "reflp client_frame"
  by (rule reflpI) (simp add: client_frame_def extends_def added_def)

lemma client_frame_trans: "transp client_frame"
proof (rule transpI)
  fix x y z assume xy: "client_frame x y" and yz: "client_frame y z"
  then obtain t1 t2 where "trace y = trace x @ t1" "trace z = trace y @ t2"
    by (auto simp: client_frame_def extends_def)
  with xy yz show "client_frame x z"
    by (auto simp: client_frame_def extends_def added_def)
qed

lemma client_frame_emit: "\<not> is_file_write e \<Longrightarrow> client_frame s (emit e s)"
  by (simp add: client_frame_def emit_def extends_def added_def)

lemma client_frame_wrk_done:
  "cmd \<noteq> [] \<Longrightarrow> env_executable E (hd cmd) \<Longrightarrow> client_frame s (wrk_done E cmd s)"
  using wrk_done_fields [of cmd E s]
  by (auto simp: client_frame_def wrk_done_def py_simps emit_def split: option.splits)

lemma client_frame_ingest: "client_frame s (snd (ingest E s))"
  by (auto simp: client_frame_def ingest_def json_load_def py_simps emit_def extends_def added_def
           split: option.splits)

lemma start_wrk_unspawned:
  assumes "\<not> (fs s (luajson E) \<noteq> None \<and> env_executable E wrk_exe)"
  shows "start_wrk E v url test s =
           (Inl (if fs s (luajson E) = None then AssertionError else OSError ''[Errno 2] No such file or directory''),
            if v then emit (Print (''I will now run '' @ py_join '' '' (wrk_cmd E url test))) s else s)"
proof -
  let ?s0 = "if v then emit (Print (''I will now run '' @ py_join '' '' (wrk_cmd E url test))) s else s"
  have p0: "py_when v (py_print (''I will now run '' @ py_join '' '' (wrk_cmd E url test))) s = (Inr (), ?s0)"
    by (simp add: py_when_apply py_print_def)
  have a: "os_access_r (luajson E) ?s0 = (Inr (fs s (luajson E) \<noteq> None), ?s0)"
    by (simp add: os_access_r_def py_get_def)
  have "py_seq (py_when (\<not> (fs s (luajson E) \<noteq> None)) (py_raise AssertionError))
          (py_bind (popen E (wrk_cmd E url test)) (\<lambda>server.
             py_seq (wait_tool E server (wrk_cmd E url test) resfile) (ingest E))) ?s0 =
        (Inl (if fs s (luajson E) = None then AssertionError else OSError ''[Errno 2] No such file or directory''), ?s0)"
    using assms by (auto simp: py_when_apply py_seq_apply py_raise_apply py_bind_apply popen_def
                         wrk_cmd_def)
  then show ?thesis
    unfolding start_wrk_unfold
      py_seq_Inr [where m = "py_when v (py_print (''I will now run '' @ py_join '' '' (wrk_cmd E url test)))", OF p0]
      py_bind_Inr [where m = "os_access_r (luajson E)", OF a] .
qed

lemma keeps_cf_start_wrk: "py_keeps client_frame (start_wrk E v url test)"
  unfolding py_keeps_def
proof
  fix s
  let ?s0 = "if v then emit (Print (''I will now run '' @ py_join '' '' (wrk_cmd E url test))) s else s"
  have s0: "client_frame s ?s0" using client_frame_refl client_frame_emit by (simp add: reflp_def)
  show "client_frame s (snd (start_wrk E v url test s))"
  proof (cases "fs s (luajson E) \<noteq> None \<and> env_executable E wrk_exe")
    case True
    let ?w = "wrk_done E (wrk_cmd E url test) ?s0"
    have "client_frame ?s0 ?w" using True by (simp add: client_frame_wrk_done)
    moreover have "client_frame ?w (snd (ingest E ?w))" by (rule client_frame_ingest)
    ultimately have "client_frame s (snd (ingest E ?w))"
      using s0 client_frame_trans by (blast dest: transpD)
    then show ?thesis using True by (simp add: start_wrk_spawned)
  next
    case False
    then show ?thesis using s0 by (simp add: start_wrk_unspawned)
  qed
qed

section \<open>Properties\<close>

text \<open>
  C14. The load generator never outlives \<^verbatim>\<open>start_wrk\<close>: whatever happens (missing
  helper, missing \<^verbatim>\<open>wrk\<close>, missing or unparseable result), no process is alive
  afterwards that was not alive before, and no exit callback is registered.
\<close>

theorem start_wrk_reaps:
  "set (live (snd (start_wrk E v url test s))) \<subseteq> set (live s) \<and>
   atexit_pids (snd (start_wrk E v url test s)) = atexit_pids s"
  using keeps_cf_start_wrk [of E v url test] by (simp add: py_keeps_def client_frame_def)

text \<open>
  C15. A run of the load generator that writes a parseable result: \<^verbatim>\<open>start_wrk\<close>
  returns the parsed value, the result file is deleted, and the trace records
  the spawn of the command line, the reaping of that child and the deletion.
\<close>

theorem start_wrk_ok:
  assumes "fs s (luajson E) \<noteq> None" and "env_executable E wrk_exe"
    and "env_tool_output E (next_pid s) (wrk_cmd E url test) = Some out"
    and "env_json_load E out = Some r"
  shows "fst (start_wrk E False url test s) = Inr r \<and>
         fs (snd (start_wrk E False url test s)) = (fs s)(resfile := None) \<and>
         added s (snd (start_wrk E False url test s)) =
           [Spawn (next_pid s) (wrk_cmd E url test), Reaped (next_pid s), Unlink resfile]"
proof -
  let ?w = "wrk_done E (wrk_cmd E url test) s"
  have w: "fs ?w = (fs s)(resfile \<mapsto> out)" "added s ?w = [Spawn (next_pid s) (wrk_cmd E url test), Reaped (next_pid s)]"
    "extends s ?w"
    using wrk_done_fields [of "wrk_cmd E url test" E s] assms(2,3) by simp_all
  have "start_wrk E False url test s = (Inr r, emit (Unlink resfile) (?w\<lparr>fs := (fs ?w)(resfile := None)\<rparr>))"
    using assms w by (simp add: start_wrk_spawned ingest_parsed)
  moreover obtain tr where "trace ?w = trace s @ tr" using w(3) by (auto simp: extends_def)
  ultimately show ?thesis
    using w by (simp add: emit_def added_def)
qed

text \<open>
  C9. A result that does not parse is not cleaned up: \<^verbatim>\<open>json.load\<close> raises
  before \<^verbatim>\<open>os.unlink\<close>, so the transient file stays in the working directory
  (the specification says it is deleted whether or not parsing succeeded).
\<close>

theorem start_wrk_unparsed_left_behind:
  assumes "fs s (luajson E) \<noteq> None" and "env_executable E wrk_exe"
    and "env_tool_output E (next_pid s) (wrk_cmd E url test) = Some out"
    and "env_json_load E out = None"
  shows "fst (start_wrk E v url test s) = Inl (ValueError ''No JSON object could be decoded'') \<and>
         fs (snd (start_wrk E v url test s)) resfile = Some out"
proof -
  let ?s0 = "if v then emit (Print (''I will now run '' @ py_join '' '' (wrk_cmd E url test))) s else s"
  have "fs (wrk_done E (wrk_cmd E url test) ?s0) resfile = Some out"
    using wrk_done_fields(1) [of "wrk_cmd E url test" E ?s0] assms(2,3) by simp
  then show ?thesis
    using assms by (simp add: start_wrk_spawned ingest_unparsed)
qed

text \<open>
  C10. The result file is not unique to the run: when \<^verbatim>\<open>wrk\<close> writes nothing (it
  crashed, or could not connect) and a parseable \<^verbatim>\<open>ssresults.json\<close> is left
  from an earlier run, \<^verbatim>\<open>start_wrk\<close> returns that stale result as this
  scenario's and deletes it.
\<close>

theorem start_wrk_stale_result:
  assumes "fs s (luajson E) \<noteq> None" and "env_executable E wrk_exe"
    and "env_tool_output E (next_pid s) (wrk_cmd E url test) = None"
    and "fs s resfile = Some old" and "env_json_load E old = Some r"
  shows "fst (start_wrk E v url test s) = Inr r"
proof -
  let ?s0 = "if v then emit (Print (''I will now run '' @ py_join '' '' (wrk_cmd E url test))) s else s"
  have "fs (wrk_done E (wrk_cmd E url test) ?s0) resfile = Some old"
    using wrk_done_fields(1) [of "wrk_cmd E url test" E ?s0] assms(2,3,4) by simp
  then show ?thesis
    using assms by (simp add: start_wrk_spawned ingest_parsed)
qed

text \<open>
  C29. A missing \<^verbatim>\<open>JSON.lua\<close> helper fails the \<^verbatim>\<open>assert\<close> before \<^verbatim>\<open>wrk\<close> is
  started: \<^verbatim>\<open>AssertionError\<close>, nothing spawned and no file touched.
\<close>

theorem start_wrk_no_helper:
  assumes "fs s (luajson E) = None"
  shows "fst (start_wrk E v url test s) = Inl AssertionError \<and>
         fs (snd (start_wrk E v url test s)) = fs s \<and>
         (\<forall>p a. Spawn p a \<notin> set (added s (snd (start_wrk E v url test s))))"
  using assms by (cases v) (auto simp: start_wrk_def Let_def py_simps emit_def added_def)

theorem start_wrk_ok_witness:
  "fs client_world (luajson (wrk_env (\<lambda>_ _. Some ''{requests: 1}''))) \<noteq> None \<and>
   env_executable (wrk_env (\<lambda>_ _. Some ''{requests: 1}'')) wrk_exe \<and>
   env_tool_output (wrk_env (\<lambda>_ _. Some ''{requests: 1}'')) (next_pid client_world)
     (wrk_cmd (wrk_env (\<lambda>_ _. Some ''{requests: 1}'')) ''http://node1:20000'' (hd tests)) = Some ''{requests: 1}'' \<and>
   env_json_load (wrk_env (\<lambda>_ _. Some ''{requests: 1}'')) ''{requests: 1}'' = Some ''{requests: 1}'' \<and>
   fst (start_wrk (wrk_env (\<lambda>_ _. Some ''{requests: 1}'')) False ''http://node1:20000'' (hd tests) client_world)
     = Inr ''{requests: 1}''"
proof -
  let ?E = "wrk_env (\<lambda>_ _. Some ''{requests: 1}'')"
  have h1: "fs client_world (luajson ?E) \<noteq> None" by (simp add: client_world_def luajson_def wrk_env_def)
  have h2: "env_executable ?E wrk_exe" by (simp add: wrk_env_def)
  have h3: "env_tool_output ?E (next_pid client_world) (wrk_cmd ?E ''http://node1:20000'' (hd tests)) = Some ''{requests: 1}''"
    by (simp add: wrk_env_def)
  have h4: "env_json_load ?E ''{requests: 1}'' = Some ''{requests: 1}''" by (simp add: wrk_env_def)
  show ?thesis using h1 h2 h3 h4 start_wrk_ok [OF h1 h2 h3 h4] by blast
qed

theorem start_wrk_unparsed_left_behind_witness:
  "fs client_world (luajson (wrk_env (\<lambda>_ _. Some ''Segmentation fault''))) \<noteq> None \<and>
   env_tool_output (wrk_env (\<lambda>_ _. Some ''Segmentation fault'')) (next_pid client_world)
     (wrk_cmd (wrk_env (\<lambda>_ _. Some ''Segmentation fault'')) ''http://node1:20000'' (hd tests)) = Some ''Segmentation fault'' \<and>
   env_json_load (wrk_env (\<lambda>_ _. Some ''Segmentation fault'')) ''Segmentation fault'' = None \<and>
   fs (snd (start_wrk (wrk_env (\<lambda>_ _. Some ''Segmentation fault'')) True ''http://node1:20000'' (hd tests) client_world))
     resfile = Some ''Segmentation fault''"
proof -
  let ?E = "wrk_env (\<lambda>_ _. Some ''Segmentation fault'')"
  have h1: "fs client_world (luajson ?E) \<noteq> None" by (simp add: client_world_def luajson_def wrk_env_def)
  have h2: "env_executable ?E wrk_exe" by (simp add: wrk_env_def)
  have h3: "env_tool_output ?E (next_pid client_world) (wrk_cmd ?E ''http://node1:20000'' (hd tests)) = Some ''Segmentation fault''"
    by (simp add: wrk_env_def)
  have h4: "env_json_load ?E ''Segmentation fault'' = None" by (simp add: wrk_env_def)
  show ?thesis using h1 h3 h4 start_wrk_unparsed_left_behind [OF h1 h2 h3 h4, of True] by blast
qed

theorem start_wrk_stale_result_witness:
  "fs (client_world\<lparr>fs := (fs client_world)(resfile \<mapsto> ''{old: 1}'')\<rparr>) resfile = Some ''{old: 1}'' \<and>
   env_tool_output (wrk_env (\<lambda>_ _. None)) 1000 (wrk_cmd (wrk_env (\<lambda>_ _. None)) ''http://node1:20000'' (hd tests)) = None \<and>
   fst (start_wrk (wrk_env (\<lambda>_ _. None)) False ''http://node1:20000'' (hd tests)
          (client_world\<lparr>fs := (fs client_world)(resfile \<mapsto> ''{old: 1}'')\<rparr>)) = Inr ''{old: 1}''"
proof -
  let ?E = "wrk_env (\<lambda>_ _. None)" and ?s = "client_world\<lparr>fs := (fs client_world)(resfile \<mapsto> ''{old: 1}'')\<rparr>"
  have h1: "fs ?s (luajson ?E) \<noteq> None" by (simp add: client_world_def luajson_def wrk_env_def resfile_def)
  have h2: "env_executable ?E wrk_exe" by (simp add: wrk_env_def)
  have h3: "env_tool_output ?E (next_pid ?s) (wrk_cmd ?E ''http://node1:20000'' (hd tests)) = None"
    by (simp add: wrk_env_def)
  have h4: "fs ?s resfile = Some ''{old: 1}''" by simp
  have h5: "env_json_load ?E ''{old: 1}'' = Some ''{old: 1}''" by (simp add: wrk_env_def)
  show ?thesis using h3 h4 start_wrk_stale_result [OF h1 h2 h3 h4 h5] by (simp add: wrk_env_def)
qed

theorem start_wrk_no_helper_witness:
  "fs world0 (luajson (wrk_env (\<lambda>_ _. None))) = None \<and>
   fst (start_wrk (wrk_env (\<lambda>_ _. None)) False ''http://node1:20000'' (hd tests) world0) = Inl AssertionError"
proof -
  have h: "fs world0 (luajson (wrk_env (\<lambda>_ _. None))) = None" by (simp add: world0_def)
  show ?thesis using h start_wrk_no_helper [OF h, of False "''http://node1:20000''" "hd tests"] by blast
qed

text \<open>
  C34. The \<^verbatim>\<open>wrk\<close> command line carries the scenario faithfully: read
  back the way \<^verbatim>\<open>wrk\<close> reads its flags, \<^verbatim>\<open>-c\<close> gives the scenario's
  connection count and \<^verbatim>\<open>-t\<close> its thread count (as decimal numbers),
  \<^verbatim>\<open>-d\<close> its duration, \<^verbatim>\<open>-s\<close> the Lua script beside the benchmark, and
  the target is the URL followed by the scenario's path.
\<close>

theorem wrk_cmd_roundtrip:
  "\<exists>m. wrk_opts (tl (wrk_cmd E url t)) Map.empty = Some (m, url @ path t) \<and>
       map_option nat_of_str (m ''-c'') = Some (nconnections t) \<and>
       map_option nat_of_str (m ''-t'') = Some (nthreads t) \<and>
       m ''-d'' = Some (duration t) \<and>
       m ''-s'' = Some (env_script_dir E @ ''/cs3214bench.lua'') \<and>
       hd (wrk_cmd E url t) = wrk_exe"
  by (simp add: wrk_cmd_def py_startswith_def str_nat_roundtrip)

end
