(* ===== verification/Aggregator.thy ===== *)
theory Aggregator
  imports Load_Driver
begin

text \<open>
  The results aggregator, \<^verbatim>\<open>src/bin/server_bench.py\<close> lines 258--278: the
  report starts as \<^verbatim>\<open>dict(version = VERSION)\<close>; for each name of
  \<^verbatim>\<open>teststorun\<close> an unknown name is reported and skipped, a known one runs
  \<^verbatim>\<open>start_wrk\<close> under \<^verbatim>\<open>except Exception\<close> and stores its result under the
  name; after the loop the report is dumped once to
  \<^verbatim>\<open>sysstatd.results.<pid>.json\<close>.

  The abstract specification \<open>aggregate\<close> is the report as a pure function of
  the selected names and of what each scenario yields. The refinement
  theorem relates the loop to it under the invariant \<open>wrk_inv\<close> (the helper
  is readable, and no parseable result file is lying around); the other
  lemmas show the shape of every report, what an unknown selection does, and
  that the report is the only file the client writes, once, at the end.
\<close>

section \<open>Definitions\<close>

type_synonym 'j report = "string \<rightharpoonup> 'j rval"

definition initial_report :: "'j report" where
  "initial_report = [''version'' \<mapsto> RStr VERSION]"

text \<open>Lines 264--269, the body of the loop for a known scenario.\<close>

definition run_one :: "'j env \<Rightarrow> bool \<Rightarrow> string \<Rightarrow> 'j report \<Rightarrow> string \<Rightarrow> runconfig \<Rightarrow> 'j report act" where
  "run_one E verbose url results testname test =
     py_seq (py_print (''Now running test: '' @ testname @ ''\<newline>''))
       (py_catch (py_bind (start_wrk E verbose url test) (\<lambda>r. py_return (results(testname \<mapsto> RJson r))))
          is_Exception
          (\<lambda>e. py_seq (py_print (''An exception occurred '' @ exn_str e @ '', skipping this test''))
                 (py_return results)))"

text \<open>Lines 259--269.\<close>

fun client_loop :: "'j env \<Rightarrow> bool \<Rightarrow> string \<Rightarrow> string list \<Rightarrow> 'j report \<Rightarrow> 'j report act" where
  "client_loop E verbose url [] results = py_return results"
| "client_loop E verbose url (testname # rest) results =
     (case testsbyname testname of
        None \<Rightarrow> py_seq (py_print (''Test: '' @ testname @ '' not found, skipping''))
                 (client_loop E verbose url rest results)
      | Some test \<Rightarrow> py_bind (run_one E verbose url results testname test)
                      (client_loop E verbose url rest))"

definition report_name :: "'j env \<Rightarrow> string" where
  "report_name E = ''sysstatd.results.'' @ str_nat (env_pid E) @ ''.json''"

text \<open>Lines 271--278.\<close>

definition write_report :: "'j env \<Rightarrow> 'j report \<Rightarrow> unit act" where
  "write_report E results =
     py_seq (py_print (''Writing results to '' @ report_name E))
       (py_seq (write_path (report_name E) (env_json_dump E results))
          (py_print (''\<newline>    Submit your results to the scoreboard with ~cs3214/bin/sspostresults.py '' @
                     report_name E @ ''\<newline>    '')))"

text \<open>Lines 258--278.\<close>

definition run_tests :: "'j env \<Rightarrow> bool \<Rightarrow> string \<Rightarrow> string list \<Rightarrow> unit act" where
  "run_tests E verbose url teststorun =
     py_bind (client_loop E verbose url teststorun initial_report) (write_report E)"

text \<open>The specification: the report after the names \<open>ns\<close>, where \<open>f t\<close> is what
  scenario \<open>t\<close> yields (\<open>None\<close>: it failed and is skipped).\<close>

fun aggregate :: "(runconfig \<Rightarrow> 'j option) \<Rightarrow> string list \<Rightarrow> 'j report \<Rightarrow> 'j report" where
  "aggregate f [] m = m"
| "aggregate f (n # ns) m =
     aggregate f ns (case testsbyname n of
                       None \<Rightarrow> m
                     | Some t \<Rightarrow> (case f t of None \<Rightarrow> m | Some r \<Rightarrow> m(n \<mapsto> RJson r)))"

text \<open>What a scenario yields when \<^verbatim>\<open>wrk\<close> writes \<open>tool cmd\<close> for the command line \<open>cmd\<close>.\<close>

definition scenario_yield :: "'j env \<Rightarrow> (string list \<Rightarrow> string option) \<Rightarrow> string \<Rightarrow> runconfig \<Rightarrow> 'j option" where
  "scenario_yield E tool url t = Option.bind (tool (wrk_cmd E url t)) (env_json_load E)"

text \<open>The invariant of the loop: the helper script is readable, and a result file,
  if one is present, does not parse.\<close>

definition wrk_inv :: "'j env \<Rightarrow> world \<Rightarrow> bool" where
  "wrk_inv E s \<longleftrightarrow> fs s (luajson E) \<noteq> None \<and>
     (case fs s resfile of None \<Rightarrow> True | Some c \<Rightarrow> env_json_load E c = None)"

section \<open>What start_wrk can raise\<close>

lemma ingest_raises_Exception: "fst (ingest E s) = Inl e \<Longrightarrow> is_Exception e"
  by (auto simp: ingest_def json_load_def py_simps split: option.splits)

lemma start_wrk_raises_Exception:
  assumes "fst (start_wrk E v url test s) = Inl e"
  shows "is_Exception e"
proof (cases "fs s (luajson E) \<noteq> None \<and> env_executable E wrk_exe")
  case True
  then show ?thesis using assms by (simp add: start_wrk_spawned ingest_raises_Exception)
next
  case False
  then show ?thesis using assms by (auto simp: start_wrk_unspawned split: if_splits)
qed

section \<open>Frame of the loop\<close>

lemma keeps_cf_print: "py_keeps client_frame (py_print m)"
  by (simp add: py_keeps_def py_print_def client_frame_emit)

lemma keeps_cf_run_one: "py_keeps client_frame (run_one E v url m n t)"
proof -
  have body: "py_keeps client_frame (py_bind (start_wrk E v url t) (\<lambda>r. py_return (m(n \<mapsto> RJson r))))"
    by (rule py_keeps_bind [OF client_frame_trans client_frame_refl keeps_cf_start_wrk
                               py_keeps_return [OF client_frame_refl]])
  have handler: "py_keeps client_frame (py_seq (py_print msg) (py_return m))" for msg
    by (rule py_keeps_seq [OF client_frame_trans client_frame_refl keeps_cf_print
                              py_keeps_return [OF client_frame_refl]])
  show ?thesis
    unfolding run_one_def
    by (rule py_keeps_seq [OF client_frame_trans client_frame_refl keeps_cf_print
                              py_keeps_catch [OF client_frame_trans body handler]])
qed

lemma keeps_cf_client_loop: "py_keeps client_frame (client_loop E v url ns m)"
proof (induction ns arbitrary: m)
  case Nil
  then show ?case by (simp add: py_keeps_return [OF client_frame_refl])
next
  case (Cons n ns)
  then show ?case
    by (auto split: option.splits
             intro: py_keeps_seq [OF client_frame_trans client_frame_refl keeps_cf_print]
                    py_keeps_bind [OF client_frame_trans client_frame_refl keeps_cf_run_one])
qed

section \<open>Shape of the report\<close>

lemma run_one_shape:
  "fst (run_one E v url m n t s) = Inr m \<or> (\<exists>x. fst (run_one E v url m n t s) = Inr (m(n \<mapsto> RJson x)))"
proof -
  let ?s1 = "emit (Print (''Now running test: '' @ n @ ''\<newline>'')) s"
  obtain r s' where sw: "start_wrk E v url t ?s1 = (r, s')" by (cases "start_wrk E v url t ?s1")
  show ?thesis
  proof (cases r)
    case (Inl e)
    with sw have "is_Exception e" using start_wrk_raises_Exception [of E v url t ?s1 e] by simp
    with sw Inl show ?thesis by (simp add: run_one_def py_simps)
  next
    case (Inr x)
    with sw show ?thesis by (auto simp: run_one_def py_simps)
  qed
qed

lemma client_loop_shape:
  "\<exists>m'. fst (client_loop E v url ns m s) = Inr m' \<and> dom m' \<subseteq> dom m \<union> (set ns \<inter> dom testsbyname) \<and>
        (\<forall>k. k \<notin> dom testsbyname \<longrightarrow> m' k = m k)"
proof (induction ns arbitrary: m s)
  case Nil
  then show ?case by (simp add: py_simps)
next
  case (Cons n ns)
  show ?case
  proof (cases "testsbyname n")
    case None
    let ?s1 = "emit (Print (''Test: '' @ n @ '' not found, skipping'')) s"
    from Cons.IH [of m ?s1] obtain m' where
      l: "fst (client_loop E v url ns m ?s1) = Inr m'" and
      d: "dom m' \<subseteq> dom m \<union> (set ns \<inter> dom testsbyname)" and
      k: "\<forall>k. k \<notin> dom testsbyname \<longrightarrow> m' k = m k" by blast
    have "client_loop E v url (n # ns) m s = client_loop E v url ns m ?s1"
      using None by (simp add: py_seq_apply py_print_def)
    moreover have "dom m' \<subseteq> dom m \<union> (set (n # ns) \<inter> dom testsbyname)" using d by auto
    ultimately show ?thesis using l k by auto
  next
    case (Some t)
    obtain r s1 where r1: "run_one E v url m n t s = (r, s1)" by (cases "run_one E v url m n t s")
    from run_one_shape [of E v url m n t s] r1
    obtain m1 where rm: "r = Inr m1" and m1: "m1 = m \<or> (\<exists>x. m1 = m(n \<mapsto> RJson x))" by auto
    from Cons.IH [of m1 s1] obtain m' where
      l: "fst (client_loop E v url ns m1 s1) = Inr m'" and
      d: "dom m' \<subseteq> dom m1 \<union> (set ns \<inter> dom testsbyname)" and
      k: "\<forall>k. k \<notin> dom testsbyname \<longrightarrow> m' k = m1 k" by blast
    have "client_loop E v url (n # ns) m s = client_loop E v url ns m1 s1"
      using Some r1 rm by (simp add: py_bind_apply)
    moreover have dm1: "dom m1 \<subseteq> dom m \<union> {n}" and "\<forall>k. k \<noteq> n \<longrightarrow> m1 k = m k" using m1 by auto
    moreover have "n \<in> dom testsbyname" using Some by auto
    then have "dom m' \<subseteq> dom m \<union> (set (n # ns) \<inter> dom testsbyname)"
      using d dm1 by auto
    ultimately show ?thesis using l k Some by auto
  qed
qed

section \<open>Refinement of the loop\<close>

lemma luajson_ne_resfile: "luajson E \<noteq> resfile"
proof
  assume "luajson E = resfile"
  then have "last (luajson E) = last resfile" by simp
  then show False by (simp add: luajson_def resfile_def)
qed

lemma wrk_inv_emit [simp]: "wrk_inv E (emit e s) = wrk_inv E s"
  by (simp add: wrk_inv_def)

lemma start_wrk_inv:
  assumes inv: "wrk_inv E s" and exe: "env_executable E wrk_exe"
    and out: "env_tool_output E (next_pid s) (wrk_cmd E url test) = out0"
  shows "wrk_inv E (snd (start_wrk E v url test s)) \<and>
         (case Option.bind out0 (env_json_load E) of
            Some r \<Rightarrow> fst (start_wrk E v url test s) = Inr r
          | None \<Rightarrow> (\<exists>e. fst (start_wrk E v url test s) = Inl e))"
proof -
  let ?s0 = "if v then emit (Print (''I will now run '' @ py_join '' '' (wrk_cmd E url test))) s else s"
  let ?w = "wrk_done E (wrk_cmd E url test) ?s0"
  have lua: "fs s (luajson E) \<noteq> None" using inv by (simp add: wrk_inv_def)
  have sw: "start_wrk E v url test s = ingest E ?w" using lua exe by (rule start_wrk_spawned)
  have s0: "fs ?s0 = fs s" "next_pid ?s0 = next_pid s" by simp_all
  have fw: "fs ?w = (case out0 of None \<Rightarrow> fs s | Some out \<Rightarrow> (fs s)(resfile \<mapsto> out))"
    using wrk_done_fields(1) [of "wrk_cmd E url test" E ?s0] exe out unfolding s0 by simp
  have lua_w: "fs ?w (luajson E) \<noteq> None" using fw lua luajson_ne_resfile [of E] by (simp split: option.splits)
  show ?thesis
  proof (cases out0)
    case None
    then have f: "fs ?w = fs s" using fw by simp
    show ?thesis
    proof (cases "fs s resfile")
      case None
      then have "ingest E ?w = (Inl (IOError ''[Errno 2] No such file or directory''), ?w)"
        using f by (simp add: ingest_missing)
      then show ?thesis using inv f \<open>out0 = None\<close> by (simp add: sw wrk_inv_def)
    next
      case (Some c)
      then have "env_json_load E c = None" using inv by (simp add: wrk_inv_def)
      then have "ingest E ?w = (Inl (ValueError ''No JSON object could be decoded''), ?w)"
        using f Some by (simp add: ingest_unparsed)
      then show ?thesis using inv f \<open>out0 = None\<close> by (simp add: sw wrk_inv_def)
    qed
  next
    case (Some out)
    then have f: "fs ?w resfile = Some out" using fw by simp
    show ?thesis
    proof (cases "env_json_load E out")
      case None
      then have "ingest E ?w = (Inl (ValueError ''No JSON object could be decoded''), ?w)"
        using f by (simp add: ingest_unparsed)
      then show ?thesis using lua_w f None \<open>out0 = Some out\<close> by (simp add: sw wrk_inv_def)
    next
      case (Some r)
      then have "ingest E ?w = (Inr r, emit (Unlink resfile) (?w\<lparr>fs := (fs ?w)(resfile := None)\<rparr>))"
        using f by (simp add: ingest_parsed)
      then show ?thesis using lua_w luajson_ne_resfile [of E] Some \<open>out0 = Some out\<close>
        by (simp add: sw wrk_inv_def)
    qed
  qed
qed

lemma run_one_refines:
  assumes "wrk_inv E s" and "env_executable E wrk_exe" and "\<forall>p. env_tool_output E p = tool"
  shows "fst (run_one E v url m n t s) =
           Inr (case scenario_yield E tool url t of None \<Rightarrow> m | Some r \<Rightarrow> m(n \<mapsto> RJson r)) \<and>
         wrk_inv E (snd (run_one E v url m n t s))"
proof -
  let ?s1 = "emit (Print (''Now running test: '' @ n @ ''\<newline>'')) s"
  have i1: "wrk_inv E ?s1" using assms(1) by simp
  obtain r s' where sw: "start_wrk E v url t ?s1 = (r, s')" by (cases "start_wrk E v url t ?s1")
  have o: "env_tool_output E (next_pid ?s1) (wrk_cmd E url t) = tool (wrk_cmd E url t)"
    using assms(3) by simp
  from start_wrk_inv [OF i1 assms(2) o, of v]
  have i2: "wrk_inv E s'" and
    res: "case scenario_yield E tool url t of Some x \<Rightarrow> r = Inr x | None \<Rightarrow> (\<exists>e. r = Inl e)"
    unfolding sw fst_conv snd_conv scenario_yield_def by simp_all
  show ?thesis
  proof (cases "scenario_yield E tool url t")
    case None
    with res obtain e where e: "r = Inl e" by auto
    with sw have "is_Exception e" using start_wrk_raises_Exception [of E v url t ?s1 e] by simp
    with sw e None i2 show ?thesis by (simp add: run_one_def py_simps)
  next
    case (Some x)
    with res sw i2 show ?thesis by (simp add: run_one_def py_simps)
  qed
qed

lemma client_loop_refines:
  assumes "wrk_inv E s" and "env_executable E wrk_exe" and "\<forall>p. env_tool_output E p = tool"
  shows "fst (client_loop E v url ns m s) = Inr (aggregate (scenario_yield E tool url) ns m) \<and>
         wrk_inv E (snd (client_loop E v url ns m s))"
  using assms(1)
proof (induction ns arbitrary: m s)
  case Nil
  then show ?case by (simp add: py_simps)
next
  case (Cons n ns)
  show ?case
  proof (cases "testsbyname n")
    case None
    with Cons.IH [of "emit (Print (''Test: '' @ n @ '' not found, skipping'')) s" m] Cons.prems
    show ?thesis by (simp add: py_seq_apply py_print_def)
  next
    case (Some t)
    obtain r s1 where r1: "run_one E v url m n t s = (r, s1)" by (cases "run_one E v url m n t s")
    with run_one_refines [OF Cons.prems assms(2,3), of v url m n t]
    have r: "r = Inr (case scenario_yield E tool url t of None \<Rightarrow> m | Some r \<Rightarrow> m(n \<mapsto> RJson r))"
      and i1: "wrk_inv E s1" by simp_all
    with Cons.IH [OF i1] Some r1 show ?thesis by (simp add: py_bind_apply)
  qed
qed

section \<open>The report file\<close>

lemma report_name_dirname: "dirname (report_name E) = ''.''"
proof -
  have "CHR ''/'' \<notin> set (str_nat (env_pid E))"
  proof
    assume "CHR ''/'' \<in> set (str_nat (env_pid E))"
    from str_nat_digits [OF this] show False by simp
  qed
  then show ?thesis by (simp add: report_name_def dirname_simple)
qed

lemma write_report_run:
  assumes "dirs s ''.'' = Some True"
  shows "write_report E m s =
           (Inr (), emit (Print (''\<newline>    Submit your results to the scoreboard with ~cs3214/bin/sspostresults.py '' @
                                  report_name E @ ''\<newline>    ''))
                      (emit (WriteFile (report_name E))
                        ((emit (Print (''Writing results to '' @ report_name E)) s)
                           \<lparr>fs := (fs s)(report_name E \<mapsto> env_json_dump E m)\<rparr>)))"
  using assms by (simp add: write_report_def py_simps report_name_dirname emit_def)

lemma client_frame_added:
  "client_frame s s' \<Longrightarrow> trace s' = trace s @ added s s' \<and> dirs s' = dirs s \<and>
     (\<forall>e \<in> set (added s s'). \<not> is_file_write e)"
  by (auto simp: client_frame_def extends_def added_def)

text \<open>
  C5. Refinement of the client's report: with the helper script present,
  \<^verbatim>\<open>wrk\<close> installed, no parseable stale result file, a writable working
  directory and a load generator whose output depends only on its command line,
  the client writes to \<^verbatim>\<open>sysstatd.results.<pid>.json\<close> the dump of
  \<open>aggregate\<close>: the version, and for every selected catalogue name, in order,
  the parsed output of its \<^verbatim>\<open>wrk\<close> run when that parses.
\<close>

theorem run_tests_refines:
  assumes "wrk_inv E s" and "env_executable E wrk_exe" and "\<forall>p. env_tool_output E p = tool"
    and "dirs s ''.'' = Some True"
  shows "fst (run_tests E v url names s) = Inr () \<and>
         fs (snd (run_tests E v url names s)) (report_name E) =
           Some (env_json_dump E (aggregate (scenario_yield E tool url) names initial_report))"
proof -
  obtain r s1 where l: "client_loop E v url names initial_report s = (r, s1)"
    by (cases "client_loop E v url names initial_report s")
  from client_loop_refines [OF assms(1-3), of v url names initial_report] l
  have r: "r = Inr (aggregate (scenario_yield E tool url) names initial_report)" by simp
  from keeps_cf_client_loop [of E v url names initial_report] l
  have "client_frame s s1" by (metis py_keeps_def snd_conv)
  then have "dirs s1 ''.'' = Some True" using assms(4) by (simp add: client_frame_def)
  with l r show ?thesis by (simp add: run_tests_def py_bind_apply write_report_run)
qed

text \<open>
  C11. Whatever the load generator and the file system do, the client loop
  returns (no exception escapes \<^verbatim>\<open>except Exception\<close>), and its report holds
  the version unchanged and otherwise only names that were both selected and
  in the catalogue.
\<close>

theorem client_loop_report_keys:
  "\<exists>m. fst (client_loop E v url names initial_report s) = Inr m \<and>
       m ''version'' = Some (RStr VERSION) \<and>
       dom m \<subseteq> insert ''version'' (set names \<inter> dom testsbyname)"
proof -
  from client_loop_shape [of E v url names initial_report s] obtain m where
    l: "fst (client_loop E v url names initial_report s) = Inr m" and
    d: "dom m \<subseteq> dom (initial_report :: 'a report) \<union> (set names \<inter> dom testsbyname)" and
    k: "\<forall>k. k \<notin> dom testsbyname \<longrightarrow> m k = initial_report k" by blast
  have "''version'' \<notin> dom testsbyname" by (simp add: dom_testsbyname default_teststorun_def tests_names)
  with k have "m ''version'' = Some (RStr VERSION)" by (simp add: initial_report_def)
  moreover have "dom m \<subseteq> insert ''version'' (set names \<inter> dom testsbyname)"
    using d by (auto simp: initial_report_def)
  ultimately show ?thesis using l by blast
qed

text \<open>
  C28. A selection none of whose names is in the catalogue (\<^verbatim>\<open>-t doesnotexist\<close>)
  runs nothing: the loop only prints one skip line per name and returns the
  report it was given.
\<close>

theorem client_loop_unknown_names:
  assumes "list_all (\<lambda>n. testsbyname n = None) names"
  shows "client_loop E v url names m s =
           (Inr m, s\<lparr>trace := trace s @ map (\<lambda>n. Print (''Test: '' @ n @ '' not found, skipping'')) names\<rparr>)"
  using assms
proof (induction names arbitrary: s)
  case Nil
  then show ?case by (simp add: py_simps)
next
  case (Cons n names)
  then show ?case by (simp add: py_seq_apply py_print_def emit_def)
qed

text \<open>
  C12. The report is persisted exactly once, at the end: with a writable working
  directory, everything the client role does before the report contains no
  file write, and the run ends with the announcement, the one write of
  \<^verbatim>\<open>sysstatd.results.<pid>.json\<close> and the submission hint.
\<close>

theorem run_tests_persists_once:
  assumes "dirs s ''.'' = Some True"
  shows "\<exists>pre. added s (snd (run_tests E v url names s)) =
                  pre @ [Print (''Writing results to '' @ report_name E), WriteFile (report_name E),
                         Print (''\<newline>    Submit your results to the scoreboard with ~cs3214/bin/sspostresults.py '' @
                                report_name E @ ''\<newline>    '')] \<and>
                (\<forall>e \<in> set pre. \<not> is_file_write e)"
proof -
  from client_loop_shape [of E v url names initial_report s] obtain m where
    l: "fst (client_loop E v url names initial_report s) = Inr m" by blast
  obtain s1 where l1: "client_loop E v url names initial_report s = (Inr m, s1)"
    using l by (cases "client_loop E v url names initial_report s") auto
  from keeps_cf_client_loop [of E v url names initial_report] l1
  have "client_frame s s1" by (metis py_keeps_def snd_conv)
  from client_frame_added [OF this] have
    d: "dirs s1 ''.'' = Some True" and w: "\<forall>e \<in> set (added s s1). \<not> is_file_write e"
    and t: "trace s1 = trace s @ added s s1" using assms by auto
  define tr where "tr = added s s1"
  have t': "trace s1 = trace s @ tr" using t by (simp add: tr_def)
  have "added s (snd (run_tests E v url names s)) =
          tr @ [Print (''Writing results to '' @ report_name E), WriteFile (report_name E),
                        Print (''\<newline>    Submit your results to the scoreboard with ~cs3214/bin/sspostresults.py '' @
                               report_name E @ ''\<newline>    '')]"
    using l1 d t' by (simp add: run_tests_def py_bind_apply write_report_run emit_def added_def)
  with w show ?thesis unfolding tr_def by blast
qed

theorem run_tests_refines_witness:
  "wrk_inv (wrk_env (\<lambda>_ _. Some ''{requests: 1}'')) client_world \<and>
   dirs client_world ''.'' = Some True \<and>
   aggregate (scenario_yield (wrk_env (\<lambda>_ _. Some ''{requests: 1}'')) (\<lambda>_. Some ''{requests: 1}'') ''http://node1:20000'')
     [''loadavg40'', ''nosuch''] initial_report =
     initial_report(''loadavg40'' \<mapsto> RJson ''{requests: 1}'') \<and>
   fst (run_tests (wrk_env (\<lambda>_ _. Some ''{requests: 1}'')) False ''http://node1:20000''
          [''loadavg40'', ''nosuch''] client_world) = Inr () \<and>
   fs (snd (run_tests (wrk_env (\<lambda>_ _. Some ''{requests: 1}'')) False ''http://node1:20000''
          [''loadavg40'', ''nosuch''] client_world)) ''sysstatd.results.5151.json'' = Some ''{}''"
proof -
  let ?E = "wrk_env (\<lambda>_ _. Some ''{requests: 1}'')"
  have h1: "wrk_inv ?E client_world"
    by (simp add: wrk_inv_def client_world_def world0_def luajson_def wrk_env_def resfile_def)
  have h2: "env_executable ?E wrk_exe" by (simp add: wrk_env_def)
  have h3: "\<forall>p. env_tool_output ?E p = (\<lambda>_. Some ''{requests: 1}'')" by (simp add: wrk_env_def)
  have h4: "dirs client_world ''.'' = Some True" by (simp add: client_world_def world0_def)
  have agg: "aggregate (scenario_yield ?E (\<lambda>_. Some ''{requests: 1}'') ''http://node1:20000'')
               [''loadavg40'', ''nosuch''] initial_report = initial_report(''loadavg40'' \<mapsto> RJson ''{requests: 1}'')"
    by (simp add: testsbyname_map_of tests_def scenario_yield_def wrk_env_def)
  have nm: "report_name ?E = ''sysstatd.results.5151.json''"
    by (simp add: report_name_def wrk_env_def str_nat_eval)
  from run_tests_refines [OF h1 h2 h3 h4, of False "''http://node1:20000''" "[''loadavg40'', ''nosuch'']"]
  show ?thesis using h1 h4 agg nm by (simp add: wrk_env_def)
qed

theorem client_loop_unknown_names_witness:
  "list_all (\<lambda>n. testsbyname n = None) [''doesnotexist''] \<and>
   client_loop (wrk_env (\<lambda>_ _. None)) False ''http://node1:20000'' [''doesnotexist''] initial_report client_world =
     (Inr initial_report,
      client_world\<lparr>trace := [Print ''Test: doesnotexist not found, skipping'']\<rparr>)"
proof -
  have h: "list_all (\<lambda>n. testsbyname n = None) [''doesnotexist'']"
    by (simp add: testsbyname_None tests_names)
  show ?thesis
    using h client_loop_unknown_names [OF h, of "wrk_env (\<lambda>_ _. None)" False "''http://node1:20000''"
                                             initial_report client_world]
    by (simp add: client_world_def world0_def)
qed

theorem run_tests_persists_once_witness:
  "dirs client_world ''.'' = Some True \<and>
   (\<exists>pre. added client_world (snd (run_tests (wrk_env (\<lambda>_ _. Some ''{requests: 1}'')) False
                                   ''http://node1:20000'' [''loadavg40''] client_world)) =
          pre @ [Print ''Writing results to sysstatd.results.5151.json'', WriteFile ''sysstatd.results.5151.json'',
                 Print (''\<newline>    Submit your results to the scoreboard with ~cs3214/bin/sspostresults.py '' @
                        ''sysstatd.results.5151.json'' @ ''\<newline>    '')] \<and>
          list_all (\<lambda>e. \<not> is_file_write e) pre)"
proof -
  let ?E = "wrk_env (\<lambda>_ _. Some ''{requests: 1}'')"
  have h: "dirs client_world ''.'' = Some True" by (simp add: client_world_def world0_def)
  have nm: "report_name ?E = ''sysstatd.results.5151.json''"
    by (simp add: report_name_def wrk_env_def str_nat_eval)
  from run_tests_persists_once [OF h, of ?E False "''http://node1:20000''" "[''loadavg40'']"]
  show ?thesis using h nm by (simp add: list_all_iff)
qed

end
