(* ===== verification/Fixtures.thy ===== *)
theory Fixtures
  imports Harness_State
begin

text \<open>
  The fixture preparer, \<^verbatim>\<open>src/bin/server_bench.py\<close> lines 141--159 inside
  \<^verbatim>\<open>start_server\<close>: the root directory check, the closures
  \<^verbatim>\<open>make_synthetic_content\<close> and \<^verbatim>\<open>write_file\<close>, and the three files
  (\<^verbatim>\<open>small\<close>, \<^verbatim>\<open>large\<close>, the copied reference page) written under the root.
  Its lemmas: the synthetic content has the length Python 2's integer division
  gives and repeats the sixteen hexadecimal digits; after a successful
  preparation each file holds exactly the content the health check will
  expect (the round trip the benchmark relies on); a root that cannot be used
  makes \<^verbatim>\<open>os.mkdir\<close> or, for a plain file, the first \<^verbatim>\<open>open\<close> raise,
  and nothing is written.
\<close>

section \<open>Definitions\<close>

definition hexdigits :: string where
  "hexdigits = ''0123456789ABCDEF''"

text \<open>\<^verbatim>\<open>'0123456789ABCDEF' * (sz/16)\<close>: in Python 2, \<^verbatim>\<open>/\<close> on ints truncates.\<close>

definition make_synthetic_content :: "nat \<Rightarrow> string" where
  "make_synthetic_content sz = concat (replicate (sz div 16) hexdigits)"

definition write_file :: "string \<Rightarrow> string \<Rightarrow> string \<Rightarrow> unit act" where
  "write_file root_dir fname content = write_path (root_dir @ ''/'' @ fname) content"

definition www_name :: string where
  "www_name = ''www.cs.vt.edu-20160222.html''"

definition ensure_root_dir :: "string \<Rightarrow> unit act" where
  "ensure_root_dir root_dir =
     py_seq (py_print (''I will use the directory '' @ root_dir @ '' to store 2 files''))
       (py_bind (os_access_w root_dir) (\<lambda>ok. py_when (\<not> ok) (os_mkdir root_dir)))"

text \<open>Lines 141--159; returns the three contents, which the health check compares against.\<close>

definition prepare_fixtures :: "'j env \<Rightarrow> string \<Rightarrow> (string \<times> string \<times> string) act" where
  "prepare_fixtures E root_dir =
     py_seq (ensure_root_dir root_dir)
       (let sfilecontent = make_synthetic_content 1024 in
        py_seq (write_file root_dir ''small'' sfilecontent)
          (let lfilecontent = make_synthetic_content (2250 * 1024) in
           py_seq (write_file root_dir ''large'' lfilecontent)
             (py_bind (read_path (env_script_dir E @ ''/res/'' @ www_name)) (\<lambda>wwwcscont.
                py_seq (write_file root_dir www_name wwwcscont)
                  (py_return (sfilecontent, lfilecontent, wwwcscont))))))"

text \<open>The root can be written into: it is a writable directory, or nothing of that
  name exists yet and its parent is a writable directory, so that
  \<^verbatim>\<open>os.mkdir\<close> creates it.\<close>

definition root_usable :: "world \<Rightarrow> string \<Rightarrow> bool" where
  "root_usable s root_dir \<longleftrightarrow> root_dir \<noteq> [] \<and>
     (dirs s root_dir = Some True \<or>
      (dirs s root_dir = None \<and> fs s root_dir = None \<and> dirs s (dirname root_dir) = Some True))"

section \<open>Synthetic content\<close>

lemma length_hexdigits [simp]: "length hexdigits = 16"
  by (simp add: hexdigits_def)

lemma length_make_synthetic_content: "length (make_synthetic_content sz) = 16 * (sz div 16)"
  by (simp add: make_synthetic_content_def length_concat sum_list_replicate)

lemma make_synthetic_content_nth:
  "i < length (make_synthetic_content sz) \<Longrightarrow> make_synthetic_content sz ! i = hexdigits ! (i mod 16)"
proof (induction "sz div 16" arbitrary: sz i)
  case 0
  then show ?case by (simp add: length_make_synthetic_content)
next
  case (Suc k)
  have sz: "(sz - 16) div 16 = k" using Suc.hyps(2) by simp
  have rep: "make_synthetic_content sz = hexdigits @ make_synthetic_content (sz - 16)"
    using sz by (simp add: make_synthetic_content_def Suc.hyps(2) [symmetric])
  show ?case
  proof (cases "i < 16")
    case True
    then show ?thesis by (simp add: rep nth_append)
  next
    case False
    have "i - 16 < length (make_synthetic_content (sz - 16))"
      using Suc.prems False by (simp add: rep)
    then have "make_synthetic_content (sz - 16) ! (i - 16) = hexdigits ! ((i - 16) mod 16)"
      using Suc.hyps(1) sz by simp
    with False show ?thesis by (simp add: rep nth_append mod_if)
  qed
qed

text \<open>The two synthetic fixtures have the advertised sizes: 1\,KiB and 2250\,KiB.\<close>

lemma fixture_sizes:
  "length (make_synthetic_content 1024) = 1024 \<and> length (make_synthetic_content (2250 * 1024)) = 2304000"
  by (simp add: length_make_synthetic_content)

section \<open>Writing the fixtures\<close>

lemma dirname_child:
  "root \<noteq> [] \<Longrightarrow> CHR ''/'' \<notin> set fname \<Longrightarrow> dirname (root @ CHR ''/'' # fname) = root"
proof -
  assume "root \<noteq> []" "CHR ''/'' \<notin> set fname"
  then have "dropWhile (\<lambda>c. c \<noteq> CHR ''/'') (rev fname) = []"
    by (auto simp: dropWhile_eq_Nil_conv)
  with \<open>root \<noteq> []\<close> show ?thesis by (simp add: dirname_def dropWhile_append)
qed

lemma ensure_root_dir_ok:
  "root_usable s root_dir \<Longrightarrow>
     fst (ensure_root_dir root_dir s) = Inr () \<and> dirs (snd (ensure_root_dir root_dir s)) root_dir = Some True \<and>
     fs (snd (ensure_root_dir root_dir s)) = fs s"
  by (auto simp: ensure_root_dir_def root_usable_def py_simps)

lemma write_file_ok:
  "root_dir \<noteq> [] \<Longrightarrow> CHR ''/'' \<notin> set fname \<Longrightarrow> dirs s root_dir = Some True \<Longrightarrow>
     write_file root_dir fname c s =
       (Inr (), emit (WriteFile (root_dir @ ''/'' @ fname)) (s\<lparr>fs := (fs s)(root_dir @ ''/'' @ fname \<mapsto> c)\<rparr>))"
  by (simp add: write_file_def write_path_def dirname_child)

lemma keeps_ex_prepare [intro]: "py_keeps extends (prepare_fixtures E root_dir)"
  unfolding prepare_fixtures_def ensure_root_dir_def write_file_def Let_def
  by (intro keeps_ex_seq keeps_ex_bind keeps_ex_when keeps_ex_prims keeps_ex_return)

lemma fixture_paths_differ:
  "root @ ''/small'' \<noteq> d @ ''/res/'' @ www_name"
  "root @ ''/large'' \<noteq> d @ ''/res/'' @ www_name"
  "root @ ''/small'' \<noteq> root @ ''/large''"
  by (auto simp: www_name_def dest!: arg_cong [where f = rev])

text \<open>
  C13. Round trip of the fixtures: from a usable root and with the reference page
  present, the preparation returns the three contents, and afterwards each
  fixture file under the root holds exactly that content, which is what the
  health check's exact-byte comparisons expect to be served.
\<close>

theorem prepare_fixtures_roundtrip:
  assumes "root_usable s root_dir"
    and "fs s (env_script_dir E @ ''/res/'' @ www_name) = Some w"
  shows "fst (prepare_fixtures E root_dir s) =
           Inr (make_synthetic_content 1024, make_synthetic_content (2250 * 1024), w) \<and>
         fs (snd (prepare_fixtures E root_dir s)) (root_dir @ ''/small'') = Some (make_synthetic_content 1024) \<and>
         fs (snd (prepare_fixtures E root_dir s)) (root_dir @ ''/large'') = Some (make_synthetic_content (2250 * 1024)) \<and>
         fs (snd (prepare_fixtures E root_dir s)) (root_dir @ ''/'' @ www_name) = Some w"
proof -
  obtain s1 where e: "ensure_root_dir root_dir s = (Inr (), s1)" and d1: "dirs s1 root_dir = Some True"
    and f1: "fs s1 = fs s"
    using ensure_root_dir_ok [OF assms(1)] by (cases "ensure_root_dir root_dir s") auto
  have rne: "root_dir \<noteq> []" using assms(1) by (simp add: root_usable_def)
  have nosl: "CHR ''/'' \<notin> set ''small''" "CHR ''/'' \<notin> set ''large''" "CHR ''/'' \<notin> set www_name"
    by (simp_all add: www_name_def)
  have rd: "((fs s)(root_dir @ ''/small'' \<mapsto> a, root_dir @ ''/large'' \<mapsto> b))
              (env_script_dir E @ ''/res/'' @ www_name) = Some w" for a b
    using assms(2) fixture_paths_differ fixture_paths_differ [THEN not_sym] by simp
  have ne: "''small'' \<noteq> www_name" "''large'' \<noteq> www_name" by (simp_all add: www_name_def)
  show ?thesis
    using e d1 f1 rd ne fixture_paths_differ fixture_paths_differ [THEN not_sym]
    by (simp add: prepare_fixtures_def Let_def py_simps write_file_ok [OF rne nosl(1)]
                  write_file_ok [OF rne nosl(2)] write_file_ok [OF rne nosl(3)] read_path_def)
qed




lemma keeps_ns_prepare: "py_keeps nospawn (prepare_fixtures E root_dir)"
  unfolding prepare_fixtures_def ensure_root_dir_def write_file_def Let_def
  by (intro keeps_ns_seq keeps_ns_bind keeps_ns_when keeps_ns_prims)

lemma write_file_Inr:
  "write_file root_dir fname c s = (Inr (), s') \<Longrightarrow>
     s' = emit (WriteFile (root_dir @ ''/'' @ fname)) (s\<lparr>fs := (fs s)(root_dir @ ''/'' @ fname \<mapsto> c)\<rparr>)"
  by (simp add: write_file_def write_path_def split: if_splits)

lemma keeps_ex_write_file: "py_keeps extends (write_file root_dir fname c)"
  by (simp add: write_file_def keeps_ex_prims)

lemma keeps_ex_ensure: "py_keeps extends (ensure_root_dir root_dir)"
  unfolding ensure_root_dir_def by (intro keeps_ex_seq keeps_ex_bind keeps_ex_when keeps_ex_prims)

lemma keeps_extends_step: "py_keeps extends m \<Longrightarrow> m s = (r, s') \<Longrightarrow> extends s s'"
  by (metis py_keeps_def snd_conv)

text \<open>A successful preparation has written the three fixture files.\<close>

lemma prepare_fixtures_writes:
  assumes ok: "prepare_fixtures E root_dir s = (Inr c, s')"
  shows "WriteFile (root_dir @ ''/small'') \<in> set (added s s') \<and>
         WriteFile (root_dir @ ''/large'') \<in> set (added s s') \<and>
         WriteFile (root_dir @ ''/'' @ www_name) \<in> set (added s s')"
proof -
  obtain s1 where e1: "ensure_root_dir root_dir s = (Inr (), s1)"
    and r1: "py_seq (write_file root_dir ''small'' (make_synthetic_content 1024))
              (py_seq (write_file root_dir ''large'' (make_synthetic_content (2250 * 1024)))
                (py_bind (read_path (env_script_dir E @ ''/res/'' @ www_name)) (\<lambda>w.
                   py_seq (write_file root_dir www_name w) (py_return (make_synthetic_content 1024,
                      make_synthetic_content (2250 * 1024), w))))) s1 = (Inr c, s')"
    using ok unfolding prepare_fixtures_def Let_def by (erule py_seq_InrE)
  obtain s2 where w1: "write_file root_dir ''small'' (make_synthetic_content 1024) s1 = (Inr (), s2)"
    and r2: "py_seq (write_file root_dir ''large'' (make_synthetic_content (2250 * 1024)))
                (py_bind (read_path (env_script_dir E @ ''/res/'' @ www_name)) (\<lambda>w.
                   py_seq (write_file root_dir www_name w) (py_return (make_synthetic_content 1024,
                      make_synthetic_content (2250 * 1024), w)))) s2 = (Inr c, s')"
    using r1 by (erule py_seq_InrE)
  obtain s3 where w2: "write_file root_dir ''large'' (make_synthetic_content (2250 * 1024)) s2 = (Inr (), s3)"
    and r3: "py_bind (read_path (env_script_dir E @ ''/res/'' @ www_name)) (\<lambda>w.
                   py_seq (write_file root_dir www_name w) (py_return (make_synthetic_content 1024,
                      make_synthetic_content (2250 * 1024), w))) s3 = (Inr c, s')"
    using r2 by (erule py_seq_InrE)
  obtain w s4 where rd: "read_path (env_script_dir E @ ''/res/'' @ www_name) s3 = (Inr w, s4)"
    and r4: "py_seq (write_file root_dir www_name w) (py_return (make_synthetic_content 1024,
                      make_synthetic_content (2250 * 1024), w)) s4 = (Inr c, s')"
    using r3 by (erule py_bind_InrE)
  obtain r5 s5 where w3': "write_file root_dir www_name w s4 = (r5, s5)"
    by (cases "write_file root_dir www_name w s4")
  have "r5 = Inr () \<and> s' = s5"
    using r4 w3' by (cases r5) (simp_all add: py_seq_apply py_return_apply)
  with w3' have w3: "write_file root_dir www_name w s4 = (Inr (), s5)" and "s' = s5"
    by simp_all
  have x1: "extends s s1" using keeps_extends_step [OF keeps_ex_ensure e1] .
  have x2: "extends s1 s2" and a2: "added s1 s2 = [WriteFile (root_dir @ ''/small'')]"
    using write_file_Inr [OF w1] by (simp_all add: extends_def added_def emit_def)
  have x3: "extends s2 s3" and a3: "added s2 s3 = [WriteFile (root_dir @ ''/large'')]"
    using write_file_Inr [OF w2] by (simp_all add: extends_def added_def emit_def)
  have s4: "s4 = s3" using rd by (simp add: read_path_def split: option.splits)
  have x5: "extends s4 s5" and a5: "added s4 s5 = [WriteFile (root_dir @ ''/'' @ www_name)]"
    using write_file_Inr [OF w3] by (simp_all add: extends_def added_def emit_def)
  have x35: "extends s3 s5" using x5 s4 by simp
  have x25: "extends s2 s5" using x3 x35 by (rule transpD [OF extends_trans])
  have x15: "extends s1 s5" using x2 x25 by (rule transpD [OF extends_trans])
  have "added s s5 = added s s1 @ added s1 s2 @ added s2 s3 @ added s3 s5"
    using added_trans [OF x1 x15] added_trans [OF x2 x25] added_trans [OF x3 x35] by simp
  with a2 a3 a5 s4 \<open>s' = s5\<close> show ?thesis by simp
qed

lemma keeps_norlimit_prepare: "py_keeps (avoids is_setrlimit) (prepare_fixtures E root_dir)"
  unfolding prepare_fixtures_def ensure_root_dir_def write_file_def Let_def
  by (intro keeps_av_seq keeps_av_bind keeps_av_when keeps_norlimit_prims)

theorem prepare_fixtures_roundtrip_witness:
  "root_usable world0 ''_serverroot_'' \<and>
   fs (world0\<lparr>fs := [''/bench/res/'' @ www_name \<mapsto> ''<html/>'']\<rparr>) (env_script_dir env0 @ ''/res/'' @ www_name) = Some ''<html/>'' \<and>
   fs (snd (prepare_fixtures env0 ''_serverroot_'' (world0\<lparr>fs := [''/bench/res/'' @ www_name \<mapsto> ''<html/>'']\<rparr>)))
      (''_serverroot_'' @ ''/small'') = Some (make_synthetic_content 1024)"
proof -
  let ?s = "world0\<lparr>fs := [''/bench/res/'' @ www_name \<mapsto> ''<html/>'']\<rparr>"
  have h1: "root_usable ?s ''_serverroot_''"
    by (simp add: root_usable_def world0_def www_name_def dirname_def)
  have h2: "fs ?s (env_script_dir env0 @ ''/res/'' @ www_name) = Some ''<html/>''"
    by (simp add: env0_def)
  have "root_usable world0 ''_serverroot_''" by (simp add: root_usable_def world0_def dirname_def)
  with h2 prepare_fixtures_roundtrip [OF h1 h2] show ?thesis by blast
qed


end
