(* ===== verification/Health_Check.thy ===== *)
theory Health_Check
  imports Harness_State
begin

text \<open>
  The health-check protocol of the server role, \<^verbatim>\<open>src/bin/server_bench.py\<close>
  lines 177--209 (inside \<^verbatim>\<open>start_server\<close>): the closure \<^verbatim>\<open>test_server()\<close>,
  which fetches five fixed paths over one connection and checks each body
  against its expected value, and the retry loop
  \<^verbatim>\<open>for tries in range(10): try: sleep(1); test_server(); break
  except Exception: pass\<close> followed by the test \<^verbatim>\<open>if tries == 9\<close>.

  Model: attempt \<open>t\<close> of the loop sees the server as \<open>env_connect E t\<close> and
  \<open>env_reply E t\<close> describe it. \<open>attempt_result\<close> is a pure reference for the
  outcome of one attempt and \<open>retry_spec\<close> a pure reference for the loop;
  \<open>test_server_result\<close> and \<open>health_loop_refines\<close> show the stateful
  definitions compute them. The theorems then characterise the loop's outcome
  exactly, including two behaviours the specification does not describe:
  a success at the tenth attempt is reported as a failure to start, and a
  wrong status or body ends the driver at once (\<^verbatim>\<open>sys.exit(-1)\<close> raises
  \<^verbatim>\<open>SystemExit\<close>, which \<^verbatim>\<open>except Exception\<close> does not catch) instead of
  being retried.
\<close>

section \<open>Expected contents\<close>

text \<open>The expected values of the source are Python strings or ints; the check
  branches on \<^verbatim>\<open>isinstance\<close>.\<close>

datatype pyval = PyInt int | PyStr string

definition hc_urls :: "string list" where
  "hc_urls = [''/files/small'', ''/files/large'', ''/files/www.cs.vt.edu-20160222.html'',
              ''/loadavg'', ''/meminfo'']"

definition hc_expected :: "string \<Rightarrow> string \<Rightarrow> string \<Rightarrow> pyval list" where
  "hc_expected sfilecontent lfilecontent wwwcscont =
     [PyStr sfilecontent, PyStr lfilecontent, PyStr wwwcscont, PyInt 10, PyInt 100]"

text \<open>\<^verbatim>\<open>isinstance(expected, int) and len(sfile) >= expected or
  isinstance(expected, basestring) and sfile == expected\<close>\<close>

fun content_ok :: "pyval \<Rightarrow> string \<Rightarrow> bool" where
  "content_ok (PyInt n) sfile \<longleftrightarrow> n \<le> int (length sfile)"
| "content_ok (PyStr x) sfile \<longleftrightarrow> sfile = x"

section \<open>One attempt: test_server()\<close>

fun check_urls :: "'j env \<Rightarrow> nat \<Rightarrow> (string \<times> pyval) list \<Rightarrow> unit act" where
  "check_urls E t [] = py_return ()"
| "check_urls E t ((url, expected) # rest) =
     py_bind (http_get E t url) (\<lambda>(status, sfile).
       if status \<noteq> 200 then
         py_seq (py_print (''Server returned '' @ str_nat status @ '' for '' @ url @ '', expected 200.''))
           (sys_exit (-1))
       else if content_ok expected sfile then
         py_seq (py_print (''Retrieved '' @ url @ '' ok.'')) (check_urls E t rest)
       else
         py_seq (py_print (''Did not find expected content at '' @ url @ ''.'')) (sys_exit (-1)))"

definition test_server :: "'j env \<Rightarrow> nat \<Rightarrow> pyval list \<Rightarrow> nat \<Rightarrow> unit act" where
  "test_server E port exps t =
     py_seq (http_connect E t (env_hostname E) port) (check_urls E t (zip hc_urls exps))"

section \<open>The retry loop\<close>

text \<open>
  \<open>health_loop E port exps ts tries\<close> runs the remaining iterations \<open>ts\<close> of
  \<^verbatim>\<open>for tries in range(10)\<close>; \<open>tries\<close> is the loop variable's current binding
  (\<open>None\<close> before the first iteration). It returns the binding left when the
  loop ends, by \<^verbatim>\<open>break\<close> or by exhaustion.
\<close>

fun health_loop :: "'j env \<Rightarrow> nat \<Rightarrow> pyval list \<Rightarrow> nat list \<Rightarrow> nat option \<Rightarrow> nat option act" where
  "health_loop E port exps [] tries = py_return tries"
| "health_loop E port exps (t # ts) tries = (\<lambda>s.
     case py_seq (time_sleep 1) (test_server E port exps t) s of
       (Inr _, s') \<Rightarrow> (Inr (Some t), s')
     | (Inl e, s') \<Rightarrow> (if is_Exception e then health_loop E port exps ts (Some t) s' else (Inl e, s')))"

definition verify_server :: "'j env \<Rightarrow> nat \<Rightarrow> pyval list \<Rightarrow> unit act" where
  "verify_server E port exps =
     py_seq (py_print ''I will now test that your server works.'')
       (py_bind (health_loop E port exps [0..<10] None) (\<lambda>tries.
          case tries of
            None \<Rightarrow> py_raise (NameError ''tries'')
          | Some t \<Rightarrow> py_when (t = 9)
              (py_seq (py_print ''Your server did not start, giving up after 10 tries'') (sys_exit 0))))"

section \<open>Reference definitions\<close>

fun urls_result :: "'j env \<Rightarrow> nat \<Rightarrow> (string \<times> pyval) list \<Rightarrow> exn option" where
  "urls_result E t [] = None"
| "urls_result E t ((url, x) # rest) =
     (case env_reply E t url of
        Inl e \<Rightarrow> Some e
      | Inr (status, sfile) \<Rightarrow>
          (if status \<noteq> 200 \<or> \<not> content_ok x sfile then Some (SystemExit (-1))
           else urls_result E t rest))"

text \<open>The outcome of attempt \<open>t\<close>: \<open>None\<close> when all five checks pass.\<close>

definition attempt_result :: "'j env \<Rightarrow> pyval list \<Rightarrow> nat \<Rightarrow> exn option" where
  "attempt_result E exps t =
     (case env_connect E t of
        Some e \<Rightarrow> Some e
      | None \<Rightarrow> urls_result E t (zip hc_urls exps))"

text \<open>The loop as a pure function of the attempts' outcomes.\<close>

fun retry_spec :: "(nat \<Rightarrow> exn option) \<Rightarrow> nat list \<Rightarrow> nat option \<Rightarrow> exn + nat option" where
  "retry_spec r [] tries = Inr tries"
| "retry_spec r (t # ts) tries =
     (case r t of
        None \<Rightarrow> Inr (Some t)
      | Some e \<Rightarrow> (if is_Exception e then retry_spec r ts (Some t) else Inl e))"

text \<open>An attempt that the loop swallows and retries: it raised a subclass of \<^verbatim>\<open>Exception\<close>.\<close>

fun retryable :: "exn option \<Rightarrow> bool" where
  "retryable None = False"
| "retryable (Some e) = is_Exception e"

text \<open>How many attempts the loop makes before it stops.\<close>

fun n_attempts :: "(nat \<Rightarrow> exn option) \<Rightarrow> nat list \<Rightarrow> nat" where
  "n_attempts r [] = 0"
| "n_attempts r (t # ts) = Suc (if retryable (r t) then n_attempts r ts else 0)"

definition outcome :: "exn option \<Rightarrow> exn + unit" where
  "outcome r = (case r of None \<Rightarrow> Inr () | Some e \<Rightarrow> Inl e)"

section \<open>A concrete server for the witnesses\<close>

text \<open>
  \<open>demo_env c\<close>: a server whose connection at attempt \<open>t\<close> fails as \<open>c t\<close> says
  and which otherwise serves the five health-check paths with the fixture contents
  \<^verbatim>\<open>small\<close>, \<^verbatim>\<open>large\<close>, \<^verbatim>\<open>www\<close> and long enough probe bodies.
\<close>

definition demo_reply :: "string \<Rightarrow> exn + nat \<times> string" where
  "demo_reply url =
     (if url = ''/files/small'' then Inr (200, ''small'')
      else if url = ''/files/large'' then Inr (200, ''large'')
      else if url = ''/files/www.cs.vt.edu-20160222.html'' then Inr (200, ''www'')
      else Inr (200, replicate 120 (CHR ''7'')))"

definition demo_env :: "(nat \<Rightarrow> exn option) \<Rightarrow> unit env" where
  "demo_env c = \<lparr>env_pid = 4242, env_hostname = ''hickory.rlogin'', env_script_dir = ''/bench'', env_script_path = ''/bench/server_bench.py'',
     env_executable = (\<lambda>p. p = ''./sysstatd''), env_rlimit_ok = True,
     env_connect = c, env_reply = (\<lambda>t. demo_reply),
     env_tool_output = (\<lambda>_ _. None), env_json_load = (\<lambda>_. None),
     env_json_dump = (\<lambda>_. []), env_wait = ChildExits\<rparr>"

definition demo_exps :: "pyval list" where
  "demo_exps = hc_expected ''small'' ''large'' ''www''"

definition refused :: exn where
  "refused = SocketError ''[Errno 111] Connection refused''"

section \<open>The stateful definitions compute the references\<close>

lemma check_urls_result: "fst (check_urls E t xs s) = outcome (urls_result E t xs)"
proof (induction xs arbitrary: s)
  case Nil
  then show ?case by (simp add: py_simps outcome_def)
next
  case (Cons x xs)
  obtain url v where x: "x = (url, v)" by (cases x)
  show ?case
    using Cons.IH
    by (auto simp: x py_simps outcome_def split: sum.splits prod.splits)
qed

lemma test_server_result: "fst (test_server E port exps t s) = outcome (attempt_result E exps t)"
proof (cases "env_connect E t")
  case None
  then show ?thesis
    by (simp add: test_server_def attempt_result_def py_simps check_urls_result)
next
  case (Some e)
  then show ?thesis
    by (simp add: test_server_def attempt_result_def py_simps outcome_def)
qed

lemma attempt_step_result:
  "fst (py_seq (time_sleep 1) (test_server E port exps t) s) = outcome (attempt_result E exps t)"
  by (simp add: py_simps test_server_result)

lemma keeps_check_urls:
  assumes R: "frame_ok R E"
  shows "py_keeps R (check_urls E t xs)"
proof (induction xs)
  case Nil
  show ?case by (simp add: frame_okD(9) [OF R])
next
  case (Cons x xs)
  obtain url v where x: "x = (url, v)" by (cases x)
  note seq = py_keeps_seq [OF frame_okD(2) [OF R] frame_okD(1) [OF R]]
  have "py_keeps R (case p of (status, sfile) \<Rightarrow>
          if status \<noteq> 200 then py_seq (py_print (''Server returned '' @ str_nat status @ '' for '' @ url @ '', expected 200.'')) (sys_exit (-1))
          else if content_ok v sfile then py_seq (py_print (''Retrieved '' @ url @ '' ok.'')) (check_urls E t xs)
          else py_seq (py_print (''Did not find expected content at '' @ url @ ''.'')) (sys_exit (-1)))" for p
    using Cons.IH by (cases p) (auto intro!: seq frame_okD(3,7) [OF R])
  then show ?case
    unfolding x check_urls.simps
    by (rule py_keeps_bind [OF frame_okD(2) [OF R] frame_okD(1) [OF R] frame_okD(6) [OF R]])
qed

lemma keeps_test_server: "frame_ok R E \<Longrightarrow> py_keeps R (test_server E port exps t)"
  unfolding test_server_def
  by (rule py_keeps_seq [OF frame_okD(2,1,5) keeps_check_urls])

lemma keeps_attempt: "frame_ok R E \<Longrightarrow> py_keeps R (py_seq (time_sleep 1) (test_server E port exps t))"
  by (rule py_keeps_seq [OF frame_okD(2,1,4) keeps_test_server])

theorem health_loop_refines:
  "fst (health_loop E port exps ts tries s) = retry_spec (attempt_result E exps) ts tries"
proof (induction ts arbitrary: tries s)
  case Nil
  then show ?case by (simp add: py_simps)
next
  case (Cons t ts)
  obtain r s' where step: "py_seq (time_sleep 1) (test_server E port exps t) s = (r, s')"
    by (cases "py_seq (time_sleep 1) (test_server E port exps t) s")
  have r: "r = outcome (attempt_result E exps t)"
    using attempt_step_result [of E port exps t s] step by simp
  show ?case
  proof (cases "attempt_result E exps t")
    case None
    with r step show ?thesis by (simp add: outcome_def)
  next
    case (Some e)
    with r step Cons.IH show ?thesis by (simp add: outcome_def)
  qed
qed

section \<open>The pure loop over a range of attempts\<close>

lemma retry_spec_Some_upt:
  "i < j \<Longrightarrow> retry_spec r [i..<j] tries = Inr (Some k) \<Longrightarrow>
     i \<le> k \<and> k < j \<and> (\<forall>t. i \<le> t \<and> t < k \<longrightarrow> retryable (r t)) \<and>
     (r k = None \<or> (k = j - 1 \<and> retryable (r k)))"
proof (induction "j - i" arbitrary: i tries)
  case 0
  then show ?case by simp
next
  case (Suc d)
  then have ij: "i < j" and ups: "[i..<j] = i # [Suc i..<j]" by (simp_all add: upt_conv_Cons)
  show ?case
  proof (cases "r i")
    case None
    with Suc.prems ups ij show ?thesis by auto
  next
    case (Some e)
    show ?thesis
    proof (cases "is_Exception e")
      case False
      with Suc.prems ups Some show ?thesis by simp
    next
      case True
      show ?thesis
      proof (cases "Suc i < j")
        case True
        from Suc.prems ups Some \<open>is_Exception e\<close>
        have "retry_spec r [Suc i..<j] (Some i) = Inr (Some k)" by simp
        with Suc.hyps(1) [of "Suc i"] Suc.hyps(2) True
        have IH: "Suc i \<le> k \<and> k < j \<and> (\<forall>t. Suc i \<le> t \<and> t < k \<longrightarrow> retryable (r t)) \<and>
                 (r k = None \<or> (k = j - 1 \<and> retryable (r k)))" by simp
        have "\<forall>t. i \<le> t \<and> t < k \<longrightarrow> retryable (r t)"
        proof (intro allI impI)
          fix t assume "i \<le> t \<and> t < k"
          with IH Some \<open>is_Exception e\<close> show "retryable (r t)" by (cases "t = i") auto
        qed
        with IH show ?thesis by simp
      next
        case False
        with ij have "[Suc i..<j] = []" by simp
        with Suc.prems ups Some \<open>is_Exception e\<close> False ij show ?thesis by auto
      qed
    qed
  qed
qed

lemma retry_spec_success_upt:
  "i \<le> k \<Longrightarrow> k < j \<Longrightarrow> \<forall>t. i \<le> t \<and> t < k \<longrightarrow> retryable (r t) \<Longrightarrow> r k = None \<Longrightarrow>
     retry_spec r [i..<j] tries = Inr (Some k)"
proof (induction "k - i" arbitrary: i tries)
  case 0
  then have "k = i" by simp
  with 0 show ?case by (simp add: upt_conv_Cons)
next
  case (Suc d)
  then have "i < k" "retryable (r i)" by auto
  then obtain e where "r i = Some e" "is_Exception e" by (cases "r i") auto
  moreover have "retry_spec r [Suc i..<j] (Some i) = Inr (Some k)"
    using Suc by simp
  ultimately show ?case using \<open>i < k\<close> Suc.prems by (simp add: upt_conv_Cons)
qed

lemma retry_spec_fatal_upt:
  "i \<le> k \<Longrightarrow> k < j \<Longrightarrow> \<forall>t. i \<le> t \<and> t < k \<longrightarrow> retryable (r t) \<Longrightarrow>
     r k = Some e \<Longrightarrow> \<not> is_Exception e \<Longrightarrow> retry_spec r [i..<j] tries = Inl e"
proof (induction "k - i" arbitrary: i tries)
  case 0
  then have "k = i" by simp
  with 0 show ?case by (simp add: upt_conv_Cons)
next
  case (Suc d)
  then have "i < k" "retryable (r i)" by auto
  then obtain e' where "r i = Some e'" "is_Exception e'" by (cases "r i") auto
  moreover have "retry_spec r [Suc i..<j] (Some i) = Inl e"
    using Suc by simp
  ultimately show ?case using \<open>i < k\<close> Suc.prems by (simp add: upt_conv_Cons)
qed

lemma retry_spec_exhaust_upt:
  "i < j \<Longrightarrow> \<forall>t. i \<le> t \<and> t < j \<longrightarrow> retryable (r t) \<Longrightarrow>
     retry_spec r [i..<j] tries = Inr (Some (j - 1))"
proof (induction "j - i" arbitrary: i tries)
  case 0
  then show ?case by simp
next
  case (Suc d)
  then obtain e where e: "r i = Some e" "is_Exception e"
    by (cases "r i") auto
  show ?case
  proof (cases "Suc i < j")
    case True
    then have "retry_spec r [Suc i..<j] (Some i) = Inr (Some (j - 1))" using Suc by simp
    with e Suc.prems show ?thesis by (simp add: upt_conv_Cons)
  next
    case False
    with e Suc.prems show ?thesis by (simp add: upt_conv_Cons)
  qed
qed

lemma retry_spec_not_None: "ts \<noteq> [] \<Longrightarrow> retry_spec r ts tries \<noteq> Inr None"
proof (induction ts arbitrary: tries)
  case (Cons t ts)
  then show ?case by (cases ts) (auto split: option.splits)
qed simp

lemma n_attempts_le: "n_attempts r ts \<le> length ts"
  by (induction ts) auto

section \<open>Sleeps and side effects of the health check\<close>

lemma check_urls_sleeps: "n_sleeps (snd (check_urls E t xs s)) = n_sleeps s"
proof (induction xs arbitrary: s)
  case Nil
  then show ?case by (simp add: py_simps)
next
  case (Cons x xs)
  obtain url v where x: "x = (url, v)" by (cases x)
  show ?case
    using Cons.IH
    by (auto simp: x py_simps split: sum.splits prod.splits)
qed

lemma attempt_sleeps:
  "n_sleeps (snd (py_seq (time_sleep 1) (test_server E port exps t) s)) = Suc (n_sleeps s)"
  by (auto simp: py_simps test_server_def check_urls_sleeps split: option.splits)

lemma health_loop_sleeps:
  "n_sleeps (snd (health_loop E port exps ts tries s)) = n_sleeps s + n_attempts (attempt_result E exps) ts"
proof (induction ts arbitrary: tries s)
  case Nil
  then show ?case by (simp add: py_simps)
next
  case (Cons t ts)
  obtain r s' where step: "py_seq (time_sleep 1) (test_server E port exps t) s = (r, s')"
    by (cases "py_seq (time_sleep 1) (test_server E port exps t) s")
  have r: "r = outcome (attempt_result E exps t)"
    using attempt_step_result [of E port exps t s] step by simp
  have sl: "n_sleeps s' = Suc (n_sleeps s)"
    using attempt_sleeps [of E port exps t s] step by simp
  show ?case
  proof (cases "attempt_result E exps t")
    case None
    with r step sl show ?thesis by (simp add: outcome_def)
  next
    case (Some e)
    with r step sl Cons.IH show ?thesis by (simp add: outcome_def)
  qed
qed

lemma keeps_health_loop:
  assumes R: "frame_ok R E"
  shows "py_keeps R (health_loop E port exps ts tries)"
proof (induction ts arbitrary: tries)
  case Nil
  show ?case by (simp add: frame_okD(9) [OF R])
next
  case (Cons t ts)
  show ?case
    unfolding py_keeps_def
  proof
    fix s
    obtain r s' where step: "py_seq (time_sleep 1) (test_server E port exps t) s = (r, s')"
      by (cases "py_seq (time_sleep 1) (test_server E port exps t) s")
    have "R s s'" using keeps_attempt [OF R] step by (metis py_keeps_def snd_conv)
    moreover have "R s' (snd (health_loop E port exps ts (Some t) s'))"
      using Cons.IH by (simp add: py_keeps_def)
    ultimately show "R s (snd (health_loop E port exps (t # ts) tries s))"
      using step frame_okD(1,2) [OF R]
      by (cases r) (auto dest: transpD)
  qed
qed

lemma keeps_verify_server:
  assumes R: "frame_ok R E"
  shows "py_keeps R (verify_server E port exps)"
proof -
  note seq = py_keeps_seq [OF frame_okD(2) [OF R] frame_okD(1) [OF R]]
  have "py_keeps R (case tries of None \<Rightarrow> py_raise (NameError ''tries'')
          | Some t \<Rightarrow> py_when (t = 9)
              (py_seq (py_print ''Your server did not start, giving up after 10 tries'') (sys_exit 0)))"
    for tries :: "nat option"
    by (cases tries) (auto intro!: seq frame_okD(3,7,8) [OF R] py_keeps_when [OF frame_okD(1) [OF R]])
  then show ?thesis
    unfolding verify_server_def
    by (intro seq frame_okD(3) [OF R] py_keeps_bind [OF frame_okD(2) [OF R] frame_okD(1) [OF R]]
        keeps_health_loop [OF R])
qed

lemma verify_server_result:
  "fst (verify_server E port exps s) =
     (case retry_spec (attempt_result E exps) [0..<10] None of
        Inl e \<Rightarrow> Inl e
      | Inr None \<Rightarrow> Inl (NameError ''tries'')
      | Inr (Some t) \<Rightarrow> (if t = 9 then Inl (SystemExit 0) else Inr ()))"
proof -
  obtain r s' where hl: "health_loop E port exps [0..<10] None (emit (Print ''I will now test that your server works.'') s) = (r, s')"
    by (cases "health_loop E port exps [0..<10] None (emit (Print ''I will now test that your server works.'') s)")
  have "r = retry_spec (attempt_result E exps) [0..<10] None"
    using health_loop_refines [of E port exps "[0..<10]" None] hl by (metis fst_conv)
  with hl show ?thesis
    by (auto simp: verify_server_def py_simps split: sum.splits option.splits)
qed

lemma verify_server_sleeps:
  "n_sleeps (snd (verify_server E port exps s)) = n_sleeps s + n_attempts (attempt_result E exps) [0..<10]"
proof -
  let ?s1 = "emit (Print ''I will now test that your server works.'') s"
  obtain r s' where hl: "health_loop E port exps [0..<10] None ?s1 = (r, s')"
    by (cases "health_loop E port exps [0..<10] None ?s1")
  have "n_sleeps s' = n_sleeps s + n_attempts (attempt_result E exps) [0..<10]"
    using health_loop_sleeps [of E port exps "[0..<10]" None ?s1] hl by simp
  with hl show ?thesis
    by (auto simp: verify_server_def py_simps split: sum.splits option.splits)
qed

lemma n_attempts_upt_stop:
  "i \<le> k \<Longrightarrow> k < j \<Longrightarrow> \<forall>t. i \<le> t \<and> t < k \<longrightarrow> retryable (r t) \<Longrightarrow> \<not> retryable (r k) \<Longrightarrow>
     n_attempts r [i..<j] = Suc (k - i)"
proof (induction "k - i" arbitrary: i)
  case 0
  then have "k = i" by simp
  with 0 show ?case by (simp add: upt_conv_Cons)
next
  case (Suc d)
  then have "i < k" "retryable (r i)" by auto
  moreover have "n_attempts r [Suc i..<j] = Suc (k - Suc i)" using Suc by simp
  ultimately show ?case using Suc.prems by (simp add: upt_conv_Cons Suc_diff_Suc)
qed

lemma demo_attempt_ok: "attempt_result (demo_env c) demo_exps t = (case c t of None \<Rightarrow> None | Some e \<Rightarrow> Some e)"
  by (simp add: attempt_result_def demo_env_def demo_exps_def hc_expected_def hc_urls_def demo_reply_def
           split: option.splits)

section \<open>What the health check does\<close>

text \<open>
  C3. The server role declares the server ready exactly when one of the first
  nine attempts passes all five checks and every attempt before it failed with a
  retried \<^verbatim>\<open>Exception\<close> (a refused connection, a broken response).
\<close>

theorem verify_server_ready_iff:
  "fst (verify_server E port exps s) = Inr () \<longleftrightarrow>
     (\<exists>k<9. attempt_result E exps k = None \<and> (\<forall>t<k. retryable (attempt_result E exps t)))"
proof
  assume ok: "fst (verify_server E port exps s) = Inr ()"
  obtain k where k: "retry_spec (attempt_result E exps) [0..<10] None = Inr (Some k)" and "k \<noteq> 9"
    using ok by (auto simp: verify_server_result split: sum.splits option.splits if_splits)
  from retry_spec_Some_upt [OF _ k] \<open>k \<noteq> 9\<close>
  show "\<exists>k<9. attempt_result E exps k = None \<and> (\<forall>t<k. retryable (attempt_result E exps t))"
    by (intro exI [of _ k]) auto
next
  assume "\<exists>k<9. attempt_result E exps k = None \<and> (\<forall>t<k. retryable (attempt_result E exps t))"
  then obtain k where "k < 9" "attempt_result E exps k = None" "\<forall>t<k. retryable (attempt_result E exps t)"
    by blast
  then have "retry_spec (attempt_result E exps) [0..<10] None = Inr (Some k)"
    by (intro retry_spec_success_upt) auto
  with \<open>k < 9\<close> show "fst (verify_server E port exps s) = Inr ()"
    by (simp add: verify_server_result)
qed

theorem verify_server_ready_iff_witness:
  "fst (verify_server (demo_env (\<lambda>t. if t < 3 then Some refused else None)) 24242 demo_exps world0) = Inr () \<and>
   attempt_result (demo_env (\<lambda>t. if t < 3 then Some refused else None)) demo_exps 3 = None \<and>
   list_all (\<lambda>t. retryable (attempt_result (demo_env (\<lambda>t. if t < 3 then Some refused else None)) demo_exps t)) [0..<3]"
proof -
  have "\<exists>k<9. attempt_result (demo_env (\<lambda>t. if t < 3 then Some refused else None)) demo_exps k = None \<and>
      (\<forall>t<k. retryable (attempt_result (demo_env (\<lambda>t. if t < 3 then Some refused else None)) demo_exps t))"
    by (rule exI [of _ 3]) (simp add: demo_attempt_ok refused_def)
  then have "fst (verify_server (demo_env (\<lambda>t. if t < 3 then Some refused else None)) 24242 demo_exps world0) = Inr ()"
    using verify_server_ready_iff by blast
  then show ?thesis by (simp add: demo_attempt_ok refused_def upt_rec)
qed

text \<open>
  C1. Off by one in the retry loop: when the first nine attempts fail and the
  tenth passes, the loop leaves by \<^verbatim>\<open>break\<close> with \<^verbatim>\<open>tries == 9\<close>, the same value
  exhaustion leaves, so the driver reports that the server did not start and exits
  with status 0 although the server is serving correctly.
\<close>

theorem verify_server_tenth_attempt_rejected:
  assumes "\<forall>t<9. retryable (attempt_result E exps t)"
    and "attempt_result E exps 9 = None"
  shows "fst (verify_server E port exps s) = Inl (SystemExit 0)"
proof -
  have "retry_spec (attempt_result E exps) [0..<10] None = Inr (Some 9)"
    using assms by (intro retry_spec_success_upt) auto
  then show ?thesis by (simp add: verify_server_result)
qed

theorem verify_server_tenth_attempt_rejected_witness:
  "list_all (\<lambda>t. retryable (attempt_result (demo_env (\<lambda>t. if t < 9 then Some refused else None)) demo_exps t)) [0..<9] \<and>
   attempt_result (demo_env (\<lambda>t. if t < 9 then Some refused else None)) demo_exps 9 = None \<and>
   fst (verify_server (demo_env (\<lambda>t. if t < 9 then Some refused else None)) 24242 demo_exps world0) = Inl (SystemExit 0)"
proof -
  have h1: "\<forall>t<9. retryable (attempt_result (demo_env (\<lambda>t. if t < 9 then Some refused else None)) demo_exps t)"
    by (simp add: demo_attempt_ok refused_def)
  have h2: "attempt_result (demo_env (\<lambda>t. if t < 9 then Some refused else None)) demo_exps 9 = None"
    by (simp add: demo_attempt_ok)
  have "list_all (\<lambda>t. retryable (attempt_result (demo_env (\<lambda>t. if t < 9 then Some refused else None)) demo_exps t)) [0..<9]"
    using h1 by (simp add: list_all_iff)
  with h2 verify_server_tenth_attempt_rejected [OF h1 h2] show ?thesis by blast
qed

text \<open>
  C4. A wrong status or body is not retried: \<^verbatim>\<open>sys.exit(-1)\<close> inside
  \<^verbatim>\<open>test_server\<close> raises \<^verbatim>\<open>SystemExit\<close>, which \<^verbatim>\<open>except Exception\<close> does not
  catch. If attempt \<open>k\<close> is the first that does not fail with an \<^verbatim>\<open>Exception\<close>
  and it fails otherwise, the driver ends with that exception after exactly
  \<open>k + 1\<close> attempts (one one-second sleep each).
\<close>

theorem verify_server_fatal_not_retried:
  assumes "k < 10" and "\<forall>t<k. retryable (attempt_result E exps t)"
    and "attempt_result E exps k = Some e" and "\<not> is_Exception e"
  shows "fst (verify_server E port exps s) = Inl e \<and>
         n_sleeps (snd (verify_server E port exps s)) = n_sleeps s + Suc k"
proof
  have "retry_spec (attempt_result E exps) [0..<10] None = Inl e"
    using assms by (intro retry_spec_fatal_upt) auto
  then show "fst (verify_server E port exps s) = Inl e" by (simp add: verify_server_result)
  have "n_attempts (attempt_result E exps) [0..<10] = Suc k"
    using assms n_attempts_upt_stop [of 0 k 10 "attempt_result E exps"] by simp
  then show "n_sleeps (snd (verify_server E port exps s)) = n_sleeps s + Suc k"
    by (simp add: verify_server_sleeps)
qed

theorem verify_server_fatal_not_retried_witness:
  "fst (verify_server (demo_env (\<lambda>t. if t < 2 then Some refused else None))
          24242 (hc_expected ''other'' ''large'' ''www'') world0) = Inl (SystemExit (-1)) \<and>
   n_sleeps (snd (verify_server (demo_env (\<lambda>t. if t < 2 then Some refused else None))
          24242 (hc_expected ''other'' ''large'' ''www'') world0)) = n_sleeps world0 + Suc 2"
proof -
  let ?E = "demo_env (\<lambda>t. if t < 2 then Some refused else None)"
  let ?x = "hc_expected ''other'' ''large'' ''www''"
  have a: "attempt_result ?E ?x t = (if t < 2 then Some refused else Some (SystemExit (-1)))" for t
    by (simp add: attempt_result_def demo_env_def hc_expected_def hc_urls_def demo_reply_def)
  have "(2::nat) < 10" "\<forall>t<2. retryable (attempt_result ?E ?x t)"
    "attempt_result ?E ?x 2 = Some (SystemExit (-1))" "\<not> is_Exception (SystemExit (-1))"
    by (simp_all add: a refused_def)
  from verify_server_fatal_not_retried [OF this] show ?thesis .
qed

text \<open>
  C30. Whatever the server does, the health check makes at most ten attempts,
  sleeping one second before each, and changes nothing but the trace of
  actions: no file, directory, process, callback or limit.
\<close>

theorem verify_server_bounded:
  "n_sleeps (snd (verify_server E port exps s)) \<le> n_sleeps s + 10 \<and>
   only_traced s (snd (verify_server E port exps s))"
proof
  show "n_sleeps (snd (verify_server E port exps s)) \<le> n_sleeps s + 10"
    using n_attempts_le [of "attempt_result E exps" "[0..<10]"] by (simp add: verify_server_sleeps)
  show "only_traced s (snd (verify_server E port exps s))"
    using keeps_verify_server [OF frame_ok_only_traced, of E port exps] unfolding py_keeps_def by blast
qed

text \<open>
  C31. Against a healthy server the check is idempotent: it succeeds at the first
  attempt from every state, after one sleep, with no effect but its trace; so
  running it again succeeds again.
\<close>

theorem verify_server_healthy:
  assumes "\<forall>t. attempt_result E exps t = None"
  shows "fst (verify_server E port exps s) = Inr () \<and>
         n_sleeps (snd (verify_server E port exps s)) = Suc (n_sleeps s) \<and>
         only_traced s (snd (verify_server E port exps s))"
proof (intro conjI)
  have "retry_spec (attempt_result E exps) [0..<10] None = Inr (Some 0)"
    using assms by (intro retry_spec_success_upt) auto
  then show "fst (verify_server E port exps s) = Inr ()" by (simp add: verify_server_result)
  have "n_attempts (attempt_result E exps) [0..<10] = 1"
    using assms by (simp add: upt_conv_Cons)
  then show "n_sleeps (snd (verify_server E port exps s)) = Suc (n_sleeps s)"
    by (simp add: verify_server_sleeps)
  show "only_traced s (snd (verify_server E port exps s))"
    using keeps_verify_server [OF frame_ok_only_traced, of E port exps] unfolding py_keeps_def by blast
qed

theorem verify_server_healthy_witness:
  "attempt_result (demo_env (\<lambda>_. None)) demo_exps 0 = None \<and>
   fst (verify_server (demo_env (\<lambda>_. None)) 24242 demo_exps world0) = Inr ()"
proof -
  have h: "\<forall>t. attempt_result (demo_env (\<lambda>_. None)) demo_exps t = None"
    by (simp add: demo_attempt_ok)
  show ?thesis using h verify_server_healthy [OF h] by blast
qed

end
