(* ===== verification/Resources.thy ===== *)
theory Resources
  imports Harness_State
begin

text \<open>
  Process resources, \<^verbatim>\<open>src/bin/server_bench.py\<close>: \<^verbatim>\<open>raise_fd_limit()\<close>
  (lines 124--129), used by both roles, and the cleanup callback
  \<^verbatim>\<open>clean_up_testing\<close> that \<^verbatim>\<open>start_server\<close> registers with \<^verbatim>\<open>atexit\<close>
  (lines 169--175). \<open>process_exit\<close> models what the interpreter does when the
  script ends: on a normal return and on any uncaught Python exception
  (including \<^verbatim>\<open>SystemExit\<close> and \<^verbatim>\<open>KeyboardInterrupt\<close>) it runs the registered
  callbacks, last registered first; when the process dies by a signal with its
  default action (SIGTERM) it runs none. \<open>exit_status\<close> is the status the
  script asks for (\<^verbatim>\<open>sys.exit(n)\<close> gives \<open>n\<close>, an uncaught exception 1, a
  signal minus its number, as \<^verbatim>\<open>subprocess\<close> reports it).
\<close>

section \<open>Definitions\<close>

definition raise_fd_limit :: "'j env \<Rightarrow> unit act" where
  "raise_fd_limit E =
     py_seq (py_print ''I will now try to raise the file descriptor limit'')
       (py_bind getrlimit (\<lambda>(soft, hard).
          py_seq (setrlimit E hard hard)
            (py_bind getrlimit (\<lambda>(soft, hard).
               py_print (''Your server process can open '' @ str_nat soft @
                         '' file descriptors simultaneously.'')))))"

text \<open>\<^verbatim>\<open>try: os.kill(server.pid, signal.SIGKILL) except: pass\<close>\<close>

definition clean_up_testing :: "nat \<Rightarrow> unit act" where
  "clean_up_testing p = py_catch (os_kill p) is_BaseException (\<lambda>_. py_return ())"

fun run_exitfuncs :: "nat list \<Rightarrow> world \<Rightarrow> world" where
  "run_exitfuncs [] s = s"
| "run_exitfuncs (p # ps) s = run_exitfuncs ps (snd (clean_up_testing p s))"

definition process_exit :: "exn + 'a \<Rightarrow> world \<Rightarrow> world" where
  "process_exit r s =
     (case r of
        Inl (ProcessKilled _) \<Rightarrow> s
      | _ \<Rightarrow> run_exitfuncs (rev (atexit_pids s)) (s\<lparr>atexit_pids := []\<rparr>))"

definition exit_status :: "exn + 'a \<Rightarrow> int" where
  "exit_status r =
     (case r of
        Inr _ \<Rightarrow> 0
      | Inl (SystemExit n) \<Rightarrow> n
      | Inl (ProcessKilled sg) \<Rightarrow> - int sg
      | Inl _ \<Rightarrow> 1)"

section \<open>The descriptor limit\<close>

lemma raise_fd_limit_ok:
  assumes "env_rlimit_ok E"
  shows "raise_fd_limit E s =
           (Inr (), emit (Print (''Your server process can open '' @ str_nat (rlim_hard s) @
                                 '' file descriptors simultaneously.''))
                      (emit (SetRlimit (rlim_hard s) (rlim_hard s))
                        ((emit (Print ''I will now try to raise the file descriptor limit'') s)
                           \<lparr>rlim_soft := rlim_hard s\<rparr>)))"
  using assms by (simp add: raise_fd_limit_def py_simps emit_def)

text \<open>
  C24. Raising the limit sets the soft limit to the hard one and reports it. When
  the platform refuses the value, \<^verbatim>\<open>setrlimit\<close> raises \<^verbatim>\<open>ValueError\<close>, which
  nothing in the script catches: the raise is not best-effort.
\<close>

theorem raise_fd_limit_spec:
  "(env_rlimit_ok E \<longrightarrow>
      fst (raise_fd_limit E s) = Inr () \<and>
      rlim_soft (snd (raise_fd_limit E s)) = rlim_hard s \<and>
      rlim_hard (snd (raise_fd_limit E s)) = rlim_hard s \<and>
      printed (snd (raise_fd_limit E s)) = printed s @
        [''I will now try to raise the file descriptor limit'',
         ''Your server process can open '' @ str_nat (rlim_hard s) @ '' file descriptors simultaneously.''])
   \<and> (\<not> env_rlimit_ok E \<longrightarrow>
      fst (raise_fd_limit E s) = Inl (ValueError ''not allowed to raise maximum limit'') \<and>
      rlim_soft (snd (raise_fd_limit E s)) = rlim_soft s)"
proof (cases "env_rlimit_ok E")
  case True
  then show ?thesis by (simp add: raise_fd_limit_ok emit_def printed_def)
next
  case False
  then show ?thesis by (simp add: raise_fd_limit_def py_simps)
qed

lemma keeps_ex_raise_fd_limit [intro]: "py_keeps extends (raise_fd_limit E)"
  unfolding py_keeps_def extends_def
  by (auto simp: raise_fd_limit_def py_simps emit_def)

section \<open>Cleanup at exit\<close>

lemma clean_up_testing_live: "live (snd (clean_up_testing p s)) = removeAll p (live s)"
  by (auto simp: clean_up_testing_def py_simps removeAll_id)

lemma clean_up_testing_returns: "fst (clean_up_testing p s) = Inr ()"
  by (auto simp: clean_up_testing_def py_simps)

lemma run_exitfuncs_live: "live (run_exitfuncs ps s) = filter (\<lambda>q. q \<notin> set ps) (live s)"
  by (induction ps arbitrary: s) (auto simp: clean_up_testing_live removeAll_filter_not_eq intro: filter_cong)

lemma run_exitfuncs_keeps:
  "fs (run_exitfuncs ps s) = fs s \<and> dirs (run_exitfuncs ps s) = dirs s \<and>
   atexit_pids (run_exitfuncs ps s) = atexit_pids s"
  by (induction ps arbitrary: s) (auto simp: clean_up_testing_def py_simps)

lemma process_exit_runs_handlers:
  "\<forall>sg. r \<noteq> Inl (ProcessKilled sg) \<Longrightarrow>
   process_exit r s = run_exitfuncs (rev (atexit_pids s)) (s\<lparr>atexit_pids := []\<rparr>)"
  by (auto simp: process_exit_def split: sum.splits exn.splits)

text \<open>
  C25. Resource safety of the cleanup hook: on a normal end and on every uncaught
  Python exception, each child whose cleanup was registered is dead after the
  interpreter exits, and no other process is touched.
\<close>

theorem process_exit_kills_registered:
  assumes "\<forall>sg. r \<noteq> Inl (ProcessKilled sg)"
  shows "live (process_exit r s) = filter (\<lambda>q. q \<notin> set (atexit_pids s)) (live s)"
  using assms by (simp add: process_exit_runs_handlers run_exitfuncs_live)

lemma keeps_ns_raise_fd_limit: "py_keeps nospawn (raise_fd_limit E)"
  unfolding py_keeps_def nospawn_def extends_def added_def
  by (auto simp: raise_fd_limit_def py_simps emit_def)

theorem raise_fd_limit_spec_witness:
  "env_rlimit_ok env0 \<and> fst (raise_fd_limit env0 world0) = Inr () \<and>
   rlim_soft (snd (raise_fd_limit env0 world0)) = 4096 \<and>
   \<not> env_rlimit_ok (env0\<lparr>env_rlimit_ok := False\<rparr>) \<and>
   fst (raise_fd_limit (env0\<lparr>env_rlimit_ok := False\<rparr>) world0) = Inl (ValueError ''not allowed to raise maximum limit'')"
proof -
  have ok: "env_rlimit_ok env0" and bad: "\<not> env_rlimit_ok (env0\<lparr>env_rlimit_ok := False\<rparr>)"
    by (simp_all add: env0_def)
  have "rlim_hard world0 = 4096" by (simp add: world0_def)
  with ok bad raise_fd_limit_spec [of env0 world0] raise_fd_limit_spec [of "env0\<lparr>env_rlimit_ok := False\<rparr>" world0]
  show ?thesis by simp
qed

theorem process_exit_kills_registered_witness:
  "live (process_exit (Inr ()) (world0\<lparr>live := [1000, 1001], atexit_pids := [1000]\<rparr>)) = [1001]"
proof -
  have h: "\<forall>sg. (Inr () :: exn + unit) \<noteq> Inl (ProcessKilled sg)" by simp
  show ?thesis using process_exit_kills_registered [OF h, of "world0\<lparr>live := [1000, 1001], atexit_pids := [1000]\<rparr>"]
    by simp
qed

end
