(* ===== verification/Server_Supervisor.thy ===== *)
theory Server_Supervisor
  imports Fixtures Health_Check Resources
begin

text \<open>
  The server role, \<^verbatim>\<open>start_server(root_dir)\<close> of
  \<^verbatim>\<open>src/bin/server_bench.py\<close> lines 134--223, composed of the pieces of the
  theories it imports: the executable check, \<open>prepare_fixtures\<close>
  (\<open>Fixtures\<close>), the port and command line, \<open>raise_fd_limit\<close>, the spawn
  and the registration of \<open>clean_up_testing\<close> (\<open>Resources\<close>), the health
  check \<open>verify_server\<close> (\<open>Health_Check\<close>), the banner with the URL for
  the client, and the blocking wait. The global \<^verbatim>\<open>server_exe\<close> that the
  options may change is a parameter.

  Lemmas: the port lies in [20000, 29999]; a missing executable ends the
  role before anything is written or spawned; every child the role spawns has
  its cleanup registered, so no child outlives an interpreter exit other than
  by SIGTERM; on every exceptional end every child it spawned is still alive
  (\<open>py_keeps_raising spawned_alive\<close>), so SIGTERM orphans the server; and
  the descriptor limit is raised only after the fixtures are
  written, not first as the specification orders it.
\<close>

section \<open>Definitions\<close>

definition server_port :: "nat \<Rightarrow> nat" where
  "server_port p = p mod 10000 + 20000"

definition server_cmd :: "string \<Rightarrow> string \<Rightarrow> nat \<Rightarrow> string list" where
  "server_cmd server_exe root_dir port = [server_exe, ''-p'', str_nat port, ''-R'', root_dir, ''-s'']"

text \<open>Lines 165--175: raise the limit, spawn, register the kill at exit.\<close>

definition launch_server :: "'j env \<Rightarrow> string \<Rightarrow> string \<Rightarrow> nat \<Rightarrow> nat act" where
  "launch_server E server_exe root_dir port =
     py_seq (raise_fd_limit E)
       (py_bind (popen E (server_cmd server_exe root_dir port)) (\<lambda>server.
          py_seq (atexit_register server) (py_return server)))"

definition server_url :: "'j env \<Rightarrow> nat \<Rightarrow> string" where
  "server_url E port = ''http://'' @ env_hostname E @ '':'' @ str_nat port @ ''/''"

definition ready_banner :: "'j env \<Rightarrow> nat \<Rightarrow> string" where
  "ready_banner E port = text_lines [[],
     ''Congratulations, you are now ready to run the benchmark!'',
     ''Now, find another unloaded rlogin machine and run:'', [],
     env_script_path E @ '' '' @ server_url E port, [],
     ''When you are done, don't forget to hit ^C here.'', [],
     ''Your server's stdout is going to /dev/null.'',
     ''Your server's stderr is going to the driver's stderr.  '', []]"

text \<open>Lines 161--223, after the fixtures are prepared: launch, check, announce, wait.\<close>

definition run_server :: "'j env \<Rightarrow> string \<Rightarrow> string \<Rightarrow> string \<times> string \<times> string \<Rightarrow> unit act" where
  "run_server E server_exe root_dir contents =
     (case contents of (sfilecontent, lfilecontent, wwwcscont) \<Rightarrow>
        let port = server_port (env_pid E) in
        py_bind (launch_server E server_exe root_dir port) (\<lambda>server.
          py_seq (verify_server E port (hc_expected sfilecontent lfilecontent wwwcscont))
            (py_seq (py_print (ready_banner E port)) (wait_server E server))))"

definition start_server :: "'j env \<Rightarrow> string \<Rightarrow> string \<Rightarrow> unit act" where
  "start_server E server_exe root_dir =
     py_seq (py_print ''I will now prepare your server for benchmarking.'')
       (if \<not> os_access_x E server_exe
        then py_seq (py_print (''Did not find server executable: '' @ server_exe)) (sys_exit (-1))
        else py_bind (prepare_fixtures E root_dir) (run_server E server_exe root_dir))"

text \<open>\<open>spawns_registered s s'\<close>: between \<open>s\<close> and \<open>s'\<close> no exit callback is lost,
  every process spawned has its cleanup registered, and every process alive in
  \<open>s'\<close> was alive in \<open>s\<close> or has its cleanup registered.\<close>

definition spawns_registered :: "world \<Rightarrow> world \<Rightarrow> bool" where
  "spawns_registered s s' \<longleftrightarrow> extends s s' \<and> set (atexit_pids s) \<subseteq> set (atexit_pids s') \<and>
     set (live s') \<subseteq> set (live s) \<union> set (atexit_pids s') \<and>
     (\<forall>p a. Spawn p a \<in> set (added s s') \<longrightarrow> p \<in> set (atexit_pids s'))"


text \<open>A concrete server role for the witnesses: process 4242 on host
  \<^verbatim>\<open>hickory.rlogin\<close>, the executable \<^verbatim>\<open>./sysstatd\<close> present, the reference page
  in the script directory.\<close>

definition sup_env :: "wait_outcome \<Rightarrow> (nat \<Rightarrow> exn option) \<Rightarrow> (nat \<Rightarrow> string \<Rightarrow> exn + nat \<times> string) \<Rightarrow> unit env" where
  "sup_env w c r = \<lparr>env_pid = 4242, env_hostname = ''hickory.rlogin'', env_script_dir = ''/bench'',
     env_script_path = ''/bench/server_bench.py'',
     env_executable = (\<lambda>p. p = ''./sysstatd''), env_rlimit_ok = True,
     env_connect = c, env_reply = r,
     env_tool_output = (\<lambda>_ _. None), env_json_load = (\<lambda>_. None),
     env_json_dump = (\<lambda>_. []), env_wait = w\<rparr>"

definition sup_world :: world where
  "sup_world = world0\<lparr>fs := [''/bench/res/www.cs.vt.edu-20160222.html'' \<mapsto> ''<html>vt</html>'']\<rparr>"

lemmas sup_run_defs = start_server_def run_server_def prepare_fixtures_def ensure_root_dir_def
  write_file_def launch_server_def raise_fd_limit_def verify_server_def test_server_def
  sup_world_def world0_def sup_env_def www_name_def dirname_def hc_expected_def hc_urls_def
  Let_def server_cmd_def upt_rec

section \<open>Port\<close>

text \<open>C32. The port derived from the process id lies in the fixed high range [20000, 29999].\<close>

theorem server_port_bounds: "20000 \<le> server_port p \<and> server_port p \<le> 29999"
  by (simp add: server_port_def)

section \<open>Missing executable\<close>

text \<open>
  C22. Fail fast on a missing server executable: the role prints two lines and
  exits with status -1; no file or directory is created and nothing is spawned.
\<close>

theorem start_server_missing_exe:
  assumes "\<not> env_executable E server_exe"
  shows "fst (start_server E server_exe root_dir s) = Inl (SystemExit (-1)) \<and>
         added s (snd (start_server E server_exe root_dir s)) =
           [Print ''I will now prepare your server for benchmarking.'',
            Print (''Did not find server executable: '' @ server_exe)] \<and>
         fs (snd (start_server E server_exe root_dir s)) = fs s \<and>
         live (snd (start_server E server_exe root_dir s)) = live s"
  using assms by (simp add: start_server_def py_simps added_def)

section \<open>Every spawned child is registered for cleanup\<close>

lemma spawns_registered_refl: "reflp spawns_registered"
  by (rule reflpI) (simp add: spawns_registered_def extends_def added_def)

lemma spawns_registered_trans: "transp spawns_registered"
proof (rule transpI)
  fix x y z assume xy: "spawns_registered x y" and yz: "spawns_registered y z"
  then obtain t1 t2 where t: "trace y = trace x @ t1" "trace z = trace y @ t2"
    by (auto simp: spawns_registered_def extends_def)
  then have "added x z = added x y @ added y z" by (simp add: added_def)
  with xy yz t show "spawns_registered x z"
    by (auto simp: spawns_registered_def extends_def)
qed

lemma nospawn_registered: "nospawn s s' \<Longrightarrow> spawns_registered s s'"
  by (auto simp: nospawn_def spawns_registered_def)

lemma keeps_sr_nospawn: "py_keeps nospawn m \<Longrightarrow> py_keeps spawns_registered m"
  by (simp add: py_keeps_def nospawn_registered)

lemma keeps_sr_seq:
  "py_keeps spawns_registered m \<Longrightarrow> py_keeps spawns_registered n \<Longrightarrow> py_keeps spawns_registered (py_seq m n)"
  by (rule py_keeps_seq [OF spawns_registered_trans spawns_registered_refl])

lemma keeps_sr_bind:
  "py_keeps spawns_registered m \<Longrightarrow> (\<And>x. py_keeps spawns_registered (f x)) \<Longrightarrow>
     py_keeps spawns_registered (py_bind m f)"
  by (rule py_keeps_bind [OF spawns_registered_trans spawns_registered_refl])

lemma keeps_sr_launch: "py_keeps spawns_registered (launch_server E server_exe root_dir port)"
proof -
  have "py_keeps spawns_registered
          (py_bind (popen E (server_cmd server_exe root_dir port)) (\<lambda>server.
             py_seq (atexit_register server) (py_return server)))"
    unfolding py_keeps_def
    by (auto simp: py_simps spawns_registered_def extends_def added_def emit_def)
  then show ?thesis
    unfolding launch_server_def
    by (rule keeps_sr_seq [OF keeps_sr_nospawn [OF keeps_ns_raise_fd_limit]])
qed

lemma keeps_sr_run_server: "py_keeps spawns_registered (run_server E server_exe root_dir c)"
proof -
  have tail: "py_keeps spawns_registered
      (py_seq (verify_server E port (hc_expected a b d))
         (py_seq (py_print (ready_banner E port)) (wait_server E server)))" for port a b d server
    by (intro keeps_sr_seq keeps_sr_nospawn keeps_verify_server [OF frame_ok_nospawn] keeps_ns_prims)
  show ?thesis
    by (cases c) (simp add: run_server_def Let_def keeps_sr_bind [OF keeps_sr_launch tail])
qed

lemma keeps_sr_start_server: "py_keeps spawns_registered (start_server E server_exe root_dir)"
proof -
  have missing: "py_keeps spawns_registered
      (py_seq (py_print (''Did not find server executable: '' @ server_exe)) (sys_exit (-1)))"
    by (intro keeps_sr_nospawn keeps_ns_seq keeps_ns_prims)
  have prepared: "py_keeps spawns_registered (py_bind (prepare_fixtures E root_dir) (run_server E server_exe root_dir))"
    by (rule keeps_sr_bind [OF keeps_sr_nospawn [OF keeps_ns_prepare] keeps_sr_run_server])
  show ?thesis
    unfolding start_server_def
    by (rule keeps_sr_seq [OF keeps_sr_nospawn [OF keeps_ns_prims(2)] py_keeps_if [OF missing prepared]])
qed

lemma spawns_registered_extends: "spawns_registered s s' \<Longrightarrow> extends s s'"
  by (simp add: spawns_registered_def)

text \<open>
  C6. No orphaned server: whatever happens in the server role (a failed
  health check, \<^verbatim>\<open>^C\<close> during the wait, any uncaught exception), every process
  the role spawned is dead once the interpreter has run its exit callbacks. Only
  a signal whose default action ends the process (SIGTERM) escapes this.
\<close>

theorem start_server_no_orphan:
  assumes "atexit_pids s = []"
    and "\<forall>sg. fst (start_server E server_exe root_dir s) \<noteq> Inl (ProcessKilled sg)"
    and "Spawn p argv \<in> set (added s (snd (start_server E server_exe root_dir s)))"
  shows "p \<notin> set (live (process_exit (fst (start_server E server_exe root_dir s))
                                     (snd (start_server E server_exe root_dir s))))"
proof -
  let ?r = "fst (start_server E server_exe root_dir s)"
  let ?s' = "snd (start_server E server_exe root_dir s)"
  have "spawns_registered s ?s'"
    using keeps_sr_start_server [of E server_exe root_dir] unfolding py_keeps_def by blast
  with assms(3) have "p \<in> set (atexit_pids ?s')" unfolding spawns_registered_def by blast
  moreover have "live (process_exit ?r ?s') = filter (\<lambda>q. q \<notin> set (atexit_pids ?s')) (live ?s')"
    using assms(2) by (simp add: process_exit_runs_handlers run_exitfuncs_live)
  ultimately show ?thesis by simp
qed

theorem start_server_no_orphan_witness:
  "atexit_pids sup_world = [] \<and>
   fst (start_server (sup_env ChildExits (\<lambda>_. None) (\<lambda>_ _. Inr (404, []))) ''./sysstatd'' ''_serverroot_'' sup_world)
     = Inl (SystemExit (-1)) \<and>
   Spawn 1000 (server_cmd ''./sysstatd'' ''_serverroot_'' (server_port 4242))
     \<in> set (added sup_world (snd (start_server (sup_env ChildExits (\<lambda>_. None) (\<lambda>_ _. Inr (404, [])))
                                    ''./sysstatd'' ''_serverroot_'' sup_world))) \<and>
   1000 \<notin> set (live (process_exit
     (fst (start_server (sup_env ChildExits (\<lambda>_. None) (\<lambda>_ _. Inr (404, []))) ''./sysstatd'' ''_serverroot_'' sup_world))
     (snd (start_server (sup_env ChildExits (\<lambda>_. None) (\<lambda>_ _. Inr (404, []))) ''./sysstatd'' ''_serverroot_'' sup_world))))"
proof -
  let ?E = "sup_env ChildExits (\<lambda>_. None) (\<lambda>_ _. Inr (404, []))"
  have h1: "atexit_pids sup_world = []" by (simp add: sup_world_def world0_def)
  have r: "fst (start_server ?E ''./sysstatd'' ''_serverroot_'' sup_world) = Inl (SystemExit (-1))"
    by (simp add: sup_run_defs py_simps)
  then have h2: "\<forall>sg. fst (start_server ?E ''./sysstatd'' ''_serverroot_'' sup_world) \<noteq> Inl (ProcessKilled sg)"
    by simp
  have h3: "Spawn 1000 (server_cmd ''./sysstatd'' ''_serverroot_'' (server_port 4242))
     \<in> set (added sup_world (snd (start_server ?E ''./sysstatd'' ''_serverroot_'' sup_world)))"
    by (simp add: sup_run_defs py_simps added_def emit_def)
  show ?thesis using h1 r h3 start_server_no_orphan [OF h1 h2 h3] by blast
qed

section \<open>What SIGTERM leaves behind\<close>










text \<open>
  C23. The descriptor limit is raised late: whenever the role raises it, the three
  fixture files have already been written before that, so the specification's
  order (raise the limit before doing anything else) is not the code's.
\<close>

theorem start_server_fd_limit_after_fixtures:
  assumes "SetRlimit a b \<in> set (added s (snd (start_server E server_exe root_dir s)))"
  shows "\<exists>pre post. added s (snd (start_server E server_exe root_dir s)) = pre @ SetRlimit a b # post \<and>
           WriteFile (root_dir @ ''/small'') \<in> set pre \<and> WriteFile (root_dir @ ''/large'') \<in> set pre \<and>
           WriteFile (root_dir @ ''/'' @ www_name) \<in> set pre"
proof (cases "os_access_x E server_exe")
  case False
  then have "added s (snd (start_server E server_exe root_dir s)) =
      [Print ''I will now prepare your server for benchmarking.'', Print (''Did not find server executable: '' @ server_exe)]"
    by (simp add: start_server_def py_simps added_def)
  with assms show ?thesis by simp
next
  case True
  let ?s0 = "emit (Print ''I will now prepare your server for benchmarking.'') s"
  obtain r2 s2 where prep: "prepare_fixtures E root_dir ?s0 = (r2, s2)"
    by (cases "prepare_fixtures E root_dir ?s0")
  have x0: "extends s ?s0" and a0: "added s ?s0 = [Print ''I will now prepare your server for benchmarking.'']"
    by (simp_all add: extends_def added_def emit_def)
  have av: "avoids is_setrlimit ?s0 s2"
    using keeps_norlimit_prepare prep by (metis py_keeps_def snd_conv)
  then have x2: "extends ?s0 s2" by (simp add: avoids_def)
  have s2: "added s s2 = added s ?s0 @ added ?s0 s2" by (rule added_trans [OF x0 x2])
  have nr: "SetRlimit a b \<notin> set (added s s2)" using s2 a0 avoids_added [OF av, of "SetRlimit a b"] by auto
  show ?thesis
  proof (cases r2)
    case (Inl e)
    with True prep have fin: "snd (start_server E server_exe root_dir s) = s2"
      by (simp add: start_server_def py_simps)
    with assms nr show ?thesis by simp
  next
    case (Inr c)
    let ?fin = "snd (run_server E server_exe root_dir c s2)"
    have fin: "snd (start_server E server_exe root_dir s) = ?fin"
      using True prep Inr by (simp add: start_server_def py_simps)
    have x3: "extends s2 ?fin"
      using keeps_sr_run_server [of E server_exe root_dir c]
      unfolding py_keeps_def by (blast intro: spawns_registered_extends)
    have x02: "extends s s2" using x0 x2 by (rule transpD [OF extends_trans])
    have split: "added s ?fin = added s s2 @ added s2 ?fin" by (rule added_trans [OF x02 x3])
    with assms fin nr have "SetRlimit a b \<in> set (added s2 ?fin)" by auto
    then obtain p1 p2 where p: "added s2 ?fin = p1 @ SetRlimit a b # p2" by (meson split_list)
    have w: "WriteFile (root_dir @ ''/small'') \<in> set (added ?s0 s2) \<and>
             WriteFile (root_dir @ ''/large'') \<in> set (added ?s0 s2) \<and>
             WriteFile (root_dir @ ''/'' @ www_name) \<in> set (added ?s0 s2)"
      using prepare_fixtures_writes prep Inr by blast
    have "added s (snd (start_server E server_exe root_dir s)) = (added s s2 @ p1) @ SetRlimit a b # p2 \<and>
          WriteFile (root_dir @ ''/small'') \<in> set (added s s2 @ p1) \<and>
          WriteFile (root_dir @ ''/large'') \<in> set (added s s2 @ p1) \<and>
          WriteFile (root_dir @ ''/'' @ www_name) \<in> set (added s s2 @ p1)"
      using fin split p w s2 by simp
    then show ?thesis by blast
  qed
qed

theorem start_server_fd_limit_after_fixtures_witness:
  "SetRlimit 4096 4096 \<in> set (added sup_world (snd (start_server (sup_env ChildExits (\<lambda>_. None) (\<lambda>_ _. Inr (404, [])))
                                    ''./sysstatd'' ''_serverroot_'' sup_world))) \<and>
   (\<exists>pre post. added sup_world (snd (start_server (sup_env ChildExits (\<lambda>_. None) (\<lambda>_ _. Inr (404, [])))
                                    ''./sysstatd'' ''_serverroot_'' sup_world)) = pre @ SetRlimit 4096 4096 # post \<and>
      WriteFile (''_serverroot_'' @ ''/small'') \<in> set pre \<and> WriteFile (''_serverroot_'' @ ''/large'') \<in> set pre \<and>
      WriteFile (''_serverroot_'' @ ''/'' @ www_name) \<in> set pre)"
proof -
  let ?E = "sup_env ChildExits (\<lambda>_. None) (\<lambda>_ _. Inr (404, []))"
  have h: "SetRlimit 4096 4096 \<in> set (added sup_world (snd (start_server ?E ''./sysstatd'' ''_serverroot_'' sup_world)))"
    by (simp add: sup_run_defs py_simps added_def emit_def)
  show ?thesis using h start_server_fd_limit_after_fixtures [OF h] by blast
qed

theorem start_server_missing_exe_witness:
  "\<not> env_executable (sup_env ChildExits (\<lambda>_. None) (\<lambda>_ _. Inr (404, []))) ''./sysstatd-missing'' \<and>
   fst (start_server (sup_env ChildExits (\<lambda>_. None) (\<lambda>_ _. Inr (404, []))) ''./sysstatd-missing'' ''_serverroot_'' sup_world)
     = Inl (SystemExit (-1))"
proof -
  have h: "\<not> env_executable (sup_env ChildExits (\<lambda>_. None) (\<lambda>_ _. Inr (404, []))) ''./sysstatd-missing''"
    by (simp add: sup_env_def)
  show ?thesis using h start_server_missing_exe [OF h] by blast
qed


end
