(* ===== verification/Dispatcher.thy ===== *)
theory Dispatcher
  imports Options Aggregator Server_Supervisor "HOL-Library.While_Combinator"
begin

text \<open>
  The role dispatcher, \<^verbatim>\<open>src/bin/server_bench.py\<close> lines 96--122 and 245--278:
  after the command line is parsed, no positional argument selects the server
  role (\<^verbatim>\<open>start_server(server_root)\<close>); otherwise the first one is the URL of
  the client role, which strips its trailing slashes with a \<^verbatim>\<open>while\<close> loop,
  refuses to run when the local host name occurs in it, raises the
  descriptor limit and runs the tests. \<open>run_script\<close> adds the interpreter's
  exit: the status the process ends with and the \<^verbatim>\<open>atexit\<close> callbacks.

  Lemmas: the slash loop terminates and equals a reference definition; the
  guard stops the client before any traffic; the guard is a substring test,
  not the host comparison the specification asks for; and across both roles
  and every command line, no child process outlives the script unless it is
  killed by SIGTERM.
\<close>

section \<open>Definitions\<close>

text \<open>Lines 250--251: \<^verbatim>\<open>while url.endswith("/"): url = url[:-1]\<close>.\<close>

definition strip_slashes :: "string \<Rightarrow> string" where
  "strip_slashes url = while (\<lambda>u. py_endswith u ''/'') butlast url"

text \<open>The reference: the URL without its final run of slashes.\<close>

definition strip_slashes_ref :: "string \<Rightarrow> string" where
  "strip_slashes_ref url = rev (dropWhile (\<lambda>c. c = CHR ''/'') (rev url))"

text \<open>The host component of an \<^verbatim>\<open>http://host:port/\<close> URL, as the specification
  means it: what follows \<^verbatim>\<open>//\<close> up to the port or the path.\<close>

definition url_host :: "string \<Rightarrow> string" where
  "url_host url = takeWhile (\<lambda>c. c \<noteq> CHR '':'' \<and> c \<noteq> CHR ''/'') (drop 7 url)"

text \<open>Line 253: \<^verbatim>\<open>hostname in url\<close>, a substring test.\<close>

definition same_host :: "'j env \<Rightarrow> string \<Rightarrow> bool" where
  "same_host E url \<longleftrightarrow> py_in (env_hostname E) url"

text \<open>Lines 248--278.\<close>

definition client_role :: "'j env \<Rightarrow> bool \<Rightarrow> string list \<Rightarrow> string \<Rightarrow> unit act" where
  "client_role E verbose teststorun url0 =
     (let url = strip_slashes url0 in
      if same_host E url
      then py_seq (py_print ''Please do not start the client on the same machine as the server.'')
             (sys_exit (-1))
      else py_seq (raise_fd_limit E) (run_tests E verbose url teststorun))"

text \<open>Lines 96--122 and 245--255: parse, then choose the role.\<close>

definition main :: "'j env \<Rightarrow> string list \<Rightarrow> unit act" where
  "main E argv =
     py_bind (parse_command_line argv) (\<lambda>(c, args).
       if args = [] then start_server E (cfg_server_exe c) (cfg_server_root c)
       else client_role E (cfg_verbose c) (cfg_teststorun c) (hd args))"

text \<open>The whole process: the exit status and the state after the exit handlers.\<close>

definition run_script :: "'j env \<Rightarrow> string list \<Rightarrow> world \<Rightarrow> int \<times> world" where
  "run_script E argv s = (case main E argv s of (r, s') \<Rightarrow> (exit_status r, process_exit r s'))"

text \<open>\<open>no_leak s s'\<close>: no exit callback is lost, and every process alive in \<open>s'\<close>
  was alive in \<open>s\<close> or has its cleanup registered.\<close>

definition no_leak :: "world \<Rightarrow> world \<Rightarrow> bool" where
  "no_leak s s' \<longleftrightarrow> set (atexit_pids s) \<subseteq> set (atexit_pids s') \<and>
     set (live s') \<subseteq> set (live s) \<union> set (atexit_pids s')"

section \<open>The trailing-slash loop\<close>

lemma strip_ref_snoc:
  "strip_slashes_ref (v @ [c]) = (if c = CHR ''/'' then strip_slashes_ref v else v @ [c])"
  by (simp add: strip_slashes_ref_def)

lemma strip_ref_step:
  assumes "py_endswith u ''/''"
  shows "strip_slashes_ref (butlast u) = strip_slashes_ref u \<and> length (butlast u) < length u"
proof -
  from assms have u: "u \<noteq> []" "last u = CHR ''/''" by (simp_all add: py_endswith_slash)
  then obtain v where "u = v @ [CHR ''/'']" by (metis append_butlast_last_id)
  then show ?thesis by (simp add: strip_ref_snoc)
qed

lemma strip_ref_done: "\<not> py_endswith u ''/'' \<Longrightarrow> strip_slashes_ref u = u"
proof (cases u rule: rev_cases)
  case Nil
  then show ?thesis by (simp add: strip_slashes_ref_def)
next
  case (snoc v c)
  moreover assume "\<not> py_endswith u ''/''"
  ultimately show ?thesis by (simp add: strip_slashes_ref_def py_endswith_slash)
qed

lemma strip_while_Some:
  "while_option (\<lambda>u. py_endswith u ''/'') butlast url = Some (strip_slashes_ref url)"
proof -
  have "\<exists>t. while_option (\<lambda>u. py_endswith u ''/'') butlast url = Some t"
    by (rule measure_while_option_Some [where P = "\<lambda>_. True" and f = length]) (auto dest: strip_ref_step)
  then obtain t where t: "while_option (\<lambda>u. py_endswith u ''/'') butlast url = Some t" by blast
  have "strip_slashes_ref t = strip_slashes_ref url"
    by (rule while_option_rule [where P = "\<lambda>u. strip_slashes_ref u = strip_slashes_ref url", OF _ t])
       (simp_all add: strip_ref_step)
  moreover have "strip_slashes_ref t = t" using while_option_stop [OF t] by (rule strip_ref_done)
  ultimately show ?thesis using t by simp
qed

lemma strip_slashes_eq: "strip_slashes url = strip_slashes_ref url"
  by (simp add: strip_slashes_def while_def strip_while_Some)


text \<open>
  C21. What the loop computes: the URL minus exactly its trailing slashes; the
  result no longer ends with a slash and appending the removed slashes gives
  the argument back.
\<close>

theorem strip_slashes_spec:
  "\<not> py_endswith (strip_slashes url) ''/'' \<and> (\<exists>k. url = strip_slashes url @ replicate k CHR ''/'')"
proof (induction url rule: rev_induct)
  case Nil
  then show ?case by (simp add: strip_slashes_eq strip_slashes_ref_def py_endswith_slash)
next
  case (snoc c v)
  show ?case
  proof (cases "c = CHR ''/''")
    case True
    have eq: "strip_slashes (v @ [c]) = strip_slashes v"
      using True by (simp add: strip_slashes_eq strip_ref_snoc)
    from snoc obtain k where ne: "\<not> py_endswith (strip_slashes v) ''/''"
      and vk: "v = strip_slashes v @ replicate k CHR ''/''" by blast
    have "v @ [c] = strip_slashes (v @ [c]) @ replicate (Suc k) CHR ''/''"
      using vk True eq by (metis append_assoc replicate_Suc replicate_append_same)
    moreover have "\<not> py_endswith (strip_slashes (v @ [c])) ''/''" using ne eq by simp
    ultimately show ?thesis by blast
  next
    case False
    then have "v @ [c] = strip_slashes (v @ [c]) @ replicate 0 CHR ''/''"
      by (simp add: strip_slashes_eq strip_ref_snoc)
    moreover have "\<not> py_endswith (strip_slashes (v @ [c])) ''/''"
      using False by (simp add: strip_slashes_eq strip_ref_snoc py_endswith_slash)
    ultimately show ?thesis by blast
  qed
qed

section \<open>The same-host guard\<close>

text \<open>
  C7. The same-host guard stops the client before any traffic: when the host
  name occurs in the stripped URL, the client role prints one line and exits
  with status -1; nothing is spawned, requested, written or changed.
\<close>

theorem client_role_same_host_refused:
  assumes "same_host E (strip_slashes url)"
  shows "client_role E v names url s =
           (Inl (SystemExit (-1)), emit (Print ''Please do not start the client on the same machine as the server.'') s)"
  using assms by (simp add: client_role_def py_simps)

lemma takeWhile_append_ne: "ys \<noteq> [] \<Longrightarrow> P (hd ys) \<Longrightarrow> takeWhile P (h @ ys) \<noteq> h"
  by (induction h) (auto simp: neq_Nil_conv)

lemma strip_ref_append:
  assumes "xs \<noteq> []" "last xs \<noteq> CHR ''/''"
  shows "strip_slashes_ref (xs @ zs) = xs @ strip_slashes_ref zs"
  using assms by (cases xs rule: rev_cases) (auto simp: strip_slashes_ref_def dropWhile_append)

text \<open>
  C8. The guard is a substring test, not the host comparison of the
  specification: on every host \<open>h\<close>, the client refuses every URL whose host
  is \<open>h\<close> followed by a number (\<^verbatim>\<open>node1\<close> refuses \<^verbatim>\<open>node10\<close>,
  \<^verbatim>\<open>node12\<close>, \<^verbatim>\<open>node100\<close>, ...), though that host is a different one.
\<close>

theorem same_host_substring:
  "url_host (''http://'' @ env_hostname E @ str_nat n @ rest) \<noteq> env_hostname E \<and>
   fst (client_role E v names (''http://'' @ env_hostname E @ str_nat n @ rest) s) = Inl (SystemExit (-1))"
proof
  have ne: "str_nat n \<noteq> []" by (rule str_nat_nonempty)
  have sep: "hd (str_nat n) \<noteq> CHR '':'' \<and> hd (str_nat n) \<noteq> CHR ''/''"
    using ne str_nat_no_sep [of "hd (str_nat n)" n] by simp
  show "url_host (''http://'' @ env_hostname E @ str_nat n @ rest) \<noteq> env_hostname E"
    unfolding url_host_def using takeWhile_append_ne [of "str_nat n @ rest"] ne sep by simp
  have "last (''http://'' @ env_hostname E @ str_nat n) \<noteq> CHR ''/''"
    using ne str_nat_no_sep [of "last (str_nat n)" n] by simp
  then have "strip_slashes (''http://'' @ env_hostname E @ str_nat n @ rest) =
             ''http://'' @ env_hostname E @ str_nat n @ strip_slashes_ref rest"
    unfolding strip_slashes_eq using strip_ref_append [of "''http://'' @ env_hostname E @ str_nat n" rest] by simp
  then have "same_host E (strip_slashes (''http://'' @ env_hostname E @ str_nat n @ rest))"
    by (simp only: same_host_def append.assoc py_in_append)
  then show "fst (client_role E v names (''http://'' @ env_hostname E @ str_nat n @ rest) s) = Inl (SystemExit (-1))"
    by (simp add: client_role_def py_simps)
qed

lemma server_url_stripped:
  "strip_slashes (server_url E port) = ''http://'' @ env_hostname E @ '':'' @ str_nat port"
proof -
  have ne: "str_nat port \<noteq> []" by (rule str_nat_nonempty)
  have "last (str_nat port) \<noteq> CHR ''/''"
    using ne str_nat_no_sep [of "last (str_nat port)" port] by simp
  then have "\<not> py_endswith (''http://'' @ env_hostname E @ '':'' @ str_nat port) ''/''"
    using ne by (simp add: py_endswith_slash)
  then have x: "strip_slashes_ref (''http://'' @ env_hostname E @ '':'' @ str_nat port) =
               ''http://'' @ env_hostname E @ '':'' @ str_nat port" by (rule strip_ref_done)
  have e: "server_url E port = (''http://'' @ env_hostname E @ '':'' @ str_nat port) @ [CHR ''/'']"
    by (simp add: server_url_def)
  show ?thesis
    unfolding e strip_slashes_eq strip_ref_snoc using x by simp
qed

text \<open>
  C33. The two roles agree on the guard: a client started on the server's own host
  with the URL the server role prints (\<^verbatim>\<open>http://hostname:port/\<close>) is
  refused before any traffic, with status -1.
\<close>

theorem server_url_refused_on_server_host:
  "client_role E v names (server_url E port) s =
     (Inl (SystemExit (-1)), emit (Print ''Please do not start the client on the same machine as the server.'') s)"
proof -
  have "same_host E (strip_slashes (server_url E port))"
    unfolding server_url_stripped same_host_def
    using py_in_append [of "env_hostname E" "''http://''" "'':'' @ str_nat port"] by simp
  then show ?thesis by (simp add: client_role_def py_simps)
qed

section \<open>No child outlives the script\<close>

lemma no_leak_refl: "reflp no_leak"
  by (rule reflpI) (simp add: no_leak_def)

lemma no_leak_trans: "transp no_leak"
  by (rule transpI) (auto simp: no_leak_def)

lemma keeps_nl_of:
  "py_keeps nospawn m \<Longrightarrow> py_keeps no_leak m" "py_keeps spawns_registered m \<Longrightarrow> py_keeps no_leak m"
  "py_keeps client_frame m \<Longrightarrow> py_keeps no_leak m"
  by (auto simp: py_keeps_def no_leak_def nospawn_def spawns_registered_def client_frame_def)

lemmas keeps_nl_seq = py_keeps_seq [OF no_leak_trans no_leak_refl]
lemmas keeps_nl_bind = py_keeps_bind [OF no_leak_trans no_leak_refl]

lemma keeps_nl_run_tests: "py_keeps no_leak (run_tests E v url names)"
proof -
  have w: "py_keeps no_leak (write_report E m)" for m
    unfolding write_report_def
    by (rule keeps_nl_of(1)) (intro keeps_ns_seq keeps_ns_prims)
  show ?thesis
    unfolding run_tests_def
    by (rule keeps_nl_bind [OF keeps_nl_of(3) [OF keeps_cf_client_loop] w])
qed

lemma keeps_nl_client_role: "py_keeps no_leak (client_role E v names url)"
proof -
  have refuse: "py_keeps no_leak (py_seq (py_print msg) (sys_exit k))" for msg k
    by (rule keeps_nl_of(1)) (intro keeps_ns_seq keeps_ns_prims)
  have run: "py_keeps no_leak (py_seq (raise_fd_limit E) (run_tests E v u names))" for u
    by (rule keeps_nl_seq [OF keeps_nl_of(1) [OF keeps_ns_raise_fd_limit] keeps_nl_run_tests])
  show ?thesis by (simp add: client_role_def Let_def refuse run)
qed

lemma keeps_nl_main: "py_keeps no_leak (main E argv)"
proof -
  have role: "py_keeps no_leak (case x of (c, args) \<Rightarrow>
                 if args = [] then start_server E (cfg_server_exe c) (cfg_server_root c)
                 else client_role E (cfg_verbose c) (cfg_teststorun c) (hd args))" for x
    by (cases x) (simp add: keeps_nl_client_role keeps_nl_of(2) [OF keeps_sr_start_server])
  show ?thesis
    unfolding main_def
    by (rule keeps_nl_bind [OF keeps_nl_of(1) [OF keeps_ns_parse] role])
qed

text \<open>
  C2. Across both roles and every command line, no child process outlives the
  script: after the interpreter has run its exit callbacks, every process
  alive was alive before the script started. The server child is killed by the
  \<^verbatim>\<open>atexit\<close> callback, each \<^verbatim>\<open>wrk\<close> child is waited for. Only death by
  SIGTERM, which runs no callback, escapes.
\<close>

theorem run_script_no_orphan:
  assumes "\<forall>sg. fst (main E argv s) \<noteq> Inl (ProcessKilled sg)"
  shows "set (live (snd (run_script E argv s))) \<subseteq> set (live s)"
proof -
  obtain r s' where m: "main E argv s = (r, s')" by (cases "main E argv s")
  have "no_leak s s'" using keeps_nl_main [of E argv] m by (metis py_keeps_def snd_conv)
  moreover have "\<forall>sg. r \<noteq> Inl (ProcessKilled sg)" using assms m by simp
  ultimately show ?thesis
    using m by (auto simp: run_script_def no_leak_def process_exit_runs_handlers run_exitfuncs_live)
qed

text \<open>
  C16. \<^verbatim>\<open>-h\<close> ends the script with status 1 (an uncaught \<^verbatim>\<open>NameError\<close>), not
  with the help text and status 0, whatever else is on the command line.
\<close>

theorem run_script_help_status: "fst (run_script E (''-h'' # xs) s) = 1"
proof -
  obtain r s' where p: "parse_command_line (''-h'' # xs) s = (r, s')"
    by (cases "parse_command_line (''-h'' # xs) s")
  with parse_help_raises [of xs s] have "r = Inl (NameError ''config'')" by simp
  with p show ?thesis by (simp add: run_script_def main_def py_bind_apply exit_status_def)
qed

theorem client_role_same_host_refused_witness:
  "same_host env0 (strip_slashes ''http://hickory.rlogin:24242/'') \<and>
   client_role env0 False default_teststorun ''http://hickory.rlogin:24242/'' world0 =
     (Inl (SystemExit (-1)), emit (Print ''Please do not start the client on the same machine as the server.'') world0)"
proof -
  have h: "same_host env0 (strip_slashes ''http://hickory.rlogin:24242/'')"
    by (simp add: same_host_def env0_def strip_slashes_eq strip_slashes_ref_def py_startswith_def)
  show ?thesis using h client_role_same_host_refused [OF h, of False default_teststorun world0] by blast
qed

theorem run_script_no_orphan_witness:
  "fst (main (sup_env ChildExits (\<lambda>_. None) (\<lambda>_ _. Inr (404, []))) [] sup_world) = Inl (SystemExit (-1)) \<and>
   live (snd (main (sup_env ChildExits (\<lambda>_. None) (\<lambda>_ _. Inr (404, []))) [] sup_world)) = [1000] \<and>
   set (live (snd (run_script (sup_env ChildExits (\<lambda>_. None) (\<lambda>_ _. Inr (404, []))) [] sup_world)))
     \<subseteq> set (live sup_world)"
proof -
  let ?E = "sup_env ChildExits (\<lambda>_. None) (\<lambda>_ _. Inr (404, []))"
  have m: "main ?E [] sup_world = start_server ?E ''./sysstatd'' ''_serverroot_'' sup_world"
    by (simp add: main_def parse_command_line_def py_simps config0_def default_server_exe_def
                  default_server_root_def)
  have r: "fst (main ?E [] sup_world) = Inl (SystemExit (-1))"
    unfolding m by (simp add: sup_run_defs py_simps)
  have l: "live (snd (main ?E [] sup_world)) = [1000]"
    unfolding m by (simp add: sup_run_defs py_simps emit_def)
  have h: "\<forall>sg. fst (main ?E [] sup_world) \<noteq> Inl (ProcessKilled sg)" using r by simp
  show ?thesis using r l run_script_no_orphan [OF h] by blast
qed

end
