(* ===== verification/Spec2Isabelle.thy ===== *)
theory Spec2Isabelle
  imports Dispatcher
begin

text \<open>
  \<^bold>\<open>A verification development of \<^verbatim>\<open>src/bin/server_bench.py\<close>.\<close>

  The program is a Python 2 benchmark driver for the \<^verbatim>\<open>sysstatd\<close> web
  server. Started without a URL it takes the \<^emph>\<open>server role\<close>
  (\<^verbatim>\<open>start_server\<close>, lines 134--223): it checks the server executable,
  writes three fixture files under the server root, derives a port from its
  process id, raises the descriptor limit, spawns the server, registers an
  \<^verbatim>\<open>atexit\<close> callback that kills it, polls the server with a five-request
  health check (at most ten attempts one second apart), prints a banner with
  the URL and waits for the child. Started with a URL it takes the
  \<^emph>\<open>client role\<close> (lines 245--278): it strips trailing slashes, refuses to
  run on the server's host, raises the limit, runs the load generator
  \<^verbatim>\<open>wrk\<close> once per selected test (\<^verbatim>\<open>start_wrk\<close>, lines 225--243) and writes
  the collected JSON results to one report file.

  \<^medskip>\<^bold>\<open>Semantics of the model.\<close> Python statements are actions of type
  \<open>('s, 'a) py = 's \<Rightarrow> (exn + 'a) \<times> 's\<close> (theory \<open>Prelude\<close>): a state
  monad with exceptions, where \<open>exn\<close> has the exception classes the script
  raises or catches and \<open>is_Exception\<close> separates \<^verbatim>\<open>except Exception\<close>
  (which does not catch \<^verbatim>\<open>SystemExit\<close> or \<^verbatim>\<open>KeyboardInterrupt\<close>) from a
  bare \<^verbatim>\<open>except\<close>. The state (theory \<open>Harness_State\<close>) is the record
  \<open>world\<close>: files and directories, live child processes, the next pid, the
  pids whose cleanup is registered with \<^verbatim>\<open>atexit\<close>, the descriptor limits,
  and a trace of observable events (prints, writes, spawns, kills, sleeps,
  connections, requests). Everything the script does not control (its pid,
  host name, directory, which files are executable, whether the kernel
  allows the limit, what the server answers at each attempt, what \<^verbatim>\<open>wrk\<close>
  writes, how the wait ends) is a read-only environment record \<open>env\<close>; the
  library calls (\<^verbatim>\<open>os\<close>, \<^verbatim>\<open>resource\<close>, \<^verbatim>\<open>subprocess\<close>, \<^verbatim>\<open>httplib\<close>,
  \<^verbatim>\<open>time\<close>, \<^verbatim>\<open>atexit\<close>) are primitives over the two, each with the
  exception the library raises on failure.

  \<^medskip>\<^bold>\<open>Theories and what they model.\<close>
  \<^item> \<open>Prelude\<close>: the monad, \<^verbatim>\<open>dict()\<close> of a pair list (\<open>dict_of\<close>, last pair
    wins), and the frame lemmas \<open>py_keeps_*\<close> that lift a relation between
    states through every combinator, with \<open>py_keeps_raising\<close> for the
    relation on the exceptional path only.
  \<^item> \<open>Py_Strings\<close>: \<^verbatim>\<open>str.split\<close>, \<^verbatim>\<open>str.join\<close>, \<^verbatim>\<open>startswith\<close>,
    \<^verbatim>\<open>endswith\<close>, \<^verbatim>\<open>in\<close> on strings and \<^verbatim>\<open>str(n)\<close>, with the split/join
    and \<open>str\<close>/\<open>int\<close> round trips.
  \<^item> \<open>Harness_State\<close>: the world, the environment, the library primitives
    (\<^verbatim>\<open>os.mkdir\<close> with the kernel's parent, existence and permission
    checks; \<^verbatim>\<open>os.access\<close> that calls an existing file writable),
    and the frame relations \<open>only_traced\<close>, \<open>extends\<close>, \<open>nospawn\<close>, \<open>avoids\<close>
    with the lemmas that every primitive keeps them.
  \<^item> \<open>Catalog\<close> (lines 13--66): \<open>runconfig\<close>, the five scenarios \<open>tests\<close>,
    \<open>testsbyname\<close>, the default selection, \<open>listtests\<close>.
  \<^item> \<open>Options\<close> (lines 69--122): \<open>script_dir_of\<close>, \<open>usage\<close>, the record
    \<open>config\<close> of the globals the options set, \<open>apply_opts\<close> (the option loop)
    and \<open>parse_command_line\<close> (the \<^verbatim>\<open>getopt\<close> call and its error path).
    \<^verbatim>\<open>getopt.getopt\<close> itself is library code, modelled from the Python 2
    library as \<open>getopt\<close>, \<open>do_shorts\<close>, \<open>do_longs\<close>; it stops at the first
    positional argument, and its termination is proved by the length of the
    argument list.
  \<^item> \<open>Fixtures\<close> (lines 141--159): \<open>ensure_root_dir\<close>,
    \<open>make_synthetic_content\<close>, \<open>write_file\<close>, \<open>prepare_fixtures\<close>.
  \<^item> \<open>Resources\<close> (lines 124--129, 169--175): \<open>raise_fd_limit\<close>,
    \<open>clean_up_testing\<close>, and \<open>process_exit\<close>, the interpreter's end of
    process: \<^verbatim>\<open>atexit\<close> callbacks run, last registered first, on a normal
    return and on every uncaught exception, and not when SIGTERM kills it.
  \<^item> \<open>Health_Check\<close> (lines 177--209): \<open>test_server\<close> and its request loop
    \<open>check_urls\<close>, the retry loop \<open>health_loop\<close> and the verdict
    \<open>verify_server\<close>, with the pure reference \<open>retry_spec\<close> that the loop
    refines.
  \<^item> \<open>Server_Supervisor\<close> (lines 134--223): \<open>launch_server\<close>, \<open>run_server\<close>,
    \<open>start_server\<close>, composed from the three theories above; the relation
    \<open>spawns_registered\<close> says every spawned child has its cleanup registered,
    and \<open>spawned_alive\<close> that nothing in the role kills a child.
  \<^item> \<open>Load_Driver\<close> (lines 225--243): \<open>start_wrk\<close>, split into the command
    line \<open>wrk_cmd\<close>, the spawn-and-wait \<open>wrk_done\<close> and the read-parse-delete
    \<open>ingest\<close>; the relation \<open>client_frame\<close> (no file write, no new live
    process) is kept by every scenario. \<open>wrk_opts\<close> reads a command line
    back the way \<^verbatim>\<open>wrk\<close> reads its flags.
  \<^item> \<open>Aggregator\<close> (lines 258--278): \<open>run_one\<close>, \<open>client_loop\<close>,
    \<open>write_report\<close>, \<open>run_tests\<close>, with the abstract specification
    \<open>aggregate\<close> and the loop invariant \<open>wrk_inv\<close> (the helper is readable, no
    parseable stale result file exists).
  \<^item> \<open>Dispatcher\<close> (lines 245--278): \<open>strip_slashes\<close> (the \<^verbatim>\<open>while\<close>
    loop as \<open>While_Combinator.while\<close>, with the reference
    \<open>strip_slashes_ref\<close>), the guard \<open>same_host\<close>, \<open>client_role\<close>,
    \<open>main\<close> and \<open>run_script\<close> (the whole process: exit status and exit
    handlers); the relation \<open>no_leak\<close> is kept by both roles.

  \<^medskip>\<^bold>\<open>What is proved.\<close>
  \<^item> The health check: the ready verdict is exact (C3), the tenth attempt is
    wasted by the \<^verbatim>\<open>tries == 9\<close> test (C1), a wrong answer is fatal at once
    instead of retried (C4), at most ten sleeps and no side effect but the
    trace (C30), and a healthy server passes at once (C31).
  \<^item> Process safety: across both roles and every command line no child
    outlives the script (C2); in the server role every spawned child has its
    cleanup registered (C6) and the exit handlers kill exactly those (C25),
    while a SIGTERM at any point of the role leaves every spawned server
    alive after the exit (C26); \<^verbatim>\<open>start_wrk\<close> always reaps \<^verbatim>\<open>wrk\<close> (C14).
  \<^item> The server role: the fixtures round-trip from a usable root (C13), a
    missing executable fails fast (C22), the limit is raised only after the
    fixtures exist (C23), the limit raise itself (C24), an unusable root ends
    in an uncaught \<^verbatim>\<open>OSError\<close>/\<^verbatim>\<open>IOError\<close> with nothing written (C27),
    the port range (C32).
  \<^item> The client role: the report refines \<open>aggregate\<close> (C5), always holds the
    version and only selected catalogue names (C11), is written once at the
    end (C12); unknown names run nothing (C28); one scenario's success path
    (C15), a missing helper (C29), an unparseable result left on disk (C9) and
    a stale result file taken as fresh (C10); the guard refuses before any
    traffic (C7) but is a substring test that refuses every host named like
    the client's followed by a number (C8), and it refuses the URL the
    server role prints when the client runs on the server's host (C33); the
    slash loop terminates (C20) and strips exactly the trailing slashes (C21);
    the \<^verbatim>\<open>wrk\<close> command line, read flag by flag, gives back its scenario
    (C34).
  \<^item> The catalogue: \<open>testsbyname\<close> equals a linear search of \<open>tests\<close> (C35).
  \<^item> The command line: \<^verbatim>\<open>-h\<close> exits 1 (C16), a malformed command line
    crashes in \<^verbatim>\<open>usage()\<close> (C17), the accepted long options reach
    \<^verbatim>\<open>assert False\<close> (C18), and the option loop refines a fold of option
    updates (C19).

  \<^medskip>\<^bold>\<open>Bounds and termination.\<close> No fuel is needed. The loops are
  \<^verbatim>\<open>for tries in range(10)\<close>, the five-element request loop and the loop
  over \<^verbatim>\<open>teststorun\<close> (structural recursion over lists), \<^verbatim>\<open>getopt\<close>
  (a \<open>function\<close> whose termination is proved with the measure \<open>length\<close>),
  and the slash loop (\<open>while\<close>, proved to return with
  \<open>measure_while_option_Some\<close>). The retry bound 10 is the source's.

  \<^medskip>\<^bold>\<open>Not modelled.\<close> The server under test and \<^verbatim>\<open>wrk\<close> are external
  programs, represented only by their observable answers in \<open>env\<close>
  (\<open>env_reply\<close>, \<open>env_tool_output\<close>, \<open>env_wait\<close>). The Python library is
  represented by its primitives, not verified, and JSON values are an opaque
  type with \<open>env_json_load\<close>/\<open>env_json_dump\<close>. The contents of HTTP bodies
  are strings; sockets, timing, the server's stdout redirection to
  \<^verbatim>\<open>/dev/null\<close> and the environment variables passed to \<^verbatim>\<open>wrk\<close> are not
  modelled; \<open>env_script_dir\<close> stands for the value \<open>script_dir_of\<close> computes,
  and \<open>script_dir_of\<close> takes \<^verbatim>\<open>os.path.realpath\<close> as the identity (no
  symbolic links). Files carry no permission bits and paths are not
  normalised. The wait for \<^verbatim>\<open>wrk\<close> (\<open>wait_tool\<close>) always ends with the
  child reaped: a \<^verbatim>\<open>^C\<close> or SIGTERM during a client run is not modelled,
  unlike the server role's wait (\<open>env_wait\<close>).
\<close>

end
